theory Spec2Isabelle
  imports Complex_Main "HOL-Library.Multiset"
begin

section \<open>Open-world mining script and connectivity checker\<close>

text \<open>
  A shallow embedding of \<^verbatim>\<open>New_Better_mining.py\<close> (a resource-gathering script run
  inside a game client's scripting host) and of \<^verbatim>\<open>led_connection_test.py\<close>.
  The script owns no game logic: it reads the host's objects (\<^verbatim>\<open>Player\<close>,
  \<^verbatim>\<open>Journal\<close>, \<^verbatim>\<open>Timer\<close>, ...) and issues commands to them. The model keeps
  the script's globals, the clock, the timers, the message log and the commands issued
  in a record \<open>state\<close>, the host-visible game in a record \<open>game\<close> inside it, and takes
  what the host does in answer to a command as a parameter (record \<open>host\<close>).
\<close>

subsection \<open>Strings\<close>

text \<open>Python's \<^verbatim>\<open>t in s\<close> on strings: \<open>t\<close> occurs in \<open>s\<close> as a contiguous run.\<close>

fun starts_with :: "string \<Rightarrow> string \<Rightarrow> bool" where
  "starts_with [] s = True"
| "starts_with (c # t) [] = False"
| "starts_with (c # t) (d # s) = (c = d \<and> starts_with t s)"

fun str_in :: "string \<Rightarrow> string \<Rightarrow> bool" where
  "str_in t [] = (t = [])"
| "str_in t (c # s) = (starts_with t (c # s) \<or> str_in t s)"

text \<open>\<^verbatim>\<open>'%i' % n\<close>: the decimal digits of an integer, with a minus sign when negative.\<close>

definition digit_char :: "nat \<Rightarrow> char" where
  "digit_char d = ''0123456789'' ! (d mod 10)"

function str_nat :: "nat \<Rightarrow> string" where
  "str_nat n = (if n < 10 then [digit_char n] else str_nat (n div 10) @ [digit_char (n mod 10)])"
  by pat_completeness auto
termination
  by (relation "measure id") auto

declare str_nat.simps [simp del]

definition fmt_i :: "int \<Rightarrow> string" where
  "fmt_i i = (if i < 0 then CHR ''-'' # str_nat (nat (- i)) else str_nat (nat i))"

text \<open>\<^verbatim>\<open>'%i,%i' % (x, y)\<close>, the name of the cooldown timer of the cell \<open>(x, y)\<close>.\<close>

definition coord_key :: "int \<Rightarrow> int \<Rightarrow> string" where
  "coord_key cx cy = fmt_i cx @ '','' @ fmt_i cy"

subsection \<open>Configuration constants\<close>

definition oreCooldown :: nat where "oreCooldown = 1200000"
definition SMELT_ON_TRIGGERS :: bool where "SMELT_ON_TRIGGERS = True"
definition scanRadius :: int where "scanRadius = 30"

definition oreStaticIDs :: "int list" where
  "oreStaticIDs =
    [0x053E, 0x053B, 0x0540, 0x0541, 0x0542, 0x0543, 0x0544, 0x0545, 0x0546, 0x0547, 0x0548, 0x0549,
     0x0459, 0x045A, 0x045B, 0x045C,
     0x1771, 0x1772, 0x1773, 0x1774, 0x1775, 0x1776, 0x1777, 0x1778,
     0x1779, 0x177A, 0x177B, 0x177C, 0x177D, 0x177E, 0x177F, 0x1780]"

definition miningPauseMS :: nat where "miningPauseMS = 300"
definition dragDelay :: nat where "dragDelay = 300"
definition oreID :: int where "oreID = 0x19B9"
definition ingotIDs :: "int list" where "ingotIDs = [0x1BF2, 0x1BEF]"
definition otherResourceIDs :: "int list" where
  "otherResourceIDs = [0x3192, 0x3193, 0x3194, 0x3195, 0x3196, 0x3197, 0x3198]"
definition PROSPECT_TOOL_ID :: int where "PROSPECT_TOOL_ID = 0x0FB4"
definition miningToolIDs :: "int list" where
  "miningToolIDs = [0x0E85, 0x0F39, 0x0E86, 0x0F43, 0x0F44, 0x0F45]"

subsection \<open>Data\<close>

text \<open>\<^verbatim>\<open>class OreSpot\<close>: the fields \<^verbatim>\<open>x, y, z, id\<close>.\<close>

record OreSpot =
  spot_x :: int
  spot_y :: int
  spot_z :: int
  spot_id :: int

text \<open>One entry of \<^verbatim>\<open>Statics.GetStaticsTileInfo\<close>.\<close>

record tile =
  StaticID :: int
  StaticZ :: int

text \<open>
  A host item. \<open>item_Weight\<close> is \<open>None\<close> when the object has no \<^verbatim>\<open>Weight\<close> attribute
  (\<^verbatim>\<open>hasattr\<close> is false); \<open>item_Layer\<close> is \<open>-1\<close> when it has no \<^verbatim>\<open>Layer\<close>.
\<close>

record item =
  item_Serial :: int
  item_ItemID :: int
  item_Name :: string
  item_Layer :: int
  item_Amount :: int
  item_Weight :: "int option"

text \<open>
  A host mobile. \<open>mob_Backpack\<close> is \<open>None\<close> when the attribute is missing or empty,
  \<open>mob_Contains\<close> is \<open>None\<close> when the mobile has no \<^verbatim>\<open>Contains\<close>.
\<close>

record mobile =
  mob_Serial :: int
  mob_Body :: int
  mob_Name :: string
  mob_X :: int
  mob_Y :: int
  mob_Backpack :: "item option"
  mob_Contains :: "item list option"

text \<open>
  What the host shows to the script. A journal line is a pair of its type and its text.
  \<open>Contains_of\<close> gives the content of a container by serial, \<open>None\<close> when the object
  has no \<^verbatim>\<open>Contains\<close>; \<open>world_items\<close> are the items \<^verbatim>\<open>Items.FindBySerial\<close> can find;
  \<open>distances\<close> gives \<^verbatim>\<open>Player.DistanceTo\<close> by serial.
\<close>

record game =
  journal :: "(string \<times> string) list"
  Player_Weight :: int
  Player_MaxWeight :: int
  Player_X :: int
  Player_Y :: int
  Player_Z :: int
  Player_Map :: int
  Player_Mount :: bool
  Player_Serial :: int
  Mining_Skill :: real
  LeftHand :: "item option"
  RightHand :: "item option"
  Backpack_Serial :: int
  Backpack_Contains :: "item list"
  HasTarget :: bool
  enemywar :: "mobile option"
  mobiles :: "mobile list"
  distances :: "int \<Rightarrow> int"
  world_items :: "item list"
  Contains_of :: "int \<Rightarrow> item list option"

text \<open>
  An attribute of the imported \<^verbatim>\<open>auto_smelter\<close> module, as far as
  \<^verbatim>\<open>_normalize_smelter_lists\<close> tells values apart: a Python list of integers, a typed
  \<^verbatim>\<open>List[Int32]\<close>, anything else.
\<close>

datatype attr_value = PyIntList "int list" | Int32List "int list" | OtherValue

text \<open>
  The script's globals and the deterministic part of the host: the clock in
  milliseconds, the timers (name to expiry time), the messages sent with
  \<^verbatim>\<open>Misc.SendMessage\<close> (the hue is dropped) and the commands issued.
  At the start of the script \<^verbatim>\<open>oreSpots\<close> is empty, \<^verbatim>\<open>blockCount\<close> is \<open>0\<close>,
  \<^verbatim>\<open>beetle\<close> is \<^verbatim>\<open>0x002340B0\<close> (\<^verbatim>\<open>GetBeetle\<close> may rebind it) and \<^verbatim>\<open>weightLimit\<close>
  is \<^verbatim>\<open>Player.MaxWeight - 400\<close>, computed once at line 66.
  \<open>smelter_hook\<close> says that \<^verbatim>\<open>maybe_run_smelter_when_spilling_or_overweight\<close> is bound
  to \<^verbatim>\<open>_wrapped_smelter\<close> and not to \<^verbatim>\<open>None\<close>; \<open>smelter_module\<close> holds the
  attributes of the module \<^verbatim>\<open>smelter\<close> in \<^verbatim>\<open>dir\<close> order, \<open>None\<close> when the name is
  not among the globals.
\<close>

datatype command =
    Pause nat
  | UseItem int
  | UseMobile int
  | EquipItem int
  | TargetCancel
  | WaitForTarget nat
  | TargetExecute int int int int
  | ItemsMove int int int
  | MoveOnGround int int int int int
  | Resync
  | HeadTarget int
  | HeadMessage string
  | PathGo int int
  | JournalClear

record state =
  oreSpots :: "OreSpot list"
  blockCount :: int
  beetle :: int
  weightLimit :: int
  smelter_hook :: bool
  smelter_module :: "(string \<times> attr_value) list option"
  now :: nat
  timers :: "string \<rightharpoonup> nat"
  msgs :: "string list"
  commands :: "command list"
  gm :: game

subsection \<open>The host\<close>

text \<open>Python exceptions, by the classes the script tells apart, with their message.\<close>

datatype py_exc =
    NameError string
  | TypeError string
  | IndexError string
  | OtherException string

text \<open>
  The answer of code the script calls but does not own (the smelting helper, the combat
  routine): it returns after some time with a changed game, raises, or never returns.
\<close>

datatype reply = Done nat game | Throws py_exc nat game | Never

text \<open>
  The host as a parameter: \<open>react\<close> is the game after a command, \<open>PathFinding_Go\<close>
  takes the destination \<open>(X, Y)\<close> and answers whether the player arrived,
  \<open>Statics_GetStaticsTileInfo\<close> lists the statics of a cell of a map,
  \<open>Items_FindByID\<close> looks a graphic up in a container, \<open>smelter_run\<close> is the helper
  \<^verbatim>\<open>auto_smelter.maybe_run_smelter_when_spilling_or_overweight\<close> and \<open>combat\<close> the
  fight that \<^verbatim>\<open>CheckEnemy\<close> waits for.
\<close>

record host =
  react :: "command \<Rightarrow> state \<Rightarrow> game"
  PathFinding_Go :: "int \<times> int \<Rightarrow> state \<Rightarrow> bool \<times> game"
  Statics_GetStaticsTileInfo :: "int \<Rightarrow> int \<Rightarrow> int \<Rightarrow> tile list"
  Items_FindByID :: "int \<Rightarrow> int \<Rightarrow> game \<Rightarrow> item option"
  smelter_run :: "state \<Rightarrow> reply"
  combat :: "state \<Rightarrow> reply"

text \<open>
  The result of a script function: it returns a value, an exception leaves it, or it
  never returns (it waits for host code that does not end).
\<close>

datatype 'a result = Returned 'a state | Raised py_exc state | Diverged

definition and_then :: "'a result \<Rightarrow> ('a \<Rightarrow> state \<Rightarrow> 'b result) \<Rightarrow> 'b result" where
  "and_then r f = (case r of Returned v s \<Rightarrow> f v s | Raised e s \<Rightarrow> Raised e s | Diverged \<Rightarrow> Diverged)"

subsection \<open>Host calls\<close>

definition SendMessage :: "string \<Rightarrow> state \<Rightarrow> state" where
  "SendMessage m s = s\<lparr>msgs := msgs s @ [m]\<rparr>"

text \<open>A command: it is recorded and the host answers with the next game.\<close>

definition issue :: "host \<Rightarrow> command \<Rightarrow> state \<Rightarrow> state" where
  "issue h c s = s\<lparr>commands := commands s @ [c], gm := react h c s\<rparr>"

text \<open>\<^verbatim>\<open>Misc.Pause(n)\<close>: the clock advances by \<open>n\<close> milliseconds.\<close>

definition Misc_Pause :: "host \<Rightarrow> nat \<Rightarrow> state \<Rightarrow> state" where
  "Misc_Pause h n s = (issue h (Pause n) s)\<lparr>now := now s + n\<rparr>"

text \<open>
  \<^verbatim>\<open>Timer.Create(name, delay)\<close> starts a timer that expires \<open>delay\<close> milliseconds from
  now; \<^verbatim>\<open>Timer.Check(name)\<close> is true when the timer exists and has not expired.
\<close>

definition Timer_Create :: "string \<Rightarrow> nat \<Rightarrow> state \<Rightarrow> state" where
  "Timer_Create name delay s = s\<lparr>timers := (timers s)(name \<mapsto> now s + delay)\<rparr>"

definition Timer_Check :: "state \<Rightarrow> string \<Rightarrow> bool" where
  "Timer_Check s name = (case timers s name of None \<Rightarrow> False | Some e \<Rightarrow> now s < e)"

definition Journal_SearchByType :: "state \<Rightarrow> string \<Rightarrow> string \<Rightarrow> bool" where
  "Journal_SearchByType s text ty = list_ex (\<lambda>(t, line). t = ty \<and> str_in text line) (journal (gm s))"

definition Journal_Search :: "state \<Rightarrow> string \<Rightarrow> bool" where
  "Journal_Search s text = list_ex (\<lambda>(t, line). str_in text line) (journal (gm s))"

definition Journal_Clear :: "host \<Rightarrow> state \<Rightarrow> state" where
  "Journal_Clear h s = (issue h JournalClear s)\<lparr>gm := (gm s)\<lparr>journal := []\<rparr>\<rparr>"

subsection \<open>Start of the script\<close>

text \<open>
  Lines 6 to 8. The bare name \<^verbatim>\<open>Stop\<close> is bound nowhere in the script: evaluating it
  raises \<^verbatim>\<open>NameError\<close>, which nothing catches, and the script ends. This is how the
  script halts.
\<close>

definition Stop :: "state \<Rightarrow> 'a result" where
  "Stop s = Raised (NameError ''name 'Stop' is not defined'') s"

definition skill_check :: "state \<Rightarrow> unit result" where
  "skill_check s =
     (if Mining_Skill (gm s) < 40
      then Stop (SendMessage ''Mining skill too low, stopping'' s)
      else Returned () s)"

subsection \<open>The smelting helper: \<^verbatim>\<open>_normalize_smelter_lists\<close> and \<^verbatim>\<open>_wrapped_smelter\<close>\<close>

definition upper_chars :: string where "upper_chars = ''ABCDEFGHIJKLMNOPQRSTUVWXYZ''"
definition lower_chars :: string where "lower_chars = ''abcdefghijklmnopqrstuvwxyz''"

text \<open>\<^verbatim>\<open>str.isupper\<close>: some cased character, and no lower-case one.\<close>

definition str_isupper :: "string \<Rightarrow> bool" where
  "str_isupper t = (list_ex (\<lambda>c. c \<in> set upper_chars) t \<and> \<not> list_ex (\<lambda>c. c \<in> set lower_chars) t)"

fun str_join :: "string \<Rightarrow> string list \<Rightarrow> string" where
  "str_join sep [] = []"
| "str_join sep [t] = t"
| "str_join sep (t # u # ts) = t @ sep @ str_join sep (u # ts)"

text \<open>
  \<^verbatim>\<open>_to_int32_list\<close>; the integers are identifiers that fit \<^verbatim>\<open>Int32\<close>, so the
  conversion does not fail.
\<close>

definition to_int32_list :: "int list \<Rightarrow> attr_value" where
  "to_int32_list values = Int32List values"

text \<open>One round of the loop over \<^verbatim>\<open>dir(smelter)\<close>: the attribute after it, and its name when it was converted.\<close>

definition normalize_attr :: "string \<times> attr_value \<Rightarrow> (string \<times> attr_value) \<times> string list" where
  "normalize_attr a =
     (case a of (attr, current) \<Rightarrow>
        if \<not> str_isupper attr \<or> \<not> str_in ''_ID'' attr then (a, [])
        else (case current of
                PyIntList (v # vs) \<Rightarrow> ((attr, to_int32_list (v # vs)), [attr])
              | _ \<Rightarrow> (a, [])))"

definition normalize_smelter_lists :: "state \<Rightarrow> state" where
  "normalize_smelter_lists s =
     (case smelter_module s of
        None \<Rightarrow> s
      | Some attrs \<Rightarrow>
          (let rounds = map normalize_attr attrs;
               normalized = concat (map snd rounds);
               s1 = s\<lparr>smelter_module := Some (map fst rounds)\<rparr>
           in if normalized \<noteq> []
              then SendMessage (''Auto-smelter lists normalized: '' @ str_join '', '' normalized) s1
              else s1))"

definition Mobiles_FindBySerial :: "game \<Rightarrow> int \<Rightarrow> mobile option" where
  "Mobiles_FindBySerial g serial = find (\<lambda>m. mob_Serial m = serial) (mobiles g)"

definition Items_FindBySerial :: "game \<Rightarrow> int \<Rightarrow> item option" where
  "Items_FindBySerial g serial = find (\<lambda>i. item_Serial i = serial) (world_items g)"

definition Player_DistanceTo :: "game \<Rightarrow> mobile \<Rightarrow> int" where
  "Player_DistanceTo g m = distances g (mob_Serial m)"

text \<open>A call of code the script does not own: the clock and the game move on.\<close>

definition run_reply :: "reply \<Rightarrow> state \<Rightarrow> unit result" where
  "run_reply r s =
     (case r of
        Done dt g \<Rightarrow> Returned () (s\<lparr>now := now s + dt, gm := g\<rparr>)
      | Throws e dt g \<Rightarrow> Raised e (s\<lparr>now := now s + dt, gm := g\<rparr>)
      | Never \<Rightarrow> Diverged)"

text \<open>\<^verbatim>\<open>_smelter_run()\<close>, the helper imported from \<^verbatim>\<open>auto_smelter\<close>.\<close>

definition smelter_run_call :: "host \<Rightarrow> state \<Rightarrow> unit result" where
  "smelter_run_call h s = run_reply (smelter_run h s) s"

text \<open>\<^verbatim>\<open>str(exc)\<close>.\<close>

fun exc_str :: "py_exc \<Rightarrow> string" where
  "exc_str (NameError m) = m"
| "exc_str (TypeError m) = m"
| "exc_str (IndexError m) = m"
| "exc_str (OtherException m) = m"

text \<open>
  \<^verbatim>\<open>_wrapped_smelter\<close>. The first call of the helper stands in the \<^verbatim>\<open>try\<close>; the second
  one stands in the handler of \<^verbatim>\<open>TypeError\<close>, where the clauses of the same \<^verbatim>\<open>try\<close>
  no longer apply: what it raises leaves the function. The exceptions of the model are
  all of classes below \<^verbatim>\<open>Exception\<close>; \<^verbatim>\<open>SystemExit\<close> and \<^verbatim>\<open>KeyboardInterrupt\<close>, which
  \<^verbatim>\<open>except Exception\<close> lets through, are not modelled.
\<close>

definition wrapped_smelter :: "host \<Rightarrow> state \<Rightarrow> unit result" where
  "wrapped_smelter h s =
     (let beetle_mobile = (if beetle s \<noteq> 0 then Mobiles_FindBySerial (gm s) (beetle s) else None)
      in if (case beetle_mobile of None \<Rightarrow> False | Some m \<Rightarrow> Player_DistanceTo (gm s) m > 18)
         then Returned () s
         else (case smelter_run_call h s of
                 Returned v s1 \<Rightarrow> Returned () s1
               | Diverged \<Rightarrow> Diverged
               | Raised exc s1 \<Rightarrow>
                   (case exc of
                      TypeError m \<Rightarrow>
                        if str_in ''List[Int32]'' m
                        then smelter_run_call h (normalize_smelter_lists s1)
                        else Returned () (SendMessage (''Auto-smelter error: '' @ m) s1)
                    | _ \<Rightarrow> Returned () (SendMessage (''Auto-smelter error: '' @ exc_str exc) s1))))"

text \<open>
  The trigger that the script repeats at every phase:
  \<^verbatim>\<open>if SMELT_ON_TRIGGERS and maybe_run_smelter_when_spilling_or_overweight: ...()\<close>.
\<close>

definition smelter_trigger :: "host \<Rightarrow> state \<Rightarrow> unit result" where
  "smelter_trigger h s =
     (if SMELT_ON_TRIGGERS \<and> smelter_hook s then wrapped_smelter h s else Returned () s)"

subsection \<open>The mining tool: \<^verbatim>\<open>FindPickaxe\<close> and \<^verbatim>\<open>EquipPickaxe\<close>\<close>

definition hand_tool :: "item option \<Rightarrow> item option" where
  "hand_tool hand =
     (case hand of None \<Rightarrow> None
      | Some it \<Rightarrow> if item_ItemID it \<in> set miningToolIDs then Some it else None)"

definition FindPickaxe :: "host \<Rightarrow> state \<Rightarrow> int option \<times> state" where
  "FindPickaxe h s =
     (case hand_tool (LeftHand (gm s)) of
        Some lh \<Rightarrow> (Some (item_Serial lh), SendMessage (''--> Found equipped mining tool: '' @ item_Name lh) s)
      | None \<Rightarrow>
     (case hand_tool (RightHand (gm s)) of
        Some rh \<Rightarrow> (Some (item_Serial rh), SendMessage (''--> Found equipped mining tool: '' @ item_Name rh) s)
      | None \<Rightarrow>
     (case find (\<lambda>it. item_ItemID it \<in> set miningToolIDs) (Backpack_Contains (gm s)) of
        Some it \<Rightarrow> (Some (item_Serial it), SendMessage (''--> Found mining tool in backpack: '' @ item_Name it) s)
      | None \<Rightarrow>
     (case Items_FindByID h 0x0E85 (Backpack_Serial (gm s)) (gm s) of
        Some pickaxe \<Rightarrow>
          (Some (item_Serial pickaxe),
           Misc_Pause h 600 (issue h (EquipItem (item_Serial pickaxe)) (SendMessage ''Equipping pickaxe...'' s)))
      | None \<Rightarrow> (None, SendMessage ''ERROR: No pickaxe found in backpack!'' s)))))"

text \<open>The test of lines 333-334 and 338-339: one hand holds the item with this serial.\<close>

definition in_hand :: "game \<Rightarrow> int \<Rightarrow> bool" where
  "in_hand g serial =
     ((case LeftHand g of None \<Rightarrow> False | Some lh \<Rightarrow> item_Serial lh = serial)
      \<or> (case RightHand g of None \<Rightarrow> False | Some rh \<Rightarrow> item_Serial rh = serial))"

text \<open>Python's \<^verbatim>\<open>not serial\<close> holds for \<^verbatim>\<open>None\<close> and for \<open>0\<close>.\<close>

definition truthy :: "int option \<Rightarrow> int option" where
  "truthy v = (case v of None \<Rightarrow> None | Some n \<Rightarrow> if n = 0 then None else Some n)"

definition EquipPickaxe :: "host \<Rightarrow> state \<Rightarrow> int option \<times> state" where
  "EquipPickaxe h s0 =
     (case FindPickaxe h s0 of (found, s1) \<Rightarrow>
        (case truthy found of
           None \<Rightarrow> (None, Misc_Pause h 800 (issue h (HeadMessage ''You must have a pickaxe to mine!'') s1))
         | Some serial \<Rightarrow>
             if in_hand (gm s1) serial then (Some serial, s1)
             else (let s2 = Misc_Pause h 600 (issue h (EquipItem serial) s1)
                   in if in_hand (gm s2) serial
                      then (Some serial, SendMessage ''--> Pickaxe equipped successfully'' s2)
                      else (None, SendMessage ''--> Failed to equip pickaxe'' s2))))"

subsection \<open>\<^verbatim>\<open>CheckEnemy\<close>\<close>

text \<open>
  Without a target in the list \<^verbatim>\<open>enemywar\<close> the function returns at once. With one it
  starts the fight macro and waits in a loop until no enemy is left, loots and walks
  back; that part is the host's \<open>combat\<close>, which may not end. Of the fight only the
  time it took and the game after it are kept: its pauses are not listed among the
  commands and its timer \<^verbatim>\<open>Fight\<close>, which nothing else reads, is not among the timers.
\<close>

definition CheckEnemy :: "host \<Rightarrow> state \<Rightarrow> unit result" where
  "CheckEnemy h s = (case enemywar (gm s) of None \<Rightarrow> Returned () s | Some enemy \<Rightarrow> run_reply (combat h s) s)"

subsection \<open>One swing: \<^verbatim>\<open>MineOnce\<close>\<close>

text \<open>Several commands in a row.\<close>

definition issues :: "host \<Rightarrow> command list \<Rightarrow> state \<Rightarrow> state" where
  "issues h cs s = foldl (\<lambda>s' c. issue h c s') s cs"

text \<open>The journal texts that end the wait of lines 445 to 453.\<close>

definition outcome_text :: "state \<Rightarrow> bool" where
  "outcome_text s =
     (Journal_SearchByType s ''There is no metal here to mine.'' ''System''
      \<or> Journal_SearchByType s ''You loosen'' ''System''
      \<or> Journal_SearchByType s ''You have worn out your tool!'' ''System''
      \<or> Journal_SearchByType s ''You can not mine there.'' ''System''
      \<or> Journal_SearchByType s ''You have no line of sight'' ''System''
      \<or> Journal_SearchByType s ''You dig some'' ''System''
      \<or> Journal_SearchByType s ''You receive'' ''System''
      \<or> Journal_Search s ''You have received''
      \<or> Journal_SearchByType s ''You can't dig while riding or flying.'' ''System'')"

subsection \<open>What the host calls leave unchanged\<close>

lemma SendMessage_frame [simp]:
  "oreSpots (SendMessage m s) = oreSpots s" "blockCount (SendMessage m s) = blockCount s"
  "beetle (SendMessage m s) = beetle s" "weightLimit (SendMessage m s) = weightLimit s"
  "smelter_hook (SendMessage m s) = smelter_hook s" "smelter_module (SendMessage m s) = smelter_module s"
  "now (SendMessage m s) = now s" "timers (SendMessage m s) = timers s"
  "commands (SendMessage m s) = commands s" "gm (SendMessage m s) = gm s"
  "msgs (SendMessage m s) = msgs s @ [m]"
  by (simp_all add: SendMessage_def)

lemma issue_frame [simp]:
  "oreSpots (issue h c s) = oreSpots s" "blockCount (issue h c s) = blockCount s"
  "beetle (issue h c s) = beetle s" "weightLimit (issue h c s) = weightLimit s"
  "smelter_hook (issue h c s) = smelter_hook s" "smelter_module (issue h c s) = smelter_module s"
  "now (issue h c s) = now s" "timers (issue h c s) = timers s"
  "commands (issue h c s) = commands s @ [c]" "msgs (issue h c s) = msgs s"
  "gm (issue h c s) = react h c s"
  by (simp_all add: issue_def)

lemma Misc_Pause_frame [simp]:
  "oreSpots (Misc_Pause h n s) = oreSpots s" "blockCount (Misc_Pause h n s) = blockCount s"
  "beetle (Misc_Pause h n s) = beetle s" "weightLimit (Misc_Pause h n s) = weightLimit s"
  "smelter_hook (Misc_Pause h n s) = smelter_hook s" "smelter_module (Misc_Pause h n s) = smelter_module s"
  "now (Misc_Pause h n s) = now s + n" "timers (Misc_Pause h n s) = timers s"
  "commands (Misc_Pause h n s) = commands s @ [Pause n]" "msgs (Misc_Pause h n s) = msgs s"
  "gm (Misc_Pause h n s) = react h (Pause n) s"
  by (simp_all add: Misc_Pause_def)

lemma normalize_frame [simp]:
  "oreSpots (normalize_smelter_lists s) = oreSpots s" "blockCount (normalize_smelter_lists s) = blockCount s"
  "beetle (normalize_smelter_lists s) = beetle s" "weightLimit (normalize_smelter_lists s) = weightLimit s"
  "smelter_hook (normalize_smelter_lists s) = smelter_hook s"
  "now (normalize_smelter_lists s) = now s" "timers (normalize_smelter_lists s) = timers s"
  "commands (normalize_smelter_lists s) = commands s" "gm (normalize_smelter_lists s) = gm s"
  by (simp_all add: normalize_smelter_lists_def Let_def split: option.splits)

text \<open>
  What a call of foreign code leaves alone: the script's globals and the timers; the
  clock only advances.
\<close>

definition kept :: "state \<Rightarrow> state \<Rightarrow> bool" where
  "kept s s' = (oreSpots s' = oreSpots s \<and> blockCount s' = blockCount s \<and> beetle s' = beetle s
     \<and> weightLimit s' = weightLimit s \<and> smelter_hook s' = smelter_hook s
     \<and> timers s' = timers s \<and> now s \<le> now s')"

lemma kept_refl [simp]: "kept s s"
  by (simp add: kept_def)

lemma kept_trans: "kept s s' \<Longrightarrow> kept s' s'' \<Longrightarrow> kept s s''"
  by (auto simp: kept_def)

lemma run_reply_kept: "run_reply r s = Returned v s' \<or> run_reply r s = Raised e s' \<Longrightarrow> kept s s'"
  by (auto simp: run_reply_def kept_def split: reply.splits)

lemma wrapped_smelter_kept:
  "wrapped_smelter h s = Returned v s' \<or> wrapped_smelter h s = Raised e s' \<Longrightarrow> kept s s'"
  unfolding wrapped_smelter_def Let_def smelter_run_call_def
  by (auto split: if_splits result.splits py_exc.splits
      dest!: run_reply_kept[OF disjI1] run_reply_kept[OF disjI2] simp: kept_def)

lemma smelter_trigger_kept:
  "smelter_trigger h s = Returned v s' \<or> smelter_trigger h s = Raised e s' \<Longrightarrow> kept s s'"
  unfolding smelter_trigger_def using wrapped_smelter_kept[of h s v s' e]
  by (auto split: if_splits)


text \<open>
  The wait of lines 444 to 457: until an outcome text is in the journal or the timer
  \<^verbatim>\<open>mineTimer\<close> has expired, run the trigger and pause 100 ms. The pause advances the
  clock and nothing in the loop restarts the timer, so the wait ends.
\<close>

function wait_outcome :: "host \<Rightarrow> state \<Rightarrow> unit result" where
  "wait_outcome h s =
     (if outcome_text s \<or> Timer_Check s ''mineTimer'' = False then Returned () s
      else (case smelter_trigger h s of
              Returned v s1 \<Rightarrow> wait_outcome h (Misc_Pause h 100 s1)
            | Raised e s1 \<Rightarrow> Raised e s1
            | Diverged \<Rightarrow> Diverged))"
  by pat_completeness auto
termination
proof (relation "measure (\<lambda>(h, s). case timers s ''mineTimer'' of None \<Rightarrow> 0 | Some e \<Rightarrow> e - now s)")
  show "wf (measure (\<lambda>(h, s). case timers s ''mineTimer'' of None \<Rightarrow> 0 | Some e \<Rightarrow> e - now s))"
    by simp
next
  fix h s v s1
  assume run: "\<not> (outcome_text s \<or> Timer_Check s ''mineTimer'' = False)"
    and trig: "smelter_trigger h s = Returned v s1"
  from run obtain e where e: "timers s ''mineTimer'' = Some e" "now s < e"
    by (auto simp: Timer_Check_def split: option.splits)
  from trig have "kept s s1" by (rule smelter_trigger_kept[OF disjI1])
  then have "timers s1 = timers s" "now s \<le> now s1" by (simp_all add: kept_def)
  with e show "((h, Misc_Pause h 100 s1), (h, s)) \<in> measure (\<lambda>(h, s). case timers s ''mineTimer'' of None \<Rightarrow> 0 | Some e \<Rightarrow> e - now s)"
    by simp
qed


declare wait_outcome.simps [simp del]

text \<open>
  \<^verbatim>\<open>Timer.Create('%i,%i' % (oreSpots[0].x, oreSpots[0].y), oreCooldown)\<close> followed by
  \<^verbatim>\<open>return False\<close>; \<^verbatim>\<open>oreSpots[0]\<close> raises on the empty list.
\<close>

definition mark_depleted :: "state \<Rightarrow> bool result" where
  "mark_depleted s =
     (case oreSpots s of
        [] \<Rightarrow> Raised (IndexError ''list index out of range'') s
      | p # rest \<Rightarrow> Returned False (Timer_Create (coord_key (spot_x p) (spot_y p)) oreCooldown s))"

text \<open>The chain of \<^verbatim>\<open>if\<close> and \<^verbatim>\<open>elif\<close> of lines 459 to 495, in the order of the source.\<close>

definition MineOnce_outcome :: "host \<Rightarrow> state \<Rightarrow> bool result" where
  "MineOnce_outcome h s =
     (if Journal_SearchByType s ''You can't dig while riding or flying.'' ''System'' then
        (let s1 = SendMessage ''--> Cannot mine while mounted, dismounting...'' s
         in Returned True
              (if Player_Mount (gm s1)
               then Misc_Pause h 300 (issue h (UseMobile (Player_Serial (gm s1))) s1) else s1))
      else if Journal_SearchByType s ''There is no metal here to mine.'' ''System'' then
        mark_depleted (SendMessage ''--> Ore spot depleted'' s)
      else if Journal_SearchByType s ''You have worn out your tool!'' ''System'' then
        (case EquipPickaxe h (SendMessage ''--> Tool worn out, finding new pickaxe'' s) of
           (tool, s1) \<Rightarrow> Returned True s1)
      else if Journal_SearchByType s ''You can not mine there.'' ''System''
              \<or> Journal_SearchByType s ''You have no line of sight'' ''System'' then
        (let s1 = s\<lparr>blockCount := blockCount s + 1\<rparr>
         in if blockCount s1 > 3
            then mark_depleted
                   (SendMessage ''--> Possible block detected, marking spot as depleted''
                      (s1\<lparr>blockCount := 0\<rparr>))
            else Returned True s1)
      else if Journal_SearchByType s ''You dig some'' ''System''
              \<or> Journal_SearchByType s ''You receive'' ''System''
              \<or> Journal_SearchByType s ''You loosen'' ''System''
              \<or> Journal_Search s ''You have received'' then
        Returned True (Misc_Pause h miningPauseMS (Journal_Clear h (SendMessage ''--> Mining successful!'' s)))
      else if Timer_Check s ''mineTimer'' = False then
        mark_depleted (SendMessage ''--> Mining timed out, marking spot as depleted'' s)
      else Returned False s)"

text \<open>Lines 415 to 422: dismount, and cancel a pending target.\<close>

definition MineOnce_prepare :: "host \<Rightarrow> state \<Rightarrow> state" where
  "MineOnce_prepare h s0 =
     (let s1 = (if Player_Mount (gm s0)
                then Misc_Pause h 800 (issue h (UseMobile (Player_Serial (gm s0)))
                       (SendMessage ''--> Dismounting to mine'' s0))
                else s0)
      in if HasTarget (gm s1)
         then Misc_Pause h 300 (issue h TargetCancel
                (SendMessage ''--> Detected block, canceling target!'' s1))
         else s1)"

text \<open>
  Lines 430 to 495: the tool is equipped (without one the script stops), the tool is
  used on the spot at the head of the list, the outcome is waited for and acted on.
\<close>

definition MineOnce_swing :: "host \<Rightarrow> state \<Rightarrow> bool result" where
  "MineOnce_swing h s4 =
     (case EquipPickaxe h (Journal_Clear h s4) of (tool, s5) \<Rightarrow>
        (case truthy tool of
           None \<Rightarrow> Stop (SendMessage ''--> No mining tool available! Stopping script.'' s5)
         | Some pickaxe \<Rightarrow>
            (let s6 = issues h [TargetCancel, WaitForTarget 300, UseItem pickaxe, WaitForTarget 300] s5
             in (case oreSpots s6 of
                   [] \<Rightarrow> Raised (IndexError ''list index out of range'') s6
                 | p # rest \<Rightarrow>
                     (let s7 = Misc_Pause h 200
                                 (issue h (TargetExecute (spot_x p) (spot_y p) (spot_z p) (spot_id p)) s6);
                          s8 = Timer_Create ''mineTimer'' 5000 s7
                      in and_then (wait_outcome h s8) (\<lambda>u s9. MineOnce_outcome h s9))))))"

definition MineOnce :: "host \<Rightarrow> state \<Rightarrow> bool result" where
  "MineOnce h s0 =
     and_then (CheckEnemy h (MineOnce_prepare h s0)) (\<lambda>u s3.
       and_then (smelter_trigger h s3) (\<lambda>u s4. MineOnce_swing h s4))"


subsection \<open>Prospecting and walking to the spot\<close>

definition Journal_GetLastText :: "state \<Rightarrow> string" where
  "Journal_GetLastText s = (case journal (gm s) of [] \<Rightarrow> [] | l # ls \<Rightarrow> snd (last (l # ls)))"

definition UseProspectorTool :: "host \<Rightarrow> state \<Rightarrow> bool \<times> state" where
  "UseProspectorTool h s =
     (case Items_FindByID h PROSPECT_TOOL_ID (Backpack_Serial (gm s)) (gm s) of
        None \<Rightarrow> (False, SendMessage ''--> No prospector's tool found!'' s)
      | Some prospector \<Rightarrow>
          (let s1 = issues h [UseItem (item_Serial prospector), WaitForTarget 500] s;
               s2 = Misc_Pause h 500
                      (issue h (TargetExecute (Player_X (gm s1)) (Player_Y (gm s1)) (Player_Z (gm s1)) 0) s1)
           in (True, if Journal_SearchByType s2 ''You find traces of'' ''Regular''
                     then SendMessage (''--> '' @ Journal_GetLastText s2) s2 else s2)))"

text \<open>\<^verbatim>\<open>RangeOreSpot\<close>, for the spot at the head of the list.\<close>

definition RangeOreSpot :: "game \<Rightarrow> OreSpot \<Rightarrow> bool" where
  "RangeOreSpot g p =
     ((spot_x p \<ge> Player_X g - 1 \<and> spot_x p \<le> Player_X g + 1)
      \<and> (spot_y p \<ge> Player_Y g - 1 \<and> spot_y p \<le> Player_Y g + 1))"

text \<open>\<^verbatim>\<open>PathFinding.Go\<close> to a destination: the command is recorded, the host moves the player.\<close>

definition Go :: "host \<Rightarrow> int \<times> int \<Rightarrow> state \<Rightarrow> bool \<times> state" where
  "Go h xy s =
     (case PathFinding_Go h xy s of
        (ok, g) \<Rightarrow> (ok, s\<lparr>commands := commands s @ [PathGo (fst xy) (snd xy)], gm := g\<rparr>))"

text \<open>
  The four tries of lines 240 to 260; the result is false when the fourth failed and
  the function returns early.
\<close>

definition first_approach :: "host \<Rightarrow> OreSpot \<Rightarrow> state \<Rightarrow> bool \<times> state" where
  "first_approach h p s0 =
     (case Go h (spot_x p, spot_y p + 1) s0 of (ok1, s1) \<Rightarrow>
        if ok1 then (True, Misc_Pause h 800 s1)
        else (case Go h (spot_x p + 1, spot_y p) (issue h Resync s1) of (ok2, s2) \<Rightarrow>
          if ok2 then (True, SendMessage ''Second Try'' s2)
          else (case Go h (spot_x p - 1, spot_y p) s2 of (ok3, s3) \<Rightarrow>
            if ok3 then (True, SendMessage ''Third Try'' s3)
            else Go h (spot_x p, spot_y p - 1) (SendMessage ''Final Try'' s3))))"

text \<open>The same tries inside the loop, lines 272 to 294; the last result is not looked at.\<close>

definition retry_approach :: "host \<Rightarrow> OreSpot \<Rightarrow> state \<Rightarrow> state" where
  "retry_approach h p s0 =
     (case Go h (spot_x p, spot_y p + 1) (issue h Resync s0) of (ok1, s1) \<Rightarrow>
        if ok1 then Misc_Pause h 800 s1
        else (case Go h (spot_x p + 1, spot_y p) s1 of (ok2, s2) \<Rightarrow>
          if ok2 then SendMessage ''Second Try'' s2
          else (case Go h (spot_x p - 1, spot_y p) s2 of (ok3, s3) \<Rightarrow>
            if ok3 then SendMessage ''Third Try'' s3
            else snd (Go h (spot_x p, spot_y p - 1) (SendMessage ''Final Try'' s3)))))"

text \<open>
  The loop \<^verbatim>\<open>while not RangeOreSpot()\<close>: it gives up, after one more round of tries,
  when \<^verbatim>\<open>pathlock\<close> has passed 350.
\<close>

function walk :: "host \<Rightarrow> nat \<Rightarrow> state \<Rightarrow> unit result" where
  "walk h pathlock s =
     (case oreSpots s of
        [] \<Rightarrow> Raised (IndexError ''list index out of range'') s
      | p # rest \<Rightarrow>
          if RangeOreSpot (gm s) p
          then Returned () (SendMessage (''--> Reached Ore Spot: '' @ fmt_i (spot_x p) @ '', '' @ fmt_i (spot_y p)) s)
          else (case CheckEnemy h s of
                  Raised e s1 \<Rightarrow> Raised e s1
                | Diverged \<Rightarrow> Diverged
                | Returned u s1 \<Rightarrow>
                    (case smelter_trigger h s1 of
                       Raised e s2 \<Rightarrow> Raised e s2
                     | Diverged \<Rightarrow> Diverged
                     | Returned u s2 \<Rightarrow>
                         if pathlock + 1 > 350
                         then Returned () (retry_approach h p (Misc_Pause h 100 s2))
                         else walk h (pathlock + 1) (Misc_Pause h 100 s2))))"
  by pat_completeness auto
termination
  by (relation "measure (\<lambda>(h, pathlock, s). 351 - pathlock)") auto

declare walk.simps [simp del]

definition MoveToOreSpot :: "host \<Rightarrow> state \<Rightarrow> unit result" where
  "MoveToOreSpot h s0 =
     (case oreSpots s0 of
        [] \<Rightarrow> Raised (IndexError ''list index out of range'') s0
      | p # rest \<Rightarrow>
          (let s1 = issue h Resync
                      (SendMessage (''--> Moving to Ore Spot: '' @ fmt_i (spot_x p) @ '', '' @ fmt_i (spot_y p)) s0)
           in (case first_approach h p s1 of
                 (ok, s2) \<Rightarrow> if ok then walk h 0 (issue h Resync s2) else Returned () s2)))"

subsection \<open>The companion: \<^verbatim>\<open>GetBeetle\<close>, \<^verbatim>\<open>BeetleHasCapacity\<close>, \<^verbatim>\<open>TransferItemsToBeetle\<close>, \<^verbatim>\<open>MoveToBeetle\<close>\<close>

text \<open>\<^verbatim>\<open>'%X' % n\<close> and \<^verbatim>\<open>str.lower\<close>.\<close>

definition hex_char :: "nat \<Rightarrow> char" where
  "hex_char d = ''0123456789ABCDEF'' ! (d mod 16)"

function hex_nat :: "nat \<Rightarrow> string" where
  "hex_nat n = (if n < 16 then [hex_char n] else hex_nat (n div 16) @ [hex_char (n mod 16)])"
  by pat_completeness auto
termination
  by (relation "measure id") auto

declare hex_nat.simps [simp del]

definition fmt_X :: "int \<Rightarrow> string" where
  "fmt_X i = (if i < 0 then CHR ''-'' # hex_nat (nat (- i)) else hex_nat (nat i))"

definition lower_char :: "char \<Rightarrow> char" where
  "lower_char c = (case find (\<lambda>ul. fst ul = c) (zip upper_chars lower_chars) of None \<Rightarrow> c | Some ul \<Rightarrow> snd ul)"

definition str_lower :: "string \<Rightarrow> string" where
  "str_lower t = map lower_char t"

definition is_pack_animal :: "mobile \<Rightarrow> bool" where
  "is_pack_animal m =
     (mob_Body m \<in> set [0x317, 0x318, 0x319, 0x31F, 0x320, 0x321, 0x322, 0x323, 0xE2, 0xCC, 0xE4]
      \<or> str_in ''pack'' (str_lower (mob_Name m))
      \<or> str_in ''beetle'' (str_lower (mob_Name m)))"

text \<open>The lookup by the stored serial, lines 535 to 544.\<close>

definition beetle_by_serial :: "state \<Rightarrow> mobile option \<times> state" where
  "beetle_by_serial s0 =
     (if beetle s0 \<noteq> 0 then
        (let s1 = SendMessage (''Looking for beetle with serial: 0x'' @ fmt_X (beetle s0)) s0
         in (case Mobiles_FindBySerial (gm s1) (beetle s1) of
               None \<Rightarrow> (None, s1)
             | Some bm \<Rightarrow>
                 (let distance = Player_DistanceTo (gm s1) bm
                  in if distance < 15
                     then (Some bm, SendMessage (''Found beetle by serial at distance: '' @ fmt_i distance @ '' tiles'') s1)
                     else (None, SendMessage (''Beetle found but too far away: '' @ fmt_i distance @ '' tiles'') s1))))
      else (None, s0))"

definition GetBeetle :: "state \<Rightarrow> mobile option \<times> state" where
  "GetBeetle s0 =
     (case beetle_by_serial s0 of
        (Some bm, s2) \<Rightarrow> (Some bm, s2)
      | (None, s2) \<Rightarrow>
          (let s3 = SendMessage ''Searching for any nearby pack animal...'' s2
           in (case find (\<lambda>m. is_pack_animal m \<and> Player_DistanceTo (gm s3) m < 15) (mobiles (gm s3)) of
                 None \<Rightarrow> (None, SendMessage ''ERROR: No pack animal found within 15 tiles!'' s3)
               | Some m \<Rightarrow>
                   (let old_serial = beetle s3;
                        s4 = s3\<lparr>beetle := mob_Serial m\<rparr>;
                        s5 = SendMessage (''Found pack animal: '' @ (if mob_Name m = [] then ''Unknown'' else mob_Name m)
                               @ '' (0x'' @ fmt_X (beetle s4) @ '') at ''
                               @ fmt_i (Player_DistanceTo (gm s3) m) @ '' tiles'') s4
                    in (Some m, if old_serial \<noteq> beetle s5
                                then SendMessage (''Updated beetle serial to: 0x'' @ fmt_X (beetle s5)) s5
                                else s5)))))"

text \<open>
  The search for the companion's pack, which \<^verbatim>\<open>BeetleHasCapacity\<close> and
  \<^verbatim>\<open>TransferItemsToBeetle\<close> both spell out: the mobile's backpack, else the item on
  layer 21 among what the mobile contains, else the same among what the item with the
  mobile's serial contains.
\<close>

definition find_beetle_pack :: "game \<Rightarrow> mobile \<Rightarrow> item option" where
  "find_beetle_pack g bm =
     (case mob_Backpack bm of
        Some pack \<Rightarrow> Some pack
      | None \<Rightarrow>
         (case (case mob_Contains bm of None \<Rightarrow> None | Some its \<Rightarrow> find (\<lambda>it. item_Layer it = 21) its) of
            Some pack \<Rightarrow> Some pack
          | None \<Rightarrow>
             (case Items_FindBySerial g (mob_Serial bm) of
                None \<Rightarrow> None
              | Some beetle_item \<Rightarrow>
                  (case Contains_of g (item_Serial beetle_item) of
                     None \<Rightarrow> None
                   | Some its \<Rightarrow> find (\<lambda>it. item_Layer it = 21) its))))"

text \<open>
  The weight of one held item in the sum of lines 590 to 598: amount times weight
  (each 1 when absent or zero), counted when between 0 and 200. The products are
  whole numbers, which \<^verbatim>\<open>float\<close> holds exactly.
\<close>

definition or_one :: "int \<Rightarrow> int" where
  "or_one v = (if v = 0 then 1 else v)"

definition item_stones :: "item \<Rightarrow> int" where
  "item_stones it =
     (let amt = or_one (item_Amount it);
          wt = or_one (case item_Weight it of None \<Rightarrow> 1 | Some w \<Rightarrow> w);
          w = amt * wt
      in if 0 \<le> w \<and> w \<le> 200 then w else 0)"

definition pack_weight :: "game \<Rightarrow> item \<Rightarrow> int" where
  "pack_weight g pack =
     (case item_Weight pack of
        Some w \<Rightarrow> w
      | None \<Rightarrow> (case Contains_of g (item_Serial pack) of
                     None \<Rightarrow> 0
                   | Some its \<Rightarrow> sum_list (map item_stones its)))"

text \<open>
  The sum starts from the integer \<^verbatim>\<open>0\<close> and becomes a \<^verbatim>\<open>float\<close> with the first
  weight added to it; a whole \<^verbatim>\<open>float\<close> is printed with \<^verbatim>\<open>.0\<close> after it.
\<close>

definition pack_weight_is_float :: "game \<Rightarrow> item \<Rightarrow> bool" where
  "pack_weight_is_float g pack =
     (case item_Weight pack of
        Some w \<Rightarrow> False
      | None \<Rightarrow> (case Contains_of g (item_Serial pack) of
                     None \<Rightarrow> False
                   | Some its \<Rightarrow> list_ex (\<lambda>it. item_stones it \<noteq> 0) its))"

definition fmt_num :: "bool \<Rightarrow> int \<Rightarrow> string" where
  "fmt_num is_float v = (if is_float then fmt_i v @ ''.0'' else fmt_i v)"

text \<open>
  \<^verbatim>\<open>BeetleHasCapacity\<close>. Nothing in the body raises in this model, so the handler of
  line 608 is not reached.
\<close>

definition BeetleHasCapacity :: "mobile \<Rightarrow> int \<Rightarrow> state \<Rightarrow> bool \<times> state" where
  "BeetleHasCapacity beetle_mobile required_capacity s =
     (case find_beetle_pack (gm s) beetle_mobile of
        None \<Rightarrow> (False, SendMessage ''Could not find beetle pack!'' s)
      | Some beetle_pack \<Rightarrow>
          (let total = pack_weight (gm s) beetle_pack;
               total_weight = (if total > 10000 then 1000 else total);
               is_float = (pack_weight_is_float (gm s) beetle_pack \<and> total \<le> 10000);
               max_beetle_weight = 400;
               remaining_capacity = max_beetle_weight - total_weight;
               s1 = SendMessage (''Beetle pack weight: '' @ fmt_num is_float total_weight @ ''/'' @ fmt_i max_beetle_weight
                      @ '' stones (Remaining: '' @ fmt_num is_float remaining_capacity @ '' stones)'') s
           in if remaining_capacity < 0 \<and> remaining_capacity > - 100
              then (required_capacity \<le> 10, SendMessage ''Beetle nearly full, allowing small items'' s1)
              else (remaining_capacity \<ge> required_capacity, s1)))"

definition CanMove :: "game \<Rightarrow> bool" where
  "CanMove g = (Player_Weight g < Player_MaxWeight g)"

definition is_resource :: "item \<Rightarrow> bool" where
  "is_resource it =
     (item_ItemID it = oreID \<or> item_ItemID it \<in> set ingotIDs \<or> item_ItemID it \<in> set otherResourceIDs)"

text \<open>One round of the loop of lines 711 to 723, on the move counter and the state.\<close>

definition move_item :: "host \<Rightarrow> item \<Rightarrow> nat \<times> state \<Rightarrow> item \<Rightarrow> nat \<times> state" where
  "move_item h beetle_pack acc it =
     (case acc of (moveCount, s) \<Rightarrow>
        (case Items_FindBySerial (gm s) (item_Serial it) of
           None \<Rightarrow> (moveCount, s)
         | Some item_ref \<Rightarrow>
             (let s1 = Misc_Pause h 100 (issue h (ItemsMove (item_Serial it) (item_Serial beetle_pack) 0) s)
              in if Items_FindBySerial (gm s1) (item_Serial it) = None
                 then (moveCount + 1, s1)
                 else (moveCount, SendMessage (''Failed to move '' @ item_Name it) s1))))"

definition TransferItemsToBeetle :: "host \<Rightarrow> mobile option \<Rightarrow> state \<Rightarrow> bool \<times> state" where
  "TransferItemsToBeetle h beetle_mobile s =
     (case beetle_mobile of
        None \<Rightarrow> (False, SendMessage ''ERROR: Invalid beetle mobile!'' s)
      | Some bm \<Rightarrow>
          (case find_beetle_pack (gm s) bm of
             None \<Rightarrow> (False, SendMessage ''--> Beetle pack not found! Cannot transfer items.'' s)
           | Some beetle_pack \<Rightarrow>
               (let s1 = SendMessage ''--> Transferring items to beetle (unlimited capacity)'' s;
                    ore_items = filter is_resource (Backpack_Contains (gm s1))
                in if ore_items = [] then (True, SendMessage ''--> No items to transfer'' s1)
                   else (case foldl (move_item h beetle_pack) (0, s1) ore_items of
                           (moveCount, s2) \<Rightarrow>
                             if moveCount > 0
                             then (True, Misc_Pause h 400
                                     (SendMessage (''--> Successfully moved '' @ fmt_i (int moveCount) @ '' items to beetle'') s2))
                             else (False, SendMessage ''--> No items were moved to the beetle'' s2)))))"

text \<open>The wait of lines 628 to 635 for the companion to come.\<close>

function wait_for_beetle :: "host \<Rightarrow> mobile \<Rightarrow> nat \<Rightarrow> state \<Rightarrow> state" where
  "wait_for_beetle h bm wait_time s =
     (if wait_time < 5 then
        (let current_dist = Player_DistanceTo (gm s) bm
         in if current_dist \<le> 2 then s
            else wait_for_beetle h bm (wait_time + 1)
                   (SendMessage (''Waiting for beetle to come to us... '' @ fmt_i (int (wait_time + 1))
                       @ ''/5 seconds (Distance: '' @ fmt_i current_dist @ '' tiles)'')
                      (Misc_Pause h 1000 s)))
      else s)"
  by pat_completeness auto
termination
  by (relation "measure (\<lambda>(h, bm, wait_time, s). 5 - wait_time)") auto

declare wait_for_beetle.simps [simp del]

text \<open>The \<^verbatim>\<open>for ... else\<close> of lines 658 to 667 over the eight neighbours.\<close>

fun try_offsets :: "host \<Rightarrow> int \<Rightarrow> int \<Rightarrow> (int \<times> int) list \<Rightarrow> state \<Rightarrow> bool \<times> state" where
  "try_offsets h target_x target_y [] s = (False, SendMessage ''ERROR: Could not find path to beetle!'' s)"
| "try_offsets h target_x target_y (d # ds) s =
     (case Go h (target_x + fst d, target_y + snd d)
             (SendMessage (''Trying coordinates: ('' @ fmt_i (target_x + fst d) @ '', '' @ fmt_i (target_y + snd d) @ '')'') s) of
        (ok, s1) \<Rightarrow>
          if ok then (True, SendMessage ''Successfully moved to position near beetle!'' s1)
          else try_offsets h target_x target_y ds s1)"

text \<open>The mobile as the host shows it now: its position is read when it is used.\<close>

definition mobile_now :: "game \<Rightarrow> mobile \<Rightarrow> mobile" where
  "mobile_now g bm = (case Mobiles_FindBySerial g (mob_Serial bm) of None \<Rightarrow> bm | Some m \<Rightarrow> m)"

text \<open>Lines 640 to 675: walk to the companion when it is more than two tiles away, then transfer.\<close>

definition approach_beetle :: "host \<Rightarrow> mobile \<Rightarrow> state \<Rightarrow> bool \<times> state" where
  "approach_beetle h bm s0 =
     (case (if Player_DistanceTo (gm s0) bm > 2 then
              (let s1 = (if Player_Mount (gm s0)
                         then Misc_Pause h 1200 (issue h (UseMobile (Player_Serial (gm s0)))
                                (SendMessage ''--> Dismounting to move'' s0))
                         else s0);
                   target_x = mob_X (mobile_now (gm s1) bm);
                   target_y = mob_Y (mobile_now (gm s1) bm)
               in (case Go h (target_x, target_y) (SendMessage ''Attempting direct path to beetle...'' s1) of
                     (ok, s2) \<Rightarrow>
                       (case (if ok then (True, SendMessage ''Successfully moved to beetle!'' s2)
                              else try_offsets h target_x target_y
                                     [(0, 1), (1, 0), (0, - 1), (- 1, 0), (1, 1), (1, - 1), (- 1, 1), (- 1, - 1)]
                                     (SendMessage ''Direct path failed, trying alternate approaches...'' s2)) of
                          (found, s3) \<Rightarrow> if found then (True, Misc_Pause h 800 s3) else (False, s3))))
            else (True, s0)) of
        (False, s4) \<Rightarrow> (False, s4)
      | (True, s4) \<Rightarrow>
          (let final_distance = Player_DistanceTo (gm s4) bm
           in if final_distance \<le> 2
              then TransferItemsToBeetle h (Some bm)
                     (SendMessage (''In range ('' @ fmt_i final_distance @ '' tiles), transferring items...'') s4)
              else (False, SendMessage (''ERROR: Still too far from beetle! Distance: '' @ fmt_i final_distance @ '' tiles'') s4)))"

definition MoveToBeetle :: "host \<Rightarrow> state \<Rightarrow> bool \<times> state" where
  "MoveToBeetle h s0 =
     (case GetBeetle (SendMessage ''Attempting to find beetle...'' s0) of
        (None, s1) \<Rightarrow> (False, SendMessage ''ERROR: Could not find beetle nearby!'' s1)
      | (Some bm, s1) \<Rightarrow>
          (let s2 = SendMessage (''Found beetle at distance: '' @ fmt_i (Player_DistanceTo (gm s1) bm) @ '' tiles'') s1
           in if Player_DistanceTo (gm s2) bm \<le> 2
              then TransferItemsToBeetle h (Some bm) (SendMessage ''Already next to beetle, transferring items...'' s2)
              else if \<not> CanMove (gm s2) then
                (let s3 = wait_for_beetle h bm 0
                            (Misc_Pause h 1000
                               (issues h [HeadTarget (mob_Serial bm), HeadTarget (Player_Serial (gm s2))]
                                  (SendMessage ''--> Overweight, trying to get beetle to come to us...'' s2)))
                 in if Player_DistanceTo (gm s3) bm \<le> 2
                    then TransferItemsToBeetle h (Some bm) (SendMessage ''Beetle is close, transferring items...'' s3)
                    else approach_beetle h bm
                           (SendMessage ''--> Could not get beetle to come to us, trying to move...'' s3))
              else approach_beetle h bm s2))"

subsection \<open>\<^verbatim>\<open>MineSpotUntilDepleted\<close>\<close>

definition maxAttempts :: int where "maxAttempts = 20"

text \<open>
  The loop of lines 383 to 388 over the backpack: the first item whose graphic is among
  \<^verbatim>\<open>[oreID] + ingotIDs + otherResourceIDs\<close> is put on the ground, one unit of it, at
  the player's position, and the loop is left.
\<close>

definition drop_resource :: "host \<Rightarrow> state \<Rightarrow> state" where
  "drop_resource h s =
     (case find (\<lambda>it. item_ItemID it \<in> set ([oreID] @ ingotIDs @ otherResourceIDs)) (Backpack_Contains (gm s)) of
        None \<Rightarrow> s
      | Some it \<Rightarrow>
          Misc_Pause h 50
            (SendMessage ''--> Dropped items on ground!''
               (issue h (MoveOnGround (item_Serial it) 1 (Player_X (gm s)) (Player_Y (gm s)) (Player_Z (gm s))) s)))"

text \<open>Lines 393 to 399; the result says whether the round goes on to mine.\<close>

definition return_to_spot :: "host \<Rightarrow> state \<Rightarrow> bool result" where
  "return_to_spot h s =
     (if Player_Weight (gm s) < Player_MaxWeight (gm s) - 20
      then and_then (MoveToOreSpot h s) (\<lambda>u s1. Returned True s1)
      else and_then (smelter_trigger h (SendMessage ''--> Still too heavy to return to mining spot'' s))
             (\<lambda>u s1. Returned False s1))"

text \<open>
  Lines 378 to 399, the offload of a round; the result is false where the source
  leaves the loop with \<^verbatim>\<open>break\<close>.
\<close>

definition offload :: "host \<Rightarrow> int \<Rightarrow> state \<Rightarrow> bool result" where
  "offload h attempts s =
     (if Player_Weight (gm s) \<ge> weightLimit s - 40 \<or> (attempts > 0 \<and> attempts mod 8 = 0) then
        (case MoveToBeetle h s of
           (True, s1) \<Rightarrow> return_to_spot h s1
         | (False, s1) \<Rightarrow>
             (let s2 = SendMessage ''--> Failed to transfer items to beetle, trying to continue mining'' s1
              in if Player_Weight (gm s2) \<ge> Player_MaxWeight (gm s2) - 10
                 then and_then (smelter_trigger h (drop_resource h (SendMessage ''--> CRITICAL: Too heavy to move!'' s2)))
                        (\<lambda>u s3. Returned False s3)
                 else return_to_spot h s2))
      else Returned True s)"

text \<open>
  One round of the loop of lines 371 to 408. It ends with the new values of
  \<^verbatim>\<open>miningSuccess\<close> and \<^verbatim>\<open>attempts\<close>, or with a \<^verbatim>\<open>break\<close>.
\<close>

datatype round = Continue bool int | Break

definition mine_round :: "host \<Rightarrow> int \<Rightarrow> state \<Rightarrow> round result" where
  "mine_round h attempts s0 =
     and_then (smelter_trigger h s0) (\<lambda>u s1.
       and_then (offload h attempts (if attempts = 1 then Misc_Pause h 100 s1 else s1)) (\<lambda>go s2.
         if \<not> go then Returned Break s2
         else and_then (MineOnce h s2) (\<lambda>miningSuccess s3.
                if miningSuccess
                then Returned (Continue True 0) (Misc_Pause h miningPauseMS s3)
                else Returned (Continue False (attempts + 1))
                       (Misc_Pause h 100 (SendMessage ''--> Spot depleted or mining failed'' s3)))))"

text \<open>
  The loop can go on for ever (every swing may succeed), so it takes fuel: \<open>None\<close>
  says that the fuel ran out before the loop ended. The result is the last value of
  \<^verbatim>\<open>attempts\<close>.
\<close>

fun mine_loop :: "nat \<Rightarrow> host \<Rightarrow> bool \<Rightarrow> int \<Rightarrow> state \<Rightarrow> int result option" where
  "mine_loop fuel h miningSuccess attempts s =
     (if miningSuccess \<and> attempts < maxAttempts then
        (case fuel of
           0 \<Rightarrow> None
         | Suc fuel' \<Rightarrow>
             (case mine_round h attempts s of
                Returned (Continue miningSuccess' attempts') s' \<Rightarrow> mine_loop fuel' h miningSuccess' attempts' s'
              | Returned Break s' \<Rightarrow> Some (Returned attempts s')
              | Raised e s' \<Rightarrow> Some (Raised e s')
              | Diverged \<Rightarrow> Some Diverged))
      else Some (Returned attempts s))"

declare mine_loop.simps [simp del]

text \<open>Lines 359 to 365, before the loop.\<close>

definition prospect :: "host \<Rightarrow> state \<Rightarrow> state" where
  "prospect h s0 =
     (let s1 = SendMessage ''--> Mining spot until depleted...'' s0;
          s2 = (if Player_Mount (gm s1) then Misc_Pause h 300 (issue h (UseMobile (Player_Serial (gm s1))) s1) else s1);
          s3 = snd (UseProspectorTool h (SendMessage ''--> Prospecting the area...'' s2))
      in Misc_Pause h 300 s3)"

definition MineSpotUntilDepleted :: "nat \<Rightarrow> host \<Rightarrow> state \<Rightarrow> unit result option" where
  "MineSpotUntilDepleted fuel h s0 =
     (case mine_loop fuel h True 0 (prospect h s0) of
        None \<Rightarrow> None
      | Some (Returned attempts s1) \<Rightarrow>
          Some (Returned ()
            (if attempts \<ge> maxAttempts
             then SendMessage ''--> Maximum mining attempts reached, moving to next spot'' s1 else s1))
      | Some (Raised e s1) \<Rightarrow> Some (Raised e s1)
      | Some Diverged \<Rightarrow> Some Diverged)"

text \<open>
  The values of \<^verbatim>\<open>miningSuccess\<close> and \<^verbatim>\<open>attempts\<close> with which the test of the loop is
  reached in a run that starts in \<open>s0\<close>.
\<close>

inductive loop_head :: "host \<Rightarrow> state \<Rightarrow> bool \<Rightarrow> int \<Rightarrow> state \<Rightarrow> bool" for h s0 where
  enter: "loop_head h s0 True 0 (prospect h s0)"
| again: "loop_head h s0 miningSuccess attempts s \<Longrightarrow> miningSuccess \<and> attempts < maxAttempts \<Longrightarrow>
          mine_round h attempts s = Returned (Continue miningSuccess' attempts') s' \<Longrightarrow>
          loop_head h s0 miningSuccess' attempts' s'"

subsection \<open>Discovery: \<^verbatim>\<open>ScanStatic\<close>\<close>

text \<open>
  The body of the two \<^verbatim>\<open>for\<close> loops over the tiles of a cell and over
  \<^verbatim>\<open>oreStaticIDs\<close>: the spots appended for one tile, then for one cell.
\<close>

definition scan_tile :: "state \<Rightarrow> int \<Rightarrow> int \<Rightarrow> tile \<Rightarrow> OreSpot list" where
  "scan_tile s cx cy t =
     concat (map (\<lambda>staticid.
        if staticid = StaticID t \<and> \<not> Timer_Check s (coord_key cx cy)
        then [\<lparr>spot_x = cx, spot_y = cy, spot_z = StaticZ t, spot_id = StaticID t\<rparr>]
        else []) oreStaticIDs)"

definition scan_cell :: "host \<Rightarrow> state \<Rightarrow> int \<Rightarrow> int \<Rightarrow> OreSpot list" where
  "scan_cell h s cx cy =
     (let staticsTileInfo = Statics_GetStaticsTileInfo h cx cy (Player_Map (gm s))
      in if length staticsTileInfo > 0 then concat (map (scan_tile s cx cy) staticsTileInfo) else [])"

text \<open>The inner \<^verbatim>\<open>while y <= maxY\<close> and the outer \<^verbatim>\<open>while x <= maxX\<close>.\<close>

function scan_y :: "host \<Rightarrow> state \<Rightarrow> int \<Rightarrow> int \<Rightarrow> int \<Rightarrow> OreSpot list \<Rightarrow> OreSpot list" where
  "scan_y h s cx cy maxY acc =
     (if cy \<le> maxY then scan_y h s cx (cy + 1) maxY (acc @ scan_cell h s cx cy) else acc)"
  by pat_completeness auto
termination
  by (relation "measure (\<lambda>(h, s, cx, cy, maxY, acc). nat (maxY + 1 - cy))") auto

declare scan_y.simps [simp del]

function scan_x :: "host \<Rightarrow> state \<Rightarrow> int \<Rightarrow> int \<Rightarrow> int \<Rightarrow> int \<Rightarrow> OreSpot list \<Rightarrow> OreSpot list" where
  "scan_x h s cx maxX minY maxY acc =
     (if cx \<le> maxX then scan_x h s (cx + 1) maxX minY maxY (scan_y h s cx minY maxY acc) else acc)"
  by pat_completeness auto
termination
  by (relation "measure (\<lambda>(h, s, cx, maxX, minY, maxY, acc). nat (maxX + 1 - cx))") auto

declare scan_x.simps [simp del]

text \<open>
  The sort key \<^verbatim>\<open>sqrt((spot.x - Player.Position.X)**2 + (spot.y - Player.Position.Y)**2)\<close>.
  The squares are exact integers; the model takes the real square root where Python
  takes the correctly rounded one, which orders squared distances below \<open>2^52\<close> the
  same way. \<^verbatim>\<open>sorted\<close> is stable, as \<open>sort_key\<close> is.
\<close>

definition dist2 :: "state \<Rightarrow> OreSpot \<Rightarrow> int" where
  "dist2 s p = (spot_x p - Player_X (gm s))\<^sup>2 + (spot_y p - Player_Y (gm s))\<^sup>2"

definition distance :: "state \<Rightarrow> OreSpot \<Rightarrow> real" where
  "distance s p = sqrt (real_of_int (dist2 s p))"

definition sort_spots :: "state \<Rightarrow> state" where
  "sort_spots s = s\<lparr>oreSpots := sort_key (distance s) (oreSpots s)\<rparr>"

definition ScanStatic :: "host \<Rightarrow> state \<Rightarrow> state" where
  "ScanStatic h s0 =
     (let s1 = SendMessage ''--> Scan for Ore Spots Started'' s0;
          minX = Player_X (gm s1) - scanRadius;
          maxX = Player_X (gm s1) + scanRadius;
          minY = Player_Y (gm s1) - scanRadius;
          maxY = Player_Y (gm s1) + scanRadius;
          s2 = s1\<lparr>oreSpots := scan_x h s1 minX maxX minY maxY (oreSpots s1)\<rparr>;
          s3 = sort_spots s2
      in SendMessage (''--> Total Ore Spots: '' @ fmt_i (int (length (oreSpots s3)))) s3)"


subsection \<open>The main loop\<close>

text \<open>
  Lines 797 and 798 at the end of a visit: \<^verbatim>\<open>oreSpots.pop(0)\<close>, which raises on the
  empty list, and the sort by distance to the player's position of that moment.
\<close>

definition pop_resort :: "state \<Rightarrow> unit result" where
  "pop_resort s =
     (case oreSpots s of
        [] \<Rightarrow> Raised (IndexError ''pop from empty list'') s
      | p # rest \<Rightarrow> Returned () (sort_spots (s\<lparr>oreSpots := rest\<rparr>)))"

text \<open>
  One round of the loop of lines 785 to 798. \<^verbatim>\<open>safetyNet\<close> does nothing, since
  \<^verbatim>\<open>alert\<close> is \<^verbatim>\<open>False\<close>.
\<close>

definition visit :: "nat \<Rightarrow> host \<Rightarrow> state \<Rightarrow> unit result option" where
  "visit fuel h s0 =
     (case and_then (smelter_trigger h s0) (\<lambda>u s1. MoveToOreSpot h s1) of
        Returned u s2 \<Rightarrow>
          (case MineSpotUntilDepleted fuel h s2 of
             None \<Rightarrow> None
           | Some (Returned u s3) \<Rightarrow> Some (and_then (smelter_trigger h s3) (\<lambda>u s4. pop_resort s4))
           | Some (Raised e s3) \<Rightarrow> Some (Raised e s3)
           | Some Diverged \<Rightarrow> Some Diverged)
      | Raised e s2 \<Rightarrow> Some (Raised e s2)
      | Diverged \<Rightarrow> Some Diverged)"

section \<open>The connectivity checker\<close>

text \<open>
  \<^verbatim>\<open>try_connect\<close> of \<^verbatim>\<open>led_connection_test.py\<close>. An exception is told apart by its
  class as far as the \<^verbatim>\<open>except\<close> clause does: \<^verbatim>\<open>socket.timeout\<close>, \<^verbatim>\<open>OSError\<close>, or
  any other class (such as the \<^verbatim>\<open>OverflowError\<close> of a port outside \<open>0..65535\<close>).
\<close>

datatype sock_exc = SocketTimeout | OSError | OtherError string

datatype connect_outcome = Connects | Fails sock_exc

record socket =
  sock_timeout :: "real option"
  sock_peer :: "(string \<times> int) option"
  sock_closed :: bool

text \<open>
  The operating system and the network are a parameter: the exception, if any, that
  \<^verbatim>\<open>socket.socket(...)\<close>, \<^verbatim>\<open>sock.settimeout(...)\<close> and \<^verbatim>\<open>sock.close()\<close> raise, and what
  \<^verbatim>\<open>sock.connect(address)\<close> does for an address.
\<close>

record net =
  create_raises :: "sock_exc option"
  settimeout_raises :: "sock_exc option"
  connect :: "string \<times> int \<Rightarrow> connect_outcome"
  close_raises :: "sock_exc option"

definition PORT :: int where "PORT = 5200"
definition TIMEOUT_SECONDS :: real where "TIMEOUT_SECONDS = 3.0"

text \<open>\<^verbatim>\<open>sock.connect(address)\<close>: the exception raised, if any, and the socket after the call.\<close>

definition sock_connect :: "net \<Rightarrow> string \<times> int \<Rightarrow> socket \<Rightarrow> sock_exc option \<times> socket" where
  "sock_connect n address sock =
     (case connect n address of
        Connects \<Rightarrow> (None, sock\<lparr>sock_peer := Some address\<rparr>)
      | Fails e \<Rightarrow> (Some e, sock))"

text \<open>
  The \<^verbatim>\<open>try\<close> statement of lines 25 to 29 without its \<^verbatim>\<open>finally\<close>: \<^verbatim>\<open>True\<close> when the
  connect raised nothing, \<^verbatim>\<open>False\<close> when it raised \<^verbatim>\<open>socket.timeout\<close> or \<^verbatim>\<open>OSError\<close>;
  an exception of another class is not caught.
\<close>

definition handled :: "sock_exc option \<Rightarrow> sock_exc + bool" where
  "handled raised =
     (case raised of
        None \<Rightarrow> Inr True
      | Some SocketTimeout \<Rightarrow> Inr False
      | Some OSError \<Rightarrow> Inr False
      | Some (OtherError m) \<Rightarrow> Inl (OtherError m))"

text \<open>
  The result: the value returned or the exception that leaves, and the socket at the
  end, if one was created. Lines 23 and 24 stand before the \<^verbatim>\<open>try\<close>: what they raise
  leaves the function, and the \<^verbatim>\<open>finally\<close> clause does not run. The \<^verbatim>\<open>finally\<close> clause
  calls \<^verbatim>\<open>sock.close()\<close> whatever happened in the \<^verbatim>\<open>try\<close>; an exception of
  \<^verbatim>\<open>close\<close> takes the place of the pending result. \<open>sock_closed\<close> says that
  \<^verbatim>\<open>close\<close> was called (the descriptor is released before an error is reported).
\<close>

definition try_connect :: "net \<Rightarrow> string \<times> int \<Rightarrow> (sock_exc + bool) \<times> socket option" where
  "try_connect n address =
     (case create_raises n of
        Some e \<Rightarrow> (Inl e, None)
      | None \<Rightarrow>
          (let sock0 = \<lparr>sock_timeout = None, sock_peer = None, sock_closed = False\<rparr>
           in case settimeout_raises n of
                Some e \<Rightarrow> (Inl e, Some sock0)
              | None \<Rightarrow>
                  (case sock_connect n address (sock0\<lparr>sock_timeout := Some TIMEOUT_SECONDS\<rparr>) of
                     (raised, sock2) \<Rightarrow>
                       (case close_raises n of
                          Some e \<Rightarrow> (Inl e, Some (sock2\<lparr>sock_closed := True\<rparr>))
                        | None \<Rightarrow> (handled raised, Some (sock2\<lparr>sock_closed := True\<rparr>))))))"

section \<open>Outcomes of a swing\<close>

text \<open>
  The outcome of a swing as the chain of lines 459 to 495 reads it off the journal and
  the timer: the first of its tests that holds.
\<close>

datatype outcome = MountBlocked | Depleted | ToolWorn | Blocked | Success | TimedOut | NoSignal

definition observed :: "state \<Rightarrow> outcome" where
  "observed s =
     (if Journal_SearchByType s ''You can't dig while riding or flying.'' ''System'' then MountBlocked
      else if Journal_SearchByType s ''There is no metal here to mine.'' ''System'' then Depleted
      else if Journal_SearchByType s ''You have worn out your tool!'' ''System'' then ToolWorn
      else if Journal_SearchByType s ''You can not mine there.'' ''System''
              \<or> Journal_SearchByType s ''You have no line of sight'' ''System'' then Blocked
      else if Journal_SearchByType s ''You dig some'' ''System''
              \<or> Journal_SearchByType s ''You receive'' ''System''
              \<or> Journal_SearchByType s ''You loosen'' ''System''
              \<or> Journal_Search s ''You have received'' then Success
      else if Timer_Check s ''mineTimer'' = False then TimedOut
      else NoSignal)"

section \<open>What ends the script\<close>

text \<open>
  The two ways in which an exception comes up inside a visit of a spot: the script
  stops itself after the message that no mining tool is available, or code that the
  script does not own (the smelting helper, the combat routine) raises.
\<close>

definition no_tool_stop :: "host \<Rightarrow> py_exc \<Rightarrow> state \<Rightarrow> bool" where
  "no_tool_stop h e s' =
     (e = NameError ''name 'Stop' is not defined''
      \<and> (\<exists>s. truthy (fst (EquipPickaxe h s)) = None
             \<and> s' = SendMessage ''--> No mining tool available! Stopping script.'' (snd (EquipPickaxe h s))))"

definition foreign_raise :: "host \<Rightarrow> py_exc \<Rightarrow> bool" where
  "foreign_raise h e = (\<exists>s dt g. smelter_run h s = Throws e dt g \<or> combat h s = Throws e dt g)"

section \<open>Example inputs\<close>

text \<open>
  A small world for the closed examples: the player stands at \<open>(100, 100)\<close>, a rock
  lies one cell to the south, a mountain tile two cells to the east; the mountain
  tile's cooldown timer runs until \<open>5000\<close> and the clock shows \<open>1000\<close>.
\<close>

definition ex_game :: game where
  "ex_game = \<lparr>journal = [], Player_Weight = 100, Player_MaxWeight = 600,
     Player_X = 100, Player_Y = 100, Player_Z = 0, Player_Map = 1, Player_Mount = False,
     Player_Serial = 1, Mining_Skill = 100, LeftHand = None, RightHand = None,
     Backpack_Serial = 2, Backpack_Contains = [], HasTarget = False, enemywar = None,
     mobiles = [], distances = (\<lambda>_. 0), world_items = [], Contains_of = (\<lambda>_. None)\<rparr>"

definition ex_state :: state where
  "ex_state = \<lparr>oreSpots = [], blockCount = 0, beetle = 0x002340B0, weightLimit = 200,
     smelter_hook = False, smelter_module = None, now = 1000,
     timers = [''102,100'' \<mapsto> 5000], msgs = [], commands = [], gm = ex_game\<rparr>"

definition ex_statics :: "int \<Rightarrow> int \<Rightarrow> int \<Rightarrow> tile list" where
  "ex_statics cx cy m =
     (if cx = 100 \<and> cy = 101 then [\<lparr>StaticID = 0x053E, StaticZ = 5\<rparr>]
      else if cx = 102 \<and> cy = 100 then [\<lparr>StaticID = 0x0459, StaticZ = 7\<rparr>]
      else [])"

definition ex_host :: host where
  "ex_host = \<lparr>react = (\<lambda>c s. gm s), PathFinding_Go = (\<lambda>xy s. (True, gm s)),
     Statics_GetStaticsTileInfo = ex_statics, Items_FindByID = (\<lambda>g c i. None),
     smelter_run = (\<lambda>s. Done 0 (gm s)), combat = (\<lambda>s. Done 0 (gm s))\<rparr>"

text \<open>Three candidates at squared distances 1, 25 and 4 from the player.\<close>

definition ex_near :: OreSpot where "ex_near = \<lparr>spot_x = 100, spot_y = 101, spot_z = 5, spot_id = 0x053E\<rparr>"
definition ex_far :: OreSpot where "ex_far = \<lparr>spot_x = 105, spot_y = 100, spot_z = 0, spot_id = 0x0459\<rparr>"
definition ex_mid :: OreSpot where "ex_mid = \<lparr>spot_x = 100, spot_y = 102, spot_z = 0, spot_id = 0x0540\<rparr>"

definition ex_three :: state where
  "ex_three = ex_state\<lparr>oreSpots := [ex_near, ex_far, ex_mid]\<rparr>"

text \<open>
  A miner with a pickaxe in the left hand and one candidate, the rock to the south. The
  host \<open>ex_blocked_host\<close> answers every swing with the line-of-sight text, the host
  \<open>ex_failing_host\<close> has a helper that raises the \<^verbatim>\<open>TypeError\<close> of an untyped list
  whenever it is called.
\<close>

definition ex_pickaxe :: item where
  "ex_pickaxe = \<lparr>item_Serial = 80, item_ItemID = 0x0E85, item_Name = ''pickaxe'', item_Layer = 1,
     item_Amount = 1, item_Weight = Some 11\<rparr>"

definition ex_miner :: state where
  "ex_miner = ex_state\<lparr>oreSpots := [ex_near], gm := ex_game\<lparr>LeftHand := Some ex_pickaxe\<rparr>\<rparr>"

definition ex_blocked_host :: host where
  "ex_blocked_host = ex_host\<lparr>react := (\<lambda>c s. case c of
       TargetExecute tx ty tz tid \<Rightarrow> (gm s)\<lparr>journal := journal (gm s) @ [(''System'', ''You have no line of sight to that location.'')]\<rparr>
     | _ \<Rightarrow> gm s)\<rparr>"

definition ex_failing_host :: host where
  "ex_failing_host = ex_host\<lparr>smelter_run := (\<lambda>s. Throws (TypeError ''expected List[Int32], got list'') 0 (gm s))\<rparr>"

definition ex_linked :: state where
  "ex_linked = ex_miner\<lparr>smelter_hook := True, smelter_module := Some [(''ORE_IDS'', PyIntList [0x19B9])]\<rparr>"



text \<open>
  The miner when the wait for the outcome has ended: with the depletion text in the
  journal; with the line-of-sight text.
\<close>

definition ex_depleted :: state where
  "ex_depleted = ex_miner\<lparr>timers := (timers ex_miner)(''mineTimer'' \<mapsto> 6000),
     gm := (gm ex_miner)\<lparr>journal := [(''System'', ''There is no metal here to mine.'')]\<rparr>\<rparr>"

definition ex_blocked :: state where
  "ex_blocked = ex_miner\<lparr>timers := (timers ex_miner)(''mineTimer'' \<mapsto> 6000),
     gm := (gm ex_miner)\<lparr>journal := [(''System'', ''You have no line of sight to that location.'')]\<rparr>\<rparr>"

text \<open>The miner after two blocked swings, when a swing has succeeded.\<close>

definition ex_success :: state where
  "ex_success = ex_miner\<lparr>blockCount := 2, timers := (timers ex_miner)(''mineTimer'' \<mapsto> 6000),
     gm := (gm ex_miner)\<lparr>journal := [(''System'', ''You dig some iron ore and put it in your backpack.'')]\<rparr>\<rparr>"

text \<open>
  The miner with ten pieces of ore in the backpack and the companion one tile away,
  whose pack reports a weight of 400 stones: it is full. The host \<open>ex_moving_host\<close>
  carries out every move of an item: the item leaves the backpack and is no longer
  found.
\<close>

definition ex_pack :: item where
  "ex_pack = \<lparr>item_Serial = 90, item_ItemID = 0x0E75, item_Name = ''backpack'', item_Layer = 21,
     item_Amount = 1, item_Weight = Some 400\<rparr>"

definition ex_beetle :: mobile where
  "ex_beetle = \<lparr>mob_Serial = 0x002340B0, mob_Body = 0x317, mob_Name = ''a giant beetle'',
     mob_X = 101, mob_Y = 100, mob_Backpack = Some ex_pack, mob_Contains = None\<rparr>"

definition ex_ore :: item where
  "ex_ore = \<lparr>item_Serial = 91, item_ItemID = 0x19B9, item_Name = ''iron ore'', item_Layer = 0,
     item_Amount = 10, item_Weight = Some 120\<rparr>"

definition ex_loaded :: state where
  "ex_loaded = ex_miner\<lparr>gm := (gm ex_miner)\<lparr>Backpack_Contains := [ex_ore], world_items := [ex_ore],
     mobiles := [ex_beetle], distances := (\<lambda>serial. 1)\<rparr>\<rparr>"

definition ex_moving_host :: host where
  "ex_moving_host = ex_host\<lparr>react := (\<lambda>c s. case c of
       ItemsMove serial dest amount \<Rightarrow>
         (gm s)\<lparr>Backpack_Contains := filter (\<lambda>it. item_Serial it \<noteq> serial) (Backpack_Contains (gm s)),
                 world_items := filter (\<lambda>it. item_Serial it \<noteq> serial) (world_items (gm s))\<rparr>
     | _ \<Rightarrow> gm s)\<rparr>"

text \<open>
  The miner five stones below the maximal weight with no companion in sight: once with
  a spare pickaxe as the only item in the backpack, once with the ore.
\<close>

definition ex_heavy :: state where
  "ex_heavy = ex_miner\<lparr>gm := (gm ex_miner)\<lparr>Player_Weight := 595, Backpack_Contains := [ex_pickaxe]\<rparr>\<rparr>"

definition ex_heavy_ore :: state where
  "ex_heavy_ore = ex_miner\<lparr>gm := (gm ex_miner)\<lparr>Player_Weight := 595, Backpack_Contains := [ex_pickaxe, ex_ore]\<rparr>\<rparr>"

text \<open>A player with no mining tool at all, in front of the rock.\<close>

definition ex_no_tool :: state where
  "ex_no_tool = ex_state\<lparr>oreSpots := [ex_near]\<rparr>"

text \<open>A player whose mining skill is just below the threshold of 40.\<close>

definition ex_unskilled :: state where
  "ex_unskilled = ex_state\<lparr>gm := ex_game\<lparr>Mining_Skill := 39.9\<rparr>\<rparr>"

text \<open>
  A network for the checker: the processor at \<^verbatim>\<open>192.168.0.100\<close> accepts the
  connection, the one at \<^verbatim>\<open>192.168.0.101\<close> does not answer in time, any other host
  is refused; a port outside \<open>0..65535\<close> makes \<^verbatim>\<open>connect\<close> raise \<^verbatim>\<open>OverflowError\<close>, as
  Python does. In \<open>ex_net_no_descriptor\<close> the process is out of file descriptors and
  \<^verbatim>\<open>socket.socket(...)\<close> raises \<^verbatim>\<open>OSError\<close>.
\<close>

definition ex_net :: net where
  "ex_net = \<lparr>create_raises = None, settimeout_raises = None,
     connect = (\<lambda>address.
        if snd address < 0 \<or> 65535 < snd address
        then Fails (OtherError ''OverflowError: connect(): port must be 0-65535.'')
        else if fst address = ''192.168.0.100'' then Connects
        else if fst address = ''192.168.0.101'' then Fails SocketTimeout
        else Fails OSError),
     close_raises = None\<rparr>"

definition ex_net_no_descriptor :: net where
  "ex_net_no_descriptor = ex_net\<lparr>create_raises := Some OSError\<rparr>"

section \<open>Discovery excludes cells on cooldown\<close>

lemma scan_tile_mem:
  "p \<in> set (scan_tile s cx cy t) \<longleftrightarrow>
     p = \<lparr>spot_x = cx, spot_y = cy, spot_z = StaticZ t, spot_id = StaticID t\<rparr>
     \<and> StaticID t \<in> set oreStaticIDs \<and> \<not> Timer_Check s (coord_key cx cy)"
  unfolding scan_tile_def by (induction oreStaticIDs) auto

lemma scan_cell_mem:
  "p \<in> set (scan_cell h s cx cy) \<longleftrightarrow>
     (\<exists>t \<in> set (Statics_GetStaticsTileInfo h cx cy (Player_Map (gm s))).
        p = \<lparr>spot_x = cx, spot_y = cy, spot_z = StaticZ t, spot_id = StaticID t\<rparr>
        \<and> StaticID t \<in> set oreStaticIDs)
     \<and> \<not> Timer_Check s (coord_key cx cy)"
  unfolding scan_cell_def Let_def by (auto simp: scan_tile_mem)

lemma int_range_split: "(a::int) \<le> b \<Longrightarrow> {a..b} = insert a {a + 1..b}"
  by (subst simp_from_to) simp

lemma UN_int_range_split:
  "(a::int) \<le> b \<Longrightarrow> (\<Union>i \<in> {a..b}. F i) = F a \<union> (\<Union>i \<in> {a + 1..b}. F i)"
  by (subst int_range_split) simp_all

lemma set_scan_y:
  "set (scan_y h s cx cy maxY acc) = set acc \<union> (\<Union>cy' \<in> {cy..maxY}. set (scan_cell h s cx cy'))"
proof (induction h s cx cy maxY acc rule: scan_y.induct)
  case (1 h s cx cy maxY acc)
  show ?case
  proof (cases "cy \<le> maxY")
    case True
    have "set (scan_y h s cx cy maxY acc) = set (scan_y h s cx (cy + 1) maxY (acc @ scan_cell h s cx cy))"
      using True by (subst scan_y.simps) simp
    also have "\<dots> = set (acc @ scan_cell h s cx cy) \<union> (\<Union>cy' \<in> {cy + 1..maxY}. set (scan_cell h s cx cy'))"
      by (rule 1[OF True])
    finally show ?thesis by (simp add: UN_int_range_split[OF True] Un_assoc)
  next
    case False
    then show ?thesis by (subst scan_y.simps) simp
  qed
qed

lemma set_scan_x:
  "set (scan_x h s cx maxX minY maxY acc) =
     set acc \<union> (\<Union>cx' \<in> {cx..maxX}. \<Union>cy' \<in> {minY..maxY}. set (scan_cell h s cx' cy'))"
proof (induction h s cx maxX minY maxY acc rule: scan_x.induct)
  case (1 h s cx maxX minY maxY acc)
  show ?case
  proof (cases "cx \<le> maxX")
    case True
    have "set (scan_x h s cx maxX minY maxY acc) = set (scan_x h s (cx + 1) maxX minY maxY (scan_y h s cx minY maxY acc))"
      using True by (subst scan_x.simps) simp
    also have "\<dots> = set (scan_y h s cx minY maxY acc)
         \<union> (\<Union>cx' \<in> {cx + 1..maxX}. \<Union>cy' \<in> {minY..maxY}. set (scan_cell h s cx' cy'))"
      by (rule 1[OF True])
    finally show ?thesis by (simp add: UN_int_range_split[OF True] set_scan_y Un_assoc)
  next
    case False
    then show ?thesis by (subst scan_x.simps) simp
  qed
qed

lemma Timer_Check_frame:
  "timers s' = timers s \<Longrightarrow> now s' = now s \<Longrightarrow> Timer_Check s' k = Timer_Check s k"
  by (simp add: Timer_Check_def split: option.splits)

lemma scan_cell_frame:
  assumes "timers s' = timers s" "now s' = now s" "gm s' = gm s"
  shows "scan_cell h s' cx cy = scan_cell h s cx cy"
proof -
  have "scan_tile s' cx cy = scan_tile s cx cy"
    by (intro ext) (simp add: scan_tile_def Timer_Check_frame[OF assms(1,2)])
  then show ?thesis by (simp add: scan_cell_def Let_def assms(3))
qed

lemma ScanStatic_frame:
  "timers (ScanStatic h s) = timers s" "now (ScanStatic h s) = now s" "gm (ScanStatic h s) = gm s"
  by (simp_all add: ScanStatic_def Let_def sort_spots_def SendMessage_def)

lemma set_oreSpots_ScanStatic:
  "set (oreSpots (ScanStatic h s)) =
     set (oreSpots s) \<union>
     (\<Union>cx \<in> {Player_X (gm s) - scanRadius..Player_X (gm s) + scanRadius}.
      \<Union>cy \<in> {Player_Y (gm s) - scanRadius..Player_Y (gm s) + scanRadius}. set (scan_cell h s cx cy))"
proof -
  have sc: "scan_cell h (SendMessage m s) = scan_cell h s" for m
    by (intro ext scan_cell_frame) (simp_all add: SendMessage_def)
  have "oreSpots (ScanStatic h s) =
      sort_key (distance (SendMessage ''--> Scan for Ore Spots Started'' s\<lparr>oreSpots :=
        scan_x h (SendMessage ''--> Scan for Ore Spots Started'' s) (Player_X (gm s) - scanRadius) (Player_X (gm s) + scanRadius)
         (Player_Y (gm s) - scanRadius) (Player_Y (gm s) + scanRadius) (oreSpots s)\<rparr>))
       (scan_x h (SendMessage ''--> Scan for Ore Spots Started'' s) (Player_X (gm s) - scanRadius) (Player_X (gm s) + scanRadius)
         (Player_Y (gm s) - scanRadius) (Player_Y (gm s) + scanRadius) (oreSpots s))"
    by (simp add: ScanStatic_def Let_def sort_spots_def SendMessage_def)
  then show ?thesis
    by (simp add: set_scan_x sc)
qed

text \<open>
  Claim C1. A scanned cell whose coordinate timer exists and has not expired adds no
  spot to the candidates, and when no candidate held before the scan is on cooldown
  (the main loop starts every scan from the empty list), no candidate after the scan
  is.
\<close>

theorem ScanStatic_excludes_cooldown:
  assumes "\<forall>p \<in> set (oreSpots s). \<not> Timer_Check s (coord_key (spot_x p) (spot_y p))"
  shows "(\<forall>p \<in> set (oreSpots (ScanStatic h s)).
            \<not> Timer_Check (ScanStatic h s) (coord_key (spot_x p) (spot_y p)))
       \<and> (\<forall>cx cy. Timer_Check s (coord_key cx cy) \<longrightarrow> scan_cell h s cx cy = [])"
proof (intro conjI ballI allI impI)
  have tc: "Timer_Check (ScanStatic h s) k = Timer_Check s k" for k
    by (rule Timer_Check_frame) (simp_all add: ScanStatic_frame)
  fix p assume "p \<in> set (oreSpots (ScanStatic h s))"
  then consider "p \<in> set (oreSpots s)"
    | cx cy where "p \<in> set (scan_cell h s cx cy)"
    unfolding set_oreSpots_ScanStatic by blast
  then show "\<not> Timer_Check (ScanStatic h s) (coord_key (spot_x p) (spot_y p))"
  proof cases
    case 1
    with assms show ?thesis by (simp add: tc)
  next
    case 2
    then show ?thesis unfolding scan_cell_mem tc by auto
  qed
next
  fix cx cy assume active: "Timer_Check s (coord_key cx cy)"
  have "p \<notin> set (scan_cell h s cx cy)" for p
    by (simp add: scan_cell_mem active)
  then show "scan_cell h s cx cy = []"
    by (cases "scan_cell h s cx cy") force+
qed

lemma coord_key_102_100: "coord_key 102 100 = ''102,100''"
  by (simp add: coord_key_def fmt_i_def str_nat.simps digit_char_def)

lemma coord_key_100_101: "coord_key 100 101 = ''100,101''"
  by (simp add: coord_key_def fmt_i_def str_nat.simps digit_char_def)

theorem ScanStatic_excludes_cooldown_witness:
  "oreSpots ex_state = []
   \<and> Timer_Check ex_state (coord_key 102 100)
   \<and> scan_cell ex_host ex_state 102 100 = []
   \<and> \<lparr>spot_x = 100, spot_y = 101, spot_z = 5, spot_id = 0x053E\<rparr> \<in> set (oreSpots (ScanStatic ex_host ex_state))
   \<and> \<not> Timer_Check (ScanStatic ex_host ex_state) (coord_key 100 101)"
proof -
  let ?p = "\<lparr>spot_x = 100, spot_y = 101, spot_z = 5, spot_id = 0x053E\<rparr>"
  have empty: "oreSpots ex_state = []"
    by (simp add: ex_state_def)
  have free: "\<forall>p \<in> set (oreSpots ex_state). \<not> Timer_Check ex_state (coord_key (spot_x p) (spot_y p))"
    by (simp add: empty)
  have active: "Timer_Check ex_state (coord_key 102 100)"
    by (simp add: coord_key_102_100 Timer_Check_def ex_state_def)
  have idle: "\<not> Timer_Check ex_state (coord_key 100 101)"
    by (simp add: coord_key_100_101 Timer_Check_def ex_state_def)
  have cell: "?p \<in> set (scan_cell ex_host ex_state 100 101)"
    unfolding scan_cell_mem using idle
    by (simp add: ex_host_def ex_statics_def oreStaticIDs_def)
  have px: "Player_X (gm ex_state) = 100" "Player_Y (gm ex_state) = 100"
    by (simp_all add: ex_state_def ex_game_def)
  have mem: "?p \<in> set (oreSpots (ScanStatic ex_host ex_state))"
    unfolding set_oreSpots_ScanStatic px scanRadius_def
    using cell by (intro UnI2 UN_I[of 100] UN_I[of 101]) simp_all
  from ScanStatic_excludes_cooldown[OF free, of ex_host] mem
  have "\<not> Timer_Check (ScanStatic ex_host ex_state) (coord_key (spot_x ?p) (spot_y ?p))"
    by blast
  then have "\<not> Timer_Check (ScanStatic ex_host ex_state) (coord_key 100 101)"
    by simp
  with ScanStatic_excludes_cooldown[OF free, of ex_host] empty active mem show ?thesis
    by blast
qed

section \<open>Candidates are visited nearest first\<close>

lemma distance_gm: "gm s' = gm s \<Longrightarrow> distance s' = distance s"
  by (intro ext) (simp add: distance_def dist2_def)

lemma sort_spots_props:
  "gm (sort_spots s) = gm s"
  "mset (oreSpots (sort_spots s)) = mset (oreSpots s)"
  "sorted (map (distance (sort_spots s)) (oreSpots (sort_spots s)))"
proof -
  show g: "gm (sort_spots s) = gm s" by (simp add: sort_spots_def)
  show "mset (oreSpots (sort_spots s)) = mset (oreSpots s)" by (simp add: sort_spots_def)
  show "sorted (map (distance (sort_spots s)) (oreSpots (sort_spots s)))"
    unfolding distance_gm[OF g] by (simp add: sort_spots_def)
qed

lemma sorted_hd_least:
  "sorted (map f xs) \<Longrightarrow> p \<in> set xs \<Longrightarrow> f (hd xs) \<le> f p"
  by (cases xs) auto

lemma ScanStatic_sorted: "sorted (map (distance (ScanStatic h s)) (oreSpots (ScanStatic h s)))"
proof -
  obtain s2 m where eq: "ScanStatic h s = SendMessage m (sort_spots s2)"
    by (simp add: ScanStatic_def Let_def)
  have "distance (ScanStatic h s) = distance (sort_spots s2)"
    by (rule distance_gm) (simp add: eq)
  then show ?thesis
    using sort_spots_props(3)[of s2] by (simp add: eq)
qed

text \<open>
  Claim C7. After the scan the candidates are in non-decreasing order of their distance
  to the player, and so they are after \<^verbatim>\<open>pop(0)\<close> and the sort that follows it (the
  remaining candidates, ordered by the distance to the player's position of that
  moment); the head of the list is then a nearest candidate.
\<close>

theorem candidates_sorted_by_distance:
  "sorted (map (distance (ScanStatic h s)) (oreSpots (ScanStatic h s)))
   \<and> (\<forall>p \<in> set (oreSpots (ScanStatic h s)).
         distance (ScanStatic h s) (hd (oreSpots (ScanStatic h s))) \<le> distance (ScanStatic h s) p)
   \<and> (\<forall>s'. pop_resort s = Returned () s' \<longrightarrow>
         gm s' = gm s \<and> mset (oreSpots s') = mset (tl (oreSpots s))
         \<and> sorted (map (distance s') (oreSpots s'))
         \<and> (\<forall>p \<in> set (oreSpots s'). distance s' (hd (oreSpots s')) \<le> distance s' p))"
proof (intro conjI allI impI ballI)
  show "sorted (map (distance (ScanStatic h s)) (oreSpots (ScanStatic h s)))"
    by (rule ScanStatic_sorted)
  fix p assume "p \<in> set (oreSpots (ScanStatic h s))"
  then show "distance (ScanStatic h s) (hd (oreSpots (ScanStatic h s))) \<le> distance (ScanStatic h s) p"
    by (rule sorted_hd_least[OF ScanStatic_sorted])
next
  fix s' assume pop: "pop_resort s = Returned () s'"
  then obtain q rest where s': "oreSpots s = q # rest" "s' = sort_spots (s\<lparr>oreSpots := rest\<rparr>)"
    by (auto simp: pop_resort_def split: list.splits)
  show "gm s' = gm s" by (simp add: s' sort_spots_props)
  show "mset (oreSpots s') = mset (tl (oreSpots s))" by (simp add: s' sort_spots_props)
  show srt: "sorted (map (distance s') (oreSpots s'))" unfolding s' by (rule sort_spots_props)
  fix p assume "p \<in> set (oreSpots s')"
  then show "distance s' (hd (oreSpots s')) \<le> distance s' p"
    by (rule sorted_hd_least[OF srt])
qed

lemma ex_three_dist2:
  "dist2 ex_three ex_near = 1" "dist2 ex_three ex_far = 25" "dist2 ex_three ex_mid = 4"
  by (simp_all add: dist2_def ex_three_def ex_state_def ex_game_def ex_near_def ex_far_def ex_mid_def)

lemma ex_three_pop: "pop_resort ex_three = Returned () (ex_three\<lparr>oreSpots := [ex_mid, ex_far]\<rparr>)"
proof -
  have d: "distance (ex_three\<lparr>oreSpots := [ex_far, ex_mid]\<rparr>) = distance ex_three"
    by (rule distance_gm) simp
  have "oreSpots ex_three = [ex_near, ex_far, ex_mid]" by (simp add: ex_three_def)
  then show ?thesis
    by (simp add: pop_resort_def sort_spots_def d distance_def ex_three_dist2)
qed

theorem candidates_sorted_by_distance_witness:
  "pop_resort ex_three = Returned () (ex_three\<lparr>oreSpots := [ex_mid, ex_far]\<rparr>)
   \<and> distance ex_three ex_mid \<le> distance ex_three ex_far
   \<and> sorted (map (distance (ScanStatic ex_host ex_state)) (oreSpots (ScanStatic ex_host ex_state)))"
proof -
  let ?s' = "ex_three\<lparr>oreSpots := [ex_mid, ex_far]\<rparr>"
  have d: "distance ?s' = distance ex_three"
    by (rule distance_gm) simp
  from candidates_sorted_by_distance[of ex_host ex_three] ex_three_pop
  have "\<forall>p \<in> set (oreSpots ?s'). distance ?s' (hd (oreSpots ?s')) \<le> distance ?s' p"
    by blast
  then have "distance ex_three ex_mid \<le> distance ex_three ex_far"
    by (simp add: d)
  with ex_three_pop candidates_sorted_by_distance[of ex_host ex_state] show ?thesis
    by blast
qed

section \<open>The connectivity checker catches time-outs and OS errors of the connect\<close>

lemma handled_cases:
  "(handled r = Inr True) = (r = None)"
  "(handled r = Inr False) = (r = Some SocketTimeout \<or> r = Some OSError)"
  "(handled r = Inl e) = (\<exists>m. e = OtherError m \<and> r = Some e)"
  by (auto simp: handled_def split: option.splits sock_exc.splits)

lemma fst_sock_connect:
  "fst (sock_connect n address sock) = (case connect n address of Connects \<Rightarrow> None | Fails e \<Rightarrow> Some e)"
  by (simp add: sock_connect_def split: connect_outcome.splits)

lemma try_connect_tried:
  assumes "create_raises n = None" "settimeout_raises n = None"
  shows "fst (try_connect n address) =
           (case close_raises n of Some e \<Rightarrow> Inl e
            | None \<Rightarrow> handled (case connect n address of Connects \<Rightarrow> None | Fails e \<Rightarrow> Some e))"
    and "\<exists>sock. snd (try_connect n address) = Some sock \<and> sock_closed sock
           \<and> sock_timeout sock = Some TIMEOUT_SECONDS"
  using assms
  by (auto simp: try_connect_def sock_connect_def Let_def split: option.splits connect_outcome.splits prod.splits)

text \<open>
  Claim C10, as the code has it. When creating the socket, setting its timeout and
  closing it raise nothing, \<^verbatim>\<open>try_connect\<close> returns \<^verbatim>\<open>True\<close> exactly when the connect
  succeeds and \<^verbatim>\<open>False\<close> exactly when it raises \<^verbatim>\<open>socket.timeout\<close> or \<^verbatim>\<open>OSError\<close>;
  neither of the two leaves the function, and the only exceptions that do are those of
  another class raised by the connect. Once the socket is created and its timeout set,
  \<^verbatim>\<open>close\<close> is called on every path, and what \<^verbatim>\<open>close\<close> raises leaves the function.
  What \<^verbatim>\<open>socket.socket(...)\<close> or \<^verbatim>\<open>settimeout\<close> raises leaves the function too: with no
  socket in the first case, with a socket left open in the second.
\<close>

theorem try_connect_catches:
  "(create_raises n = None \<and> settimeout_raises n = None \<and> close_raises n = None \<longrightarrow>
      (fst (try_connect n address) = Inr True \<longleftrightarrow> connect n address = Connects)
    \<and> (fst (try_connect n address) = Inr False \<longleftrightarrow>
         connect n address = Fails SocketTimeout \<or> connect n address = Fails OSError)
    \<and> fst (try_connect n address) \<noteq> Inl SocketTimeout
    \<and> fst (try_connect n address) \<noteq> Inl OSError
    \<and> (\<forall>e. fst (try_connect n address) = Inl e \<longleftrightarrow> (\<exists>m. e = OtherError m \<and> connect n address = Fails e)))
   \<and> (create_raises n = None \<and> settimeout_raises n = None \<longrightarrow>
        (\<exists>sock. snd (try_connect n address) = Some sock \<and> sock_closed sock)
      \<and> (\<forall>e. close_raises n = Some e \<longrightarrow> fst (try_connect n address) = Inl e))
   \<and> (\<forall>e. create_raises n = Some e \<longrightarrow> try_connect n address = (Inl e, None))
   \<and> (\<forall>e. create_raises n = None \<and> settimeout_raises n = Some e \<longrightarrow>
        fst (try_connect n address) = Inl e
      \<and> (\<exists>sock. snd (try_connect n address) = Some sock \<and> \<not> sock_closed sock))"
proof (intro conjI impI allI)
  assume a: "create_raises n = None \<and> settimeout_raises n = None \<and> close_raises n = None"
  then have f: "fst (try_connect n address) = handled (case connect n address of Connects \<Rightarrow> None | Fails e \<Rightarrow> Some e)"
    by (simp add: try_connect_tried(1))
  show "(fst (try_connect n address) = Inr True) = (connect n address = Connects)"
    unfolding f handled_cases by (simp split: connect_outcome.splits)
  show "(fst (try_connect n address) = Inr False) =
      (connect n address = Fails SocketTimeout \<or> connect n address = Fails OSError)"
    unfolding f handled_cases by (simp split: connect_outcome.splits)
  show "fst (try_connect n address) \<noteq> Inl SocketTimeout" "fst (try_connect n address) \<noteq> Inl OSError"
    unfolding f handled_cases by simp_all
  show "(fst (try_connect n address) = Inl e) = (\<exists>m. e = OtherError m \<and> connect n address = Fails e)" for e
    unfolding f handled_cases by (auto split: connect_outcome.splits)
next
  assume a: "create_raises n = None \<and> settimeout_raises n = None"
  then show "\<exists>sock. snd (try_connect n address) = Some sock \<and> sock_closed sock"
    using try_connect_tried(2)[of n address] by blast
  show "fst (try_connect n address) = Inl e" if "close_raises n = Some e" for e
    using a that by (simp add: try_connect_tried(1))
next
  show "try_connect n address = (Inl e, None)" if "create_raises n = Some e" for e
    using that by (simp add: try_connect_def)
next
  fix e assume a: "create_raises n = None \<and> settimeout_raises n = Some e"
  then show "fst (try_connect n address) = Inl e"
    by (simp add: try_connect_def)
  from a show "\<exists>sock. snd (try_connect n address) = Some sock \<and> \<not> sock_closed sock"
    by (simp add: try_connect_def)
qed

lemma ex_net_facts:
  "create_raises ex_net = None" "settimeout_raises ex_net = None" "close_raises ex_net = None"
  "connect ex_net (''192.168.0.100'', PORT) = Connects"
  "connect ex_net (''192.168.0.101'', PORT) = Fails SocketTimeout"
  "connect ex_net (''192.168.0.102'', PORT) = Fails OSError"
  by (simp_all add: ex_net_def PORT_def)

theorem try_connect_catches_witness:
  "fst (try_connect ex_net (''192.168.0.100'', PORT)) = Inr True
   \<and> fst (try_connect ex_net (''192.168.0.101'', PORT)) = Inr False
   \<and> fst (try_connect ex_net (''192.168.0.102'', PORT)) = Inr False
   \<and> (\<exists>sock. snd (try_connect ex_net (''192.168.0.101'', PORT)) = Some sock \<and> sock_closed sock)
   \<and> try_connect (ex_net\<lparr>create_raises := Some OSError\<rparr>) (''192.168.0.100'', PORT) = (Inl OSError, None)
   \<and> fst (try_connect (ex_net\<lparr>close_raises := Some OSError\<rparr>) (''192.168.0.100'', PORT)) = Inl OSError
   \<and> fst (try_connect (ex_net\<lparr>settimeout_raises := Some OSError\<rparr>) (''192.168.0.100'', PORT)) = Inl OSError"
  using try_connect_catches[of ex_net "(''192.168.0.100'', PORT)"]
    try_connect_catches[of ex_net "(''192.168.0.101'', PORT)"]
    try_connect_catches[of ex_net "(''192.168.0.102'', PORT)"]
    try_connect_catches[of "ex_net\<lparr>create_raises := Some OSError\<rparr>" "(''192.168.0.100'', PORT)"]
    try_connect_catches[of "ex_net\<lparr>close_raises := Some OSError\<rparr>" "(''192.168.0.100'', PORT)"]
    try_connect_catches[of "ex_net\<lparr>settimeout_raises := Some OSError\<rparr>" "(''192.168.0.100'', PORT)"]
  by (simp add: ex_net_facts)

text \<open>
  Claim C10 fails on the code for some addresses and some states of the system: for a
  port outside \<open>0..65535\<close> the connect raises \<^verbatim>\<open>OverflowError\<close>, which the \<^verbatim>\<open>except\<close>
  clause does not take, so no boolean is returned (the socket is closed all the same);
  and an \<^verbatim>\<open>OSError\<close> of \<^verbatim>\<open>socket.socket(...)\<close>, which stands before the \<^verbatim>\<open>try\<close>,
  reaches the caller.
\<close>

theorem try_connect_not_always_boolean:
  "fst (try_connect ex_net (''127.0.0.1'', 70000)) = Inl (OtherError ''OverflowError: connect(): port must be 0-65535.'')
   \<and> (\<exists>sock. snd (try_connect ex_net (''127.0.0.1'', 70000)) = Some sock \<and> sock_closed sock)
   \<and> try_connect ex_net_no_descriptor (''192.168.0.100'', PORT) = (Inl OSError, None)"
  by (simp add: try_connect_def sock_connect_def handled_def ex_net_def ex_net_no_descriptor_def Let_def PORT_def)

section \<open>The wrapped smelting helper\<close>

text \<open>
  The only exception that leaves \<^verbatim>\<open>_wrapped_smelter\<close> is one raised by the retry: the
  first call raised a \<^verbatim>\<open>TypeError\<close> whose text mentions \<^verbatim>\<open>List[Int32]\<close>, and the call
  after the normalization raised again.
\<close>

lemma wrapped_smelter_raises_on_retry_only:
  assumes "wrapped_smelter h s = Raised e s'"
  shows "\<exists>m s1. smelter_run_call h s = Raised (TypeError m) s1 \<and> str_in ''List[Int32]'' m
           \<and> smelter_run_call h (normalize_smelter_lists s1) = Raised e s'"
  using assms unfolding wrapped_smelter_def Let_def
  by (auto split: if_splits result.splits py_exc.splits)

lemma ex_linked_normalized:
  "normalize_smelter_lists ex_linked =
     SendMessage ''Auto-smelter lists normalized: ORE_IDS'' (ex_linked\<lparr>smelter_module := Some [(''ORE_IDS'', Int32List [0x19B9])]\<rparr>)"
  by (simp add: normalize_smelter_lists_def ex_linked_def normalize_attr_def str_isupper_def
      upper_chars_def lower_chars_def to_int32_list_def Let_def)

text \<open>
  Claim C4 says that no exception of the helper leaves \<^verbatim>\<open>_wrapped_smelter\<close>. The helper
  of \<open>ex_failing_host\<close> raises the \<^verbatim>\<open>TypeError\<close> that mentions \<^verbatim>\<open>List[Int32]\<close> on every
  call: the first one is caught, the lists are normalized, and the second one, raised
  by the retry, leaves the wrapper, \<^verbatim>\<open>MineOnce\<close> and the visit of the main loop.
\<close>

theorem wrapped_smelter_retry_raises:
  "wrapped_smelter ex_failing_host ex_linked =
     Raised (TypeError ''expected List[Int32], got list'')
       (SendMessage ''Auto-smelter lists normalized: ORE_IDS''
          (ex_linked\<lparr>smelter_module := Some [(''ORE_IDS'', Int32List [0x19B9])]\<rparr>))
   \<and> (\<exists>s'. MineOnce ex_failing_host ex_linked = Raised (TypeError ''expected List[Int32], got list'') s')
   \<and> (\<exists>s'. visit fuel ex_failing_host ex_linked = Some (Raised (TypeError ''expected List[Int32], got list'') s'))"
proof -
  have beetle: "Mobiles_FindBySerial (gm ex_linked) (beetle ex_linked) = None"
    by (simp add: Mobiles_FindBySerial_def ex_linked_def ex_miner_def ex_state_def ex_game_def)
  have run: "smelter_run_call ex_failing_host s = Raised (TypeError ''expected List[Int32], got list'') (s\<lparr>now := now s + 0, gm := gm s\<rparr>)" for s
    by (simp add: smelter_run_call_def run_reply_def ex_failing_host_def)
  have same: "s\<lparr>now := now s + 0, gm := gm s\<rparr> = s" for s :: state
    by simp
  have w: "wrapped_smelter ex_failing_host ex_linked =
     Raised (TypeError ''expected List[Int32], got list'')
       (SendMessage ''Auto-smelter lists normalized: ORE_IDS''
          (ex_linked\<lparr>smelter_module := Some [(''ORE_IDS'', Int32List [0x19B9])]\<rparr>))"
    by (simp add: wrapped_smelter_def Let_def beetle run ex_linked_normalized)
  have hook: "smelter_hook ex_linked" "enemywar (gm ex_linked) = None" "\<not> Player_Mount (gm ex_linked)" "\<not> HasTarget (gm ex_linked)"
    by (simp_all add: ex_linked_def ex_miner_def ex_state_def ex_game_def)
  have t: "smelter_trigger ex_failing_host ex_linked = wrapped_smelter ex_failing_host ex_linked"
    by (simp add: smelter_trigger_def SMELT_ON_TRIGGERS_def hook)
  have m: "\<exists>s'. MineOnce ex_failing_host ex_linked = Raised (TypeError ''expected List[Int32], got list'') s'"
    by (simp add: MineOnce_def MineOnce_prepare_def Let_def hook CheckEnemy_def and_then_def t w)
  have v: "\<exists>s'. visit fuel ex_failing_host ex_linked = Some (Raised (TypeError ''expected List[Int32], got list'') s')"
    by (simp add: visit_def and_then_def t w)
  from w m v show ?thesis by blast
qed

section \<open>What a swing leaves unchanged\<close>

lemma kept_SendMessage [simp]: "kept s (SendMessage m s)"
  by (simp add: kept_def)

lemma kept_issue [simp]: "kept s (issue h c s)"
  by (simp add: kept_def)

lemma kept_Misc_Pause [simp]: "kept s (Misc_Pause h n s)"
  by (simp add: kept_def)

lemma Journal_Clear_frame [simp]:
  "oreSpots (Journal_Clear h s) = oreSpots s" "blockCount (Journal_Clear h s) = blockCount s"
  "beetle (Journal_Clear h s) = beetle s" "weightLimit (Journal_Clear h s) = weightLimit s"
  "smelter_hook (Journal_Clear h s) = smelter_hook s" "smelter_module (Journal_Clear h s) = smelter_module s"
  "now (Journal_Clear h s) = now s" "timers (Journal_Clear h s) = timers s"
  "commands (Journal_Clear h s) = commands s @ [JournalClear]" "msgs (Journal_Clear h s) = msgs s"
  by (simp_all add: Journal_Clear_def)

lemma kept_Journal_Clear [simp]: "kept s (Journal_Clear h s)"
  by (simp add: kept_def)

lemma kept_step: "kept s s' \<Longrightarrow> kept s' s'' \<Longrightarrow> kept s s''"
  by (rule kept_trans)

lemma kept_issues: "kept s (issues h cs s)"
proof -
  have "kept s0 (foldl (\<lambda>s' c. issue h c s') s cs)" if "kept s0 s" for s0
    using that
  proof (induction cs arbitrary: s)
    case Nil
    then show ?case by simp
  next
    case (Cons c cs)
    have "kept s0 (issue h c s)" by (rule kept_trans[OF Cons.prems]) simp
    then show ?case using Cons.IH by simp
  qed
  then show ?thesis by (simp add: issues_def)
qed

lemma issues_msgs [simp]: "msgs (issues h cs s) = msgs s"
proof -
  have "msgs (foldl (\<lambda>s' c. issue h c s') s cs) = msgs s"
    by (induction cs arbitrary: s) simp_all
  then show ?thesis by (simp add: issues_def)
qed

lemma kept_FindPickaxe: "FindPickaxe h s = (t, s') \<Longrightarrow> kept s s'"
  unfolding FindPickaxe_def
  by (auto split: option.splits intro: kept_trans[OF kept_SendMessage] kept_trans[OF kept_issue] simp: kept_def)

lemma kept_EquipPickaxe: "EquipPickaxe h s = (t, s') \<Longrightarrow> kept s s'"
  unfolding EquipPickaxe_def Let_def
  by (auto split: prod.splits option.splits if_splits dest!: kept_FindPickaxe simp: kept_def)

lemma kept_CheckEnemy: "CheckEnemy h s = Returned v s' \<or> CheckEnemy h s = Raised e s' \<Longrightarrow> kept s s'"
  unfolding CheckEnemy_def using run_reply_kept[of "combat h s" s v s' e]
  by (auto split: option.splits)

lemma kept_MineOnce_prepare: "kept s (MineOnce_prepare h s)"
  by (simp add: MineOnce_prepare_def Let_def kept_def)

lemma wait_outcome_Returned:
  "wait_outcome h s = Returned v s' \<Longrightarrow>
     kept s s' \<and> (outcome_text s' \<or> Timer_Check s' ''mineTimer'' = False)"
proof (induction h s rule: wait_outcome.induct)
  case (1 h s)
  show ?case
  proof (cases "outcome_text s \<or> Timer_Check s ''mineTimer'' = False")
    case True
    with "1.prems" show ?thesis by (simp add: wait_outcome.simps)
  next
    case False
    with "1.prems" obtain u s1 where trig: "smelter_trigger h s = Returned u s1"
      and rest: "wait_outcome h (Misc_Pause h 100 s1) = Returned v s'"
      by (subst (asm) wait_outcome.simps) (auto split: result.splits)
    from "1.IH"[OF False trig rest]
    have "kept (Misc_Pause h 100 s1) s'" and fin: "outcome_text s' \<or> Timer_Check s' ''mineTimer'' = False"
      by simp_all
    moreover have "kept s s1" using trig by (rule smelter_trigger_kept[OF disjI1])
    ultimately have "kept s s'"
      by (meson kept_trans kept_Misc_Pause)
    with fin show ?thesis by simp
  qed
qed

lemma wait_outcome_Raised:
  "wait_outcome h s = Raised e s' \<Longrightarrow> \<exists>s1. smelter_trigger h s1 = Raised e s'"
proof (induction h s rule: wait_outcome.induct)
  case (1 h s)
  show ?case
  proof (cases "outcome_text s \<or> Timer_Check s ''mineTimer'' = False")
    case True
    with "1.prems" show ?thesis by (simp add: wait_outcome.simps)
  next
    case False
    show ?thesis
    proof (cases "smelter_trigger h s")
      case (Returned u s1)
      with False "1.prems" have "wait_outcome h (Misc_Pause h 100 s1) = Raised e s'"
        by (subst (asm) wait_outcome.simps) simp
      from "1.IH"[OF False Returned this] show ?thesis .
    next
      case (Raised e1 s1)
      with False "1.prems" have "e1 = e" "s1 = s'"
        by (subst (asm) wait_outcome.simps, simp)+
      with Raised show ?thesis by blast
    next
      case Diverged
      with False "1.prems" show ?thesis
        by (subst (asm) wait_outcome.simps) simp
    qed
  qed
qed

lemma observed_after_wait:
  "outcome_text s \<or> Timer_Check s ''mineTimer'' = False \<Longrightarrow> observed s \<noteq> NoSignal"
  by (auto simp: observed_def outcome_text_def)

lemma Timer_Create_frame [simp]:
  "oreSpots (Timer_Create k d s) = oreSpots s" "blockCount (Timer_Create k d s) = blockCount s"
  "beetle (Timer_Create k d s) = beetle s" "weightLimit (Timer_Create k d s) = weightLimit s"
  "smelter_hook (Timer_Create k d s) = smelter_hook s" "smelter_module (Timer_Create k d s) = smelter_module s"
  "now (Timer_Create k d s) = now s" "timers (Timer_Create k d s) = (timers s)(k \<mapsto> now s + d)"
  "commands (Timer_Create k d s) = commands s" "msgs (Timer_Create k d s) = msgs s"
  "gm (Timer_Create k d s) = gm s"
  by (simp_all add: Timer_Create_def)

text \<open>
  What \<^verbatim>\<open>MineOnce\<close> returns is what the chain returns in the state in which the wait
  ended; the candidates and \<^verbatim>\<open>blockCount\<close> are then as they were at the call.
\<close>

lemma MineOnce_swing_Returned:
  assumes "MineOnce_swing h s4 = Returned b s'"
  shows "\<exists>s9. MineOnce_outcome h s9 = Returned b s' \<and> oreSpots s9 = oreSpots s4
           \<and> blockCount s9 = blockCount s4 \<and> observed s9 \<noteq> NoSignal"
proof -
  obtain tool s5 where eq: "EquipPickaxe h (Journal_Clear h s4) = (tool, s5)"
    by (cases "EquipPickaxe h (Journal_Clear h s4)")
  have k5: "kept s4 s5"
    by (rule kept_trans[OF kept_Journal_Clear kept_EquipPickaxe[OF eq]])
  from assms eq obtain pickaxe where tool: "truthy tool = Some pickaxe"
    by (cases "truthy tool") (auto simp: MineOnce_swing_def Stop_def)
  define s6 where "s6 = issues h [TargetCancel, WaitForTarget 300, UseItem pickaxe, WaitForTarget 300] s5"
  have k6: "kept s4 s6" unfolding s6_def by (rule kept_trans[OF k5 kept_issues])
  from assms eq tool obtain p rest where spots: "oreSpots s6 = p # rest"
    by (cases "oreSpots s6") (auto simp: MineOnce_swing_def Let_def s6_def)
  define s8 where "s8 = Timer_Create ''mineTimer'' 5000
      (Misc_Pause h 200 (issue h (TargetExecute (spot_x p) (spot_y p) (spot_z p) (spot_id p)) s6))"
  have g8: "oreSpots s8 = oreSpots s4" "blockCount s8 = blockCount s4"
    using k6 by (simp_all add: s8_def kept_def)
  from assms eq tool spots have "and_then (wait_outcome h s8) (\<lambda>u s9. MineOnce_outcome h s9) = Returned b s'"
    by (simp add: MineOnce_swing_def Let_def s6_def s8_def)
  then obtain u s9 where w: "wait_outcome h s8 = Returned u s9" and out: "MineOnce_outcome h s9 = Returned b s'"
    by (auto simp: and_then_def split: result.splits)
  from wait_outcome_Returned[OF w] have "kept s8 s9" "observed s9 \<noteq> NoSignal"
    by (simp_all add: observed_after_wait)
  with g8 out show ?thesis by (auto simp: kept_def)
qed

lemma MineOnce_Returned:
  assumes "MineOnce h s0 = Returned b s'"
  shows "\<exists>s9. MineOnce_outcome h s9 = Returned b s' \<and> oreSpots s9 = oreSpots s0
           \<and> blockCount s9 = blockCount s0 \<and> observed s9 \<noteq> NoSignal"
proof -
  from assms obtain u s3 v s4 where c: "CheckEnemy h (MineOnce_prepare h s0) = Returned u s3"
    and t: "smelter_trigger h s3 = Returned v s4" and sw: "MineOnce_swing h s4 = Returned b s'"
    by (auto simp: MineOnce_def and_then_def split: result.splits)
  have "kept s0 s4"
    by (meson kept_trans kept_MineOnce_prepare kept_CheckEnemy[OF disjI1, OF c] smelter_trigger_kept[OF disjI1, OF t])
  with MineOnce_swing_Returned[OF sw] show ?thesis by (auto simp: kept_def)
qed

section \<open>Depletion and time-out start the cooldown\<close>



lemma mark_depleted_Cons:
  "oreSpots s = p # rest \<Longrightarrow>
     mark_depleted s = Returned False (Timer_Create (coord_key (spot_x p) (spot_y p)) oreCooldown s)"
  by (simp add: mark_depleted_def)











lemma ex_near_key: "coord_key (spot_x ex_near) (spot_y ex_near) = ''100,101''"
  by (simp add: ex_near_def coord_key_100_101)







lemma ex_depleted_facts:
  "oreSpots ex_depleted = ex_near # []"
  "Journal_SearchByType ex_depleted ''There is no metal here to mine.'' ''System''"
  "\<not> Journal_SearchByType ex_depleted ''You can't dig while riding or flying.'' ''System''"
  "now ex_depleted = 1000"
  by (simp_all add: ex_depleted_def ex_miner_def ex_state_def Journal_SearchByType_def)



section \<open>The counter of blocked swings\<close>

lemma blocked_swing:
  assumes g: "gm s = ex_game\<lparr>journal := j, LeftHand := Some ex_pickaxe\<rparr>"
      and s: "oreSpots s = [ex_near]" "smelter_hook s = False" "blockCount s < 3"
  shows "\<exists>s'. MineOnce ex_blocked_host s = Returned True s'
           \<and> (\<exists>j'. gm s' = ex_game\<lparr>journal := j', LeftHand := Some ex_pickaxe\<rparr>)
           \<and> oreSpots s' = [ex_near] \<and> smelter_hook s' = False
           \<and> blockCount s' = blockCount s + 1
           \<and> timers s' = (timers s)(''mineTimer'' \<mapsto> now s + 5200)
           \<and> weightLimit s' = weightLimit s
           \<and> msgs s' = msgs s @ [''--> Found equipped mining tool: pickaxe'']"
proof -
  have prep: "MineOnce_prepare ex_blocked_host s = s"
    by (simp add: MineOnce_prepare_def g ex_game_def)
  have ce: "CheckEnemy ex_blocked_host s = Returned () s"
    by (simp add: CheckEnemy_def g ex_game_def)
  have tr: "smelter_trigger ex_blocked_host s = Returned () s"
    by (simp add: smelter_trigger_def s)
  have eq: "EquipPickaxe ex_blocked_host (Journal_Clear ex_blocked_host s) =
      (Some 80, SendMessage ''--> Found equipped mining tool: pickaxe'' (Journal_Clear ex_blocked_host s))"
    by (simp add: EquipPickaxe_def FindPickaxe_def hand_tool_def Journal_Clear_def g ex_game_def
        ex_pickaxe_def miningToolIDs_def truthy_def in_hand_def)
  show ?thesis
    unfolding MineOnce_def prep ce and_then_def
    apply (simp add: tr)
    apply (simp add: MineOnce_swing_def eq truthy_def issues_def s Let_def)
    apply (subst wait_outcome.simps)
    apply (simp add: outcome_text_def Journal_SearchByType_def Journal_Search_def ex_blocked_host_def ex_host_def
        issue_def Misc_Pause_def Journal_Clear_def Timer_Create_def SendMessage_def g ex_game_def ex_near_def
        and_then_def MineOnce_outcome_def s)
    using s apply (simp add: ex_near_def add.commute)
    done
qed

lemma blocked_swing_fourth:
  assumes g: "gm s = ex_game\<lparr>journal := j, LeftHand := Some ex_pickaxe\<rparr>"
      and s: "oreSpots s = [ex_near]" "smelter_hook s = False" "blockCount s = 3"
  shows "\<exists>s'. MineOnce ex_blocked_host s = Returned False s'
           \<and> blockCount s' = 0
           \<and> timers s' ''100,101'' = Some (now s + 200 + oreCooldown)
           \<and> oreSpots s' = [ex_near] \<and> weightLimit s' = weightLimit s"
proof -
  have prep: "MineOnce_prepare ex_blocked_host s = s"
    by (simp add: MineOnce_prepare_def g ex_game_def)
  have ce: "CheckEnemy ex_blocked_host s = Returned () s"
    by (simp add: CheckEnemy_def g ex_game_def)
  have tr: "smelter_trigger ex_blocked_host s = Returned () s"
    by (simp add: smelter_trigger_def s)
  have eq: "EquipPickaxe ex_blocked_host (Journal_Clear ex_blocked_host s) =
      (Some 80, SendMessage ''--> Found equipped mining tool: pickaxe'' (Journal_Clear ex_blocked_host s))"
    by (simp add: EquipPickaxe_def FindPickaxe_def hand_tool_def Journal_Clear_def g ex_game_def
        ex_pickaxe_def miningToolIDs_def truthy_def in_hand_def)
  show ?thesis
    unfolding MineOnce_def prep ce and_then_def
    apply (simp add: tr)
    apply (simp add: MineOnce_swing_def eq truthy_def issues_def s Let_def)
    apply (subst wait_outcome.simps)
    apply (simp add: outcome_text_def Journal_SearchByType_def Journal_Search_def ex_blocked_host_def ex_host_def
        issue_def Misc_Pause_def Journal_Clear_def Timer_Create_def SendMessage_def g ex_game_def ex_near_def
        and_then_def MineOnce_outcome_def s mark_depleted_def coord_key_100_101)
    done
qed

lemma observed_Blocked_outcome:
  assumes "observed s = Blocked"
  shows "MineOnce_outcome h s =
     (if blockCount s + 1 > 3
      then mark_depleted (SendMessage ''--> Possible block detected, marking spot as depleted''
             (s\<lparr>blockCount := 0\<rparr>))
      else Returned True (s\<lparr>blockCount := blockCount s + 1\<rparr>))"
proof -
  from assms have
    "\<not> Journal_SearchByType s ''You can't dig while riding or flying.'' ''System''"
    "\<not> Journal_SearchByType s ''There is no metal here to mine.'' ''System''"
    "\<not> Journal_SearchByType s ''You have worn out your tool!'' ''System''"
    "Journal_SearchByType s ''You can not mine there.'' ''System''
       \<or> Journal_SearchByType s ''You have no line of sight'' ''System''"
    by (auto simp: observed_def split: if_splits)
  then show ?thesis
    by (simp add: MineOnce_outcome_def Let_def)
qed

lemma other_outcome_keeps_blockCount:
  assumes "observed s \<noteq> Blocked" and "MineOnce_outcome h s = Returned b s'"
  shows "blockCount s' = blockCount s"
proof -
  have md: "mark_depleted s1 = Returned b s' \<Longrightarrow> blockCount s' = blockCount s1" for s1
    by (auto simp: mark_depleted_def split: list.splits)
  from assms show ?thesis
    unfolding observed_def MineOnce_outcome_def Let_def
    by (auto split: if_splits prod.splits dest!: md kept_EquipPickaxe simp: kept_def)
qed

lemma pop_resort_keeps_blockCount:
  "pop_resort s = Returned u s' \<Longrightarrow> blockCount s' = blockCount s"
  by (auto simp: pop_resort_def sort_spots_def split: list.splits)

text \<open>
  Claim C2, as the code has it. A swing that ends blocked (the text of a place that
  can not be mined or of a missing line of sight, when no earlier test of the chain
  holds) adds one to \<^verbatim>\<open>blockCount\<close>. While the counter was below three the swing
  returns \<^verbatim>\<open>True\<close>; when it was three (or more), so that this is the fourth blocked
  swing counted, the counter goes back to zero, the cooldown timer of the spot is
  started and \<^verbatim>\<open>False\<close> is returned. Every other outcome, a success among them,
  leaves the counter as it was, and so does the move to the next candidate.
\<close>

theorem fourth_block_marks_depleted:
  "(observed s = Blocked \<and> blockCount s < 3 \<longrightarrow>
      MineOnce_outcome h s = Returned True (s\<lparr>blockCount := blockCount s + 1\<rparr>))
   \<and> (observed s = Blocked \<and> blockCount s \<ge> 3 \<and> oreSpots s = p # rest \<longrightarrow>
      MineOnce_outcome h s = Returned False
        (Timer_Create (coord_key (spot_x p) (spot_y p)) oreCooldown
           (SendMessage ''--> Possible block detected, marking spot as depleted'' (s\<lparr>blockCount := 0\<rparr>))))
   \<and> (observed s \<noteq> Blocked \<and> MineOnce_outcome h s = Returned b s' \<longrightarrow> blockCount s' = blockCount s)
   \<and> (pop_resort s = Returned u s' \<longrightarrow> blockCount s' = blockCount s)
   \<and> (MineOnce h s = Returned b s' \<longrightarrow>
        (\<exists>s9. MineOnce_outcome h s9 = Returned b s' \<and> oreSpots s9 = oreSpots s \<and> blockCount s9 = blockCount s))"
proof (intro conjI impI)
  assume "observed s = Blocked \<and> blockCount s < 3"
  then show "MineOnce_outcome h s = Returned True (s\<lparr>blockCount := blockCount s + 1\<rparr>)"
    by (simp add: observed_Blocked_outcome)
next
  assume a: "observed s = Blocked \<and> blockCount s \<ge> 3 \<and> oreSpots s = p # rest"
  then have "oreSpots (SendMessage ''--> Possible block detected, marking spot as depleted'' (s\<lparr>blockCount := 0\<rparr>)) = p # rest"
    by simp
  from mark_depleted_Cons[OF this] a
  show "MineOnce_outcome h s = Returned False
        (Timer_Create (coord_key (spot_x p) (spot_y p)) oreCooldown
           (SendMessage ''--> Possible block detected, marking spot as depleted'' (s\<lparr>blockCount := 0\<rparr>)))"
    by (simp add: observed_Blocked_outcome)
next
  assume "observed s \<noteq> Blocked \<and> MineOnce_outcome h s = Returned b s'"
  then show "blockCount s' = blockCount s"
    using other_outcome_keeps_blockCount by blast
next
  assume "pop_resort s = Returned u s'"
  then show "blockCount s' = blockCount s" by (rule pop_resort_keeps_blockCount)
next
  assume "MineOnce h s = Returned b s'"
  from MineOnce_Returned[OF this]
  show "\<exists>s9. MineOnce_outcome h s9 = Returned b s' \<and> oreSpots s9 = oreSpots s \<and> blockCount s9 = blockCount s"
    by blast
qed

lemma ex_blocked_facts:
  "observed ex_blocked = Blocked" "blockCount ex_blocked = 0" "oreSpots ex_blocked = ex_near # []"
  "observed (ex_blocked\<lparr>blockCount := 3\<rparr>) = Blocked"
  by (simp_all add: ex_blocked_def ex_miner_def ex_state_def observed_def Journal_SearchByType_def)

theorem fourth_block_marks_depleted_witness:
  "MineOnce_outcome ex_host ex_blocked = Returned True (ex_blocked\<lparr>blockCount := 1\<rparr>)
   \<and> MineOnce_outcome ex_host (ex_blocked\<lparr>blockCount := 3\<rparr>) = Returned False
        (Timer_Create ''100,101'' oreCooldown
           (SendMessage ''--> Possible block detected, marking spot as depleted'' (ex_blocked\<lparr>blockCount := 0\<rparr>)))"
proof -
  from fourth_block_marks_depleted[of ex_blocked ex_host ex_near "[]"] ex_blocked_facts
  have 1: "MineOnce_outcome ex_host ex_blocked = Returned True (ex_blocked\<lparr>blockCount := 1\<rparr>)"
    by simp
  from fourth_block_marks_depleted[of "ex_blocked\<lparr>blockCount := 3\<rparr>" ex_host ex_near "[]"] ex_blocked_facts
  have 2: "MineOnce_outcome ex_host (ex_blocked\<lparr>blockCount := 3\<rparr>) = Returned False
        (Timer_Create ''100,101'' oreCooldown
           (SendMessage ''--> Possible block detected, marking spot as depleted'' (ex_blocked\<lparr>blockCount := 0\<rparr>)))"
    by (simp add: ex_near_key)
  from 1 2 show ?thesis by simp
qed

text \<open>
  Claim C2 as the specification states it fails. Three swings in a row at one spot
  that all end with the line-of-sight text return \<^verbatim>\<open>True\<close> and start no cooldown;
  it is the fourth that returns \<^verbatim>\<open>False\<close> and starts it. And a success does not
  restart the counter: after two blocked swings and a successful one it still stands at
  two.
\<close>

theorem three_blocks_do_not_deplete:
  "(\<exists>s1 s2 s3 s4.
       MineOnce ex_blocked_host ex_miner = Returned True s1
     \<and> MineOnce ex_blocked_host s1 = Returned True s2
     \<and> MineOnce ex_blocked_host s2 = Returned True s3
     \<and> blockCount s3 = 3 \<and> timers s3 ''100,101'' = None
     \<and> MineOnce ex_blocked_host s3 = Returned False s4
     \<and> blockCount s4 = 0 \<and> timers s4 ''100,101'' \<noteq> None)
   \<and> observed ex_success = Success \<and> blockCount ex_success = 2
   \<and> (\<exists>s'. MineOnce_outcome ex_host ex_success = Returned True s' \<and> blockCount s' = 2)"
proof -
  have m0: "gm ex_miner = ex_game\<lparr>journal := [], LeftHand := Some ex_pickaxe\<rparr>"
    "oreSpots ex_miner = [ex_near]" "smelter_hook ex_miner = False" "blockCount ex_miner = 0"
    "timers ex_miner ''100,101'' = None"
    by (simp_all add: ex_miner_def ex_state_def ex_game_def)
  from blocked_swing[OF m0(1-3)] m0 obtain s1 j1 where 1:
    "MineOnce ex_blocked_host ex_miner = Returned True s1"
    "gm s1 = ex_game\<lparr>journal := j1, LeftHand := Some ex_pickaxe\<rparr>"
    "oreSpots s1 = [ex_near]" "smelter_hook s1 = False" "blockCount s1 = 1"
    "timers s1 ''100,101'' = None"
    by auto
  from blocked_swing[OF 1(2-4)] 1 obtain s2 j2 where 2:
    "MineOnce ex_blocked_host s1 = Returned True s2"
    "gm s2 = ex_game\<lparr>journal := j2, LeftHand := Some ex_pickaxe\<rparr>"
    "oreSpots s2 = [ex_near]" "smelter_hook s2 = False" "blockCount s2 = 2"
    "timers s2 ''100,101'' = None"
    by auto
  from blocked_swing[OF 2(2-4)] 2 obtain s3 j3 where 3:
    "MineOnce ex_blocked_host s2 = Returned True s3"
    "gm s3 = ex_game\<lparr>journal := j3, LeftHand := Some ex_pickaxe\<rparr>"
    "oreSpots s3 = [ex_near]" "smelter_hook s3 = False" "blockCount s3 = 3"
    "timers s3 ''100,101'' = None"
    by auto
  from blocked_swing_fourth[OF 3(2-5)] obtain s4 where 4:
    "MineOnce ex_blocked_host s3 = Returned False s4" "blockCount s4 = 0" "timers s4 ''100,101'' \<noteq> None"
    by auto
  have ok: "observed ex_success = Success" "blockCount ex_success = 2"
    by (simp_all add: ex_success_def ex_miner_def ex_state_def observed_def Journal_SearchByType_def)
  have "\<exists>s'. MineOnce_outcome ex_host ex_success = Returned True s' \<and> blockCount s' = 2"
    by (simp add: MineOnce_outcome_def ex_success_def ex_miner_def ex_state_def Journal_SearchByType_def)
  with 1(1) 2(1) 3(1,5,6) 4 ok show ?thesis by blast
qed

section \<open>The offload and the capacity of the companion\<close>

lemma move_item_commands:
  "set (commands (snd acc)) \<subseteq> set (commands (snd (move_item h pack acc it)))"
  by (cases acc) (auto simp: move_item_def Let_def split: option.splits)

lemma foldl_move_item_commands:
  "set (commands (snd acc)) \<subseteq> set (commands (snd (foldl (move_item h pack) acc its)))"
proof (induction its arbitrary: acc)
  case Nil
  then show ?case by simp
next
  case (Cons it its)
  have "set (commands (snd acc)) \<subseteq> set (commands (snd (move_item h pack acc it)))"
    by (rule move_item_commands)
  also have "\<dots> \<subseteq> set (commands (snd (foldl (move_item h pack) (move_item h pack acc it) its)))"
    by (rule Cons.IH)
  finally show ?case by simp
qed

lemma move_item_issues:
  assumes "Items_FindBySerial (gm s) (item_Serial it) \<noteq> None"
  shows "ItemsMove (item_Serial it) (item_Serial pack) 0 \<in> set (commands (snd (move_item h pack (n, s) it)))"
  using assms by (auto simp: move_item_def Let_def)

lemma BeetleHasCapacity_value:
  assumes "find_beetle_pack (gm s) bm = Some pack"
  shows "fst (BeetleHasCapacity bm required s) =
     (let total = pack_weight (gm s) pack;
          remaining = 400 - (if total > 10000 then 1000 else total)
      in if remaining < 0 \<and> remaining > - 100 then required \<le> 10 else remaining \<ge> required)"
  using assms by (simp add: BeetleHasCapacity_def Let_def)

text \<open>
  Claim C3, as the code has it. Whenever the companion's pack is found,
  \<^verbatim>\<open>TransferItemsToBeetle\<close> issues the move of the first resource item of the backpack
  (if the item can still be found), whatever the pack holds: the function does not
  call \<^verbatim>\<open>BeetleHasCapacity\<close>, and neither does \<^verbatim>\<open>MoveToBeetle\<close>. The estimate of
  \<^verbatim>\<open>BeetleHasCapacity\<close> is 400 minus the weight of the pack, to be at least the
  required minimum, with a minimum of up to 10 allowed when the pack is less than 100
  over.
\<close>

theorem transfer_ignores_capacity:
  assumes pack: "find_beetle_pack (gm s) bm = Some pack"
      and first: "filter is_resource (Backpack_Contains (gm s)) = it # its"
      and found: "Items_FindBySerial (gm s) (item_Serial it) \<noteq> None"
  shows "ItemsMove (item_Serial it) (item_Serial pack) 0 \<in> set (commands (snd (TransferItemsToBeetle h (Some bm) s)))
       \<and> fst (BeetleHasCapacity bm required s) =
           (let total = pack_weight (gm s) pack;
                remaining = 400 - (if total > 10000 then 1000 else total)
            in if remaining < 0 \<and> remaining > - 100 then required \<le> 10 else remaining \<ge> required)"
proof
  let ?s1 = "SendMessage ''--> Transferring items to beetle (unlimited capacity)'' s"
  let ?acc = "foldl (move_item h pack) (0, ?s1) (it # its)"
  have "ItemsMove (item_Serial it) (item_Serial pack) 0 \<in> set (commands (snd (move_item h pack (0, ?s1) it)))"
    by (rule move_item_issues) (simp add: found)
  then have mv: "ItemsMove (item_Serial it) (item_Serial pack) 0 \<in> set (commands (snd ?acc))"
    using foldl_move_item_commands[of "move_item h pack (0, ?s1) it" h pack its] by auto
  obtain moveCount s2 where acc: "?acc = (moveCount, s2)" by (cases ?acc)
  with mv have "ItemsMove (item_Serial it) (item_Serial pack) 0 \<in> set (commands s2)" by simp
  then show "ItemsMove (item_Serial it) (item_Serial pack) 0 \<in> set (commands (snd (TransferItemsToBeetle h (Some bm) s)))"
    using pack first acc by (simp add: TransferItemsToBeetle_def Let_def)
next
  show "fst (BeetleHasCapacity bm required s) =
           (let total = pack_weight (gm s) pack;
                remaining = 400 - (if total > 10000 then 1000 else total)
            in if remaining < 0 \<and> remaining > - 100 then required \<le> 10 else remaining \<ge> required)"
    by (rule BeetleHasCapacity_value[OF pack])
qed

lemma ex_loaded_facts:
  "find_beetle_pack (gm ex_loaded) ex_beetle = Some ex_pack"
  "filter is_resource (Backpack_Contains (gm ex_loaded)) = ex_ore # []"
  "Items_FindBySerial (gm ex_loaded) (item_Serial ex_ore) \<noteq> None"
  "pack_weight (gm ex_loaded) ex_pack = 400"
  by (simp_all add: ex_loaded_def find_beetle_pack_def ex_beetle_def is_resource_def ex_ore_def oreID_def
      Items_FindBySerial_def pack_weight_def ex_pack_def)

theorem transfer_ignores_capacity_witness:
  "ItemsMove 91 90 0 \<in> set (commands (snd (TransferItemsToBeetle ex_moving_host (Some ex_beetle) ex_loaded)))
   \<and> fst (BeetleHasCapacity ex_beetle 10 ex_loaded) = False"
  using transfer_ignores_capacity[OF ex_loaded_facts(1-3), of ex_moving_host 10]
  by (simp add: ex_loaded_facts(4)[unfolded ex_pack_def] ex_ore_def ex_pack_def Let_def)

text \<open>
  Claim C3 fails on the code: the companion's pack is full, the estimate of
  \<^verbatim>\<open>BeetleHasCapacity\<close> for the default minimum of 10 is negative, and the transfer
  that \<^verbatim>\<open>MoveToBeetle\<close> starts moves the ore all the same.
\<close>

theorem transfer_without_capacity:
  "fst (BeetleHasCapacity ex_beetle 10 ex_loaded) = False
   \<and> fst (TransferItemsToBeetle ex_moving_host (Some ex_beetle) ex_loaded) = True
   \<and> commands (snd (TransferItemsToBeetle ex_moving_host (Some ex_beetle) ex_loaded))
       = [ItemsMove 91 90 0, Pause 100, Pause 400]
   \<and> fst (MoveToBeetle ex_moving_host ex_loaded) = True
   \<and> commands (snd (MoveToBeetle ex_moving_host ex_loaded)) = [ItemsMove 91 90 0, Pause 100, Pause 400]"
proof -
  have cap: "fst (BeetleHasCapacity ex_beetle 10 ex_loaded) = False"
    by (simp add: BeetleHasCapacity_value[OF ex_loaded_facts(1)] ex_loaded_facts(4))
  have tr: "fst (TransferItemsToBeetle ex_moving_host (Some ex_beetle) s) = True
      \<and> commands (snd (TransferItemsToBeetle ex_moving_host (Some ex_beetle) s)) = [ItemsMove 91 90 0, Pause 100, Pause 400]"
    if "gm s = gm ex_loaded" "commands s = []" for s
    using that
    by (simp add: TransferItemsToBeetle_def ex_loaded_def find_beetle_pack_def ex_beetle_def is_resource_def
        ex_ore_def oreID_def Items_FindBySerial_def ex_pack_def move_item_def Let_def ex_moving_host_def
        ex_host_def ex_miner_def ex_state_def ex_game_def)
  have gb: "\<exists>s1. GetBeetle (SendMessage m ex_loaded) = (Some ex_beetle, s1)
      \<and> gm s1 = gm ex_loaded \<and> commands s1 = []" for m
    by (simp add: GetBeetle_def beetle_by_serial_def ex_loaded_def ex_miner_def ex_state_def ex_game_def
        Mobiles_FindBySerial_def ex_beetle_def Player_DistanceTo_def Let_def)
  have d: "Player_DistanceTo (gm ex_loaded) ex_beetle = 1"
    by (simp add: Player_DistanceTo_def ex_loaded_def)
  obtain s1 where s1: "GetBeetle (SendMessage ''Attempting to find beetle...'' ex_loaded) = (Some ex_beetle, s1)"
    "gm s1 = gm ex_loaded" "commands s1 = []"
    using gb by blast
  let ?s2 = "SendMessage ''Already next to beetle, transferring items...''
      (SendMessage (''Found beetle at distance: '' @ fmt_i 1 @ '' tiles'') s1)"
  have mb: "MoveToBeetle ex_moving_host ex_loaded = TransferItemsToBeetle ex_moving_host (Some ex_beetle) ?s2"
    by (simp add: MoveToBeetle_def s1 Let_def d)
  have "fst (MoveToBeetle ex_moving_host ex_loaded) = True
      \<and> commands (snd (MoveToBeetle ex_moving_host ex_loaded)) = [ItemsMove 91 90 0, Pause 100, Pause 400]"
    unfolding mb by (rule tr) (simp_all add: s1)
  with cap tr[of ex_loaded] show ?thesis
    by (simp add: ex_loaded_def ex_miner_def ex_state_def)
qed

section \<open>Too heavy to move\<close>

lemma drop_resource_Some:
  assumes "find (\<lambda>it. item_ItemID it \<in> set ([oreID] @ ingotIDs @ otherResourceIDs)) (Backpack_Contains (gm s)) = Some it"
  shows "commands (drop_resource h s) =
           commands s @ [MoveOnGround (item_Serial it) 1 (Player_X (gm s)) (Player_Y (gm s)) (Player_Z (gm s)), Pause 50]"
    and "msgs (drop_resource h s) = msgs s @ [''--> Dropped items on ground!'']"
    and "is_resource it" and "it \<in> set (Backpack_Contains (gm s))"
proof -
  show "commands (drop_resource h s) =
           commands s @ [MoveOnGround (item_Serial it) 1 (Player_X (gm s)) (Player_Y (gm s)) (Player_Z (gm s)), Pause 50]"
    "msgs (drop_resource h s) = msgs s @ [''--> Dropped items on ground!'']"
    using assms by (simp_all add: drop_resource_def)
  from assms have "item_ItemID it \<in> set ([oreID] @ ingotIDs @ otherResourceIDs)"
    and "it \<in> set (Backpack_Contains (gm s))"
    by (auto simp: find_Some_iff)
  then show "is_resource it" "it \<in> set (Backpack_Contains (gm s))"
    by (auto simp: is_resource_def)
qed

lemma drop_resource_None:
  assumes "find (\<lambda>it. item_ItemID it \<in> set ([oreID] @ ingotIDs @ otherResourceIDs)) (Backpack_Contains (gm s)) = None"
  shows "drop_resource h s = s"
  using assms by (simp add: drop_resource_def)

lemma offload_overweight:
  assumes due: "Player_Weight (gm s) \<ge> weightLimit s - 40 \<or> (attempts > 0 \<and> attempts mod 8 = 0)"
      and failed: "MoveToBeetle h s = (False, s1)"
      and heavy: "Player_Weight (gm s1) \<ge> Player_MaxWeight (gm s1) - 10"
  shows "offload h attempts s =
     and_then (smelter_trigger h (drop_resource h
        (SendMessage ''--> CRITICAL: Too heavy to move!''
           (SendMessage ''--> Failed to transfer items to beetle, trying to continue mining'' s1))))
       (\<lambda>u s3. Returned False s3)"
  using assms by (simp add: offload_def Let_def)

lemma mine_round_break:
  assumes "smelter_trigger h s0 = Returned u s1"
      and "offload h attempts (if attempts = 1 then Misc_Pause h 100 s1 else s1) = Returned False s2"
  shows "mine_round h attempts s0 = Returned Break s2"
  using assms by (simp add: mine_round_def and_then_def)

text \<open>
  Claim C9, as the code has it. When the offload of a round was tried and failed and
  the weight then is within 10 of the maximum, the round puts one unit of the first
  resource item of the backpack on the ground at the player's position, if the
  backpack holds one, and nothing otherwise; it then runs the smelter trigger, which
  calls the helper when one is linked; and it leaves the loop: it never goes on to
  mine.
\<close>

theorem overweight_drops_first_resource:
  assumes due: "Player_Weight (gm s) \<ge> weightLimit s - 40 \<or> (attempts > 0 \<and> attempts mod 8 = 0)"
      and failed: "MoveToBeetle h s = (False, s1)"
      and heavy: "Player_Weight (gm s1) \<ge> Player_MaxWeight (gm s1) - 10"
      and s2: "s2 = SendMessage ''--> CRITICAL: Too heavy to move!''
                 (SendMessage ''--> Failed to transfer items to beetle, trying to continue mining'' s1)"
  shows "offload h attempts s = and_then (smelter_trigger h (drop_resource h s2)) (\<lambda>u s3. Returned False s3)
       \<and> (\<forall>it. find (\<lambda>it. item_ItemID it \<in> set ([oreID] @ ingotIDs @ otherResourceIDs)) (Backpack_Contains (gm s1)) = Some it
             \<longrightarrow> is_resource it \<and> it \<in> set (Backpack_Contains (gm s1))
               \<and> commands (drop_resource h s2) =
                   commands s1 @ [MoveOnGround (item_Serial it) 1 (Player_X (gm s1)) (Player_Y (gm s1)) (Player_Z (gm s1)), Pause 50])
       \<and> (find (\<lambda>it. item_ItemID it \<in> set ([oreID] @ ingotIDs @ otherResourceIDs)) (Backpack_Contains (gm s1)) = None
             \<longrightarrow> drop_resource h s2 = s2)
       \<and> (smelter_hook s1 \<longrightarrow> smelter_trigger h (drop_resource h s2) = wrapped_smelter h (drop_resource h s2))
       \<and> (\<not> smelter_hook s1 \<longrightarrow> offload h attempts s = Returned False (drop_resource h s2))
       \<and> offload h attempts s \<noteq> Returned True s'"
proof (intro conjI allI impI)
  show off: "offload h attempts s = and_then (smelter_trigger h (drop_resource h s2)) (\<lambda>u s3. Returned False s3)"
    unfolding s2 by (rule offload_overweight[OF due failed heavy])
  have g2: "gm s2 = gm s1" "commands s2 = commands s1" "smelter_hook s2 = smelter_hook s1"
    by (simp_all add: s2)
  have hook: "smelter_hook (drop_resource h s2) = smelter_hook s1"
    by (simp add: drop_resource_def g2 split: option.splits)
  {
    fix it
    assume f: "find (\<lambda>it. item_ItemID it \<in> set ([oreID] @ ingotIDs @ otherResourceIDs)) (Backpack_Contains (gm s1)) = Some it"
    then have f2: "find (\<lambda>it. item_ItemID it \<in> set ([oreID] @ ingotIDs @ otherResourceIDs)) (Backpack_Contains (gm s2)) = Some it"
      by (simp add: g2)
    from drop_resource_Some[OF f2]
    show "is_resource it" "it \<in> set (Backpack_Contains (gm s1))"
      "commands (drop_resource h s2) =
         commands s1 @ [MoveOnGround (item_Serial it) 1 (Player_X (gm s1)) (Player_Y (gm s1)) (Player_Z (gm s1)), Pause 50]"
      by (simp_all add: g2)
  }
  {
    assume "find (\<lambda>it. item_ItemID it \<in> set ([oreID] @ ingotIDs @ otherResourceIDs)) (Backpack_Contains (gm s1)) = None"
    then show "drop_resource h s2 = s2"
      by (intro drop_resource_None) (simp add: g2)
  }
  {
    assume "smelter_hook s1"
    then show "smelter_trigger h (drop_resource h s2) = wrapped_smelter h (drop_resource h s2)"
      by (simp add: smelter_trigger_def SMELT_ON_TRIGGERS_def hook)
  }
  {
    assume "\<not> smelter_hook s1"
    then show "offload h attempts s = Returned False (drop_resource h s2)"
      by (simp add: off smelter_trigger_def hook and_then_def)
  }
  show "offload h attempts s \<noteq> Returned True s'"
    by (auto simp: off and_then_def split: result.splits)
qed

lemma no_companion:
  assumes "mobiles (gm s) = []"
  shows "\<exists>s1. MoveToBeetle h s = (False, s1) \<and> gm s1 = gm s \<and> commands s1 = commands s
           \<and> smelter_hook s1 = smelter_hook s"
  using assms
  by (simp add: MoveToBeetle_def GetBeetle_def beetle_by_serial_def Mobiles_FindBySerial_def Let_def)

lemma ex_heavy_ore_facts:
  "mobiles (gm ex_heavy_ore) = []" "commands ex_heavy_ore = []" "\<not> smelter_hook ex_heavy_ore"
  "Player_Weight (gm ex_heavy_ore) \<ge> weightLimit ex_heavy_ore - 40"
  "Player_Weight (gm ex_heavy_ore) \<ge> Player_MaxWeight (gm ex_heavy_ore) - 10"
  "find (\<lambda>it. item_ItemID it \<in> set ([oreID] @ ingotIDs @ otherResourceIDs)) (Backpack_Contains (gm ex_heavy_ore)) = Some ex_ore"
  "Player_X (gm ex_heavy_ore) = 100" "Player_Y (gm ex_heavy_ore) = 100" "Player_Z (gm ex_heavy_ore) = 0"
  by (simp_all add: ex_heavy_ore_def ex_miner_def ex_state_def ex_game_def ex_pickaxe_def ex_ore_def
      oreID_def ingotIDs_def otherResourceIDs_def)

theorem overweight_drops_first_resource_witness:
  "\<exists>s'. offload ex_host 0 ex_heavy_ore = Returned False s'
        \<and> commands s' = [MoveOnGround 91 1 100 100 0, Pause 50]"
proof -
  obtain s1 where s1: "MoveToBeetle ex_host ex_heavy_ore = (False, s1)" "gm s1 = gm ex_heavy_ore"
    "commands s1 = commands ex_heavy_ore" "smelter_hook s1 = smelter_hook ex_heavy_ore"
    using no_companion[OF ex_heavy_ore_facts(1), of ex_host] by blast
  define s2 where "s2 = SendMessage ''--> CRITICAL: Too heavy to move!''
                 (SendMessage ''--> Failed to transfer items to beetle, trying to continue mining'' s1)"
  have heavy: "Player_Weight (gm s1) \<ge> Player_MaxWeight (gm s1) - 10"
    using ex_heavy_ore_facts(5) by (simp add: s1)
  note inst = overweight_drops_first_resource[OF disjI1[OF ex_heavy_ore_facts(4)] s1(1) heavy s2_def,
      where attempts = 0 and s' = s1]
  have nohook: "\<not> smelter_hook s1"
    using ex_heavy_ore_facts(3) by (simp add: s1)
  have first: "find (\<lambda>it. item_ItemID it \<in> set ([oreID] @ ingotIDs @ otherResourceIDs)) (Backpack_Contains (gm s1)) = Some ex_ore"
    using ex_heavy_ore_facts(6) by (simp add: s1)
  from inst nohook have 1: "offload ex_host 0 ex_heavy_ore = Returned False (drop_resource ex_host s2)"
    by blast
  from inst first have "commands (drop_resource ex_host s2) =
      commands s1 @ [MoveOnGround (item_Serial ex_ore) 1 (Player_X (gm s1)) (Player_Y (gm s1)) (Player_Z (gm s1)), Pause 50]"
    by blast
  then have 2: "commands (drop_resource ex_host s2) = [MoveOnGround 91 1 100 100 0, Pause 50]"
    by (simp add: s1 ex_heavy_ore_facts ex_ore_def)
  from 1 2 show ?thesis by blast
qed

text \<open>
  Claim C9 as the specification states it fails. The miner of \<open>ex_heavy\<close> is within 10
  of the maximal weight, no companion is found, so the offload fails, and the backpack
  holds a spare pickaxe only: nothing is dropped. No helper is linked either: the
  helper of \<open>ex_failing_host\<close> raises whenever it is called, and the offload returns.
\<close>

theorem overweight_without_resource_drops_nothing:
  "Player_Weight (gm ex_heavy) \<ge> Player_MaxWeight (gm ex_heavy) - 10
   \<and> fst (MoveToBeetle ex_failing_host ex_heavy) = False
   \<and> (\<exists>s'. offload ex_failing_host 0 ex_heavy = Returned False s' \<and> commands s' = [])"
proof -
  have facts: "mobiles (gm ex_heavy) = []" "commands ex_heavy = []" "\<not> smelter_hook ex_heavy"
    "Player_Weight (gm ex_heavy) \<ge> weightLimit ex_heavy - 40"
    "Player_Weight (gm ex_heavy) \<ge> Player_MaxWeight (gm ex_heavy) - 10"
    "find (\<lambda>it. item_ItemID it \<in> set ([oreID] @ ingotIDs @ otherResourceIDs)) (Backpack_Contains (gm ex_heavy)) = None"
    by (simp_all add: ex_heavy_def ex_miner_def ex_state_def ex_game_def ex_pickaxe_def
        oreID_def ingotIDs_def otherResourceIDs_def)
  obtain s1 where s1: "MoveToBeetle ex_failing_host ex_heavy = (False, s1)" "gm s1 = gm ex_heavy"
    "commands s1 = commands ex_heavy" "smelter_hook s1 = smelter_hook ex_heavy"
    using no_companion[OF facts(1), of ex_failing_host] by blast
  have "offload ex_failing_host 0 ex_heavy = Returned False
      (SendMessage ''--> CRITICAL: Too heavy to move!''
         (SendMessage ''--> Failed to transfer items to beetle, trying to continue mining'' s1))"
    using facts s1
    by (simp add: offload_def Let_def drop_resource_def smelter_trigger_def and_then_def)
  then have "\<exists>s'. offload ex_failing_host 0 ex_heavy = Returned False s' \<and> commands s' = []"
    using s1 facts by simp
  with facts(5) s1(1) show ?thesis by simp
qed

section \<open>The attempt counter\<close>

lemma mine_round_Continue:
  assumes "mine_round h attempts s = Returned (Continue miningSuccess' attempts') s'"
  shows "(miningSuccess' \<and> attempts' = 0) \<or> (\<not> miningSuccess' \<and> attempts' = attempts + 1)"
  using assms unfolding mine_round_def and_then_def
  by (auto split: result.splits if_splits)

lemma loop_head_attempts:
  assumes "loop_head h s0 miningSuccess attempts s"
  shows "attempts = 0 \<or> (attempts = 1 \<and> \<not> miningSuccess)"
  using assms
proof (induction rule: loop_head.induct)
  case enter
  then show ?case by simp
next
  case (again miningSuccess attempts s miningSuccess' attempts' s')
  from again.hyps(2) again.IH have "attempts = 0" by auto
  with mine_round_Continue[OF again.hyps(3)] show ?case by auto
qed

lemma mine_loop_at_cap: "mine_loop fuel h miningSuccess maxAttempts s = Some (Returned maxAttempts s)"
  by (simp add: mine_loop.simps)

lemma mine_loop_ends_at_loop_head:
  assumes "mine_loop fuel h miningSuccess attempts s = Some (Returned a s')"
      and "loop_head h s0 miningSuccess attempts s"
  shows "\<exists>miningSuccess' s''. loop_head h s0 miningSuccess' a s''"
  using assms
proof (induction fuel arbitrary: miningSuccess attempts s)
  case 0
  then show ?case
    by (subst (asm) mine_loop.simps) (auto split: if_splits)
next
  case (Suc fuel)
  show ?case
  proof (cases "miningSuccess \<and> attempts < maxAttempts")
    case False
    with Suc.prems show ?thesis
      by (subst (asm) mine_loop.simps) auto
  next
    case True
    show ?thesis
    proof (cases "mine_round h attempts s")
      case (Returned r s1)
      show ?thesis
      proof (cases r)
        case (Continue m1 a1)
        with True Returned Suc.prems(1) have run: "mine_loop fuel h m1 a1 s1 = Some (Returned a s')"
          by (subst (asm) mine_loop.simps) simp
        have "loop_head h s0 m1 a1 s1"
          using Suc.prems(2) True Returned Continue by (auto intro: loop_head.again)
        from Suc.IH[OF run this] show ?thesis .
      next
        case Break
        with True Returned Suc.prems(1) have "a = attempts"
          by (subst (asm) mine_loop.simps) simp
        with Suc.prems(2) show ?thesis by blast
      qed
    next
      case (Raised e s1)
      with True Suc.prems(1) show ?thesis
        by (subst (asm) mine_loop.simps) simp
    next
      case Diverged
      with True Suc.prems(1) show ?thesis
        by (subst (asm) mine_loop.simps) simp
    qed
  qed
qed

text \<open>
  Claim C6. Wherever the test of the loop of \<^verbatim>\<open>MineSpotUntilDepleted\<close> is reached,
  \<^verbatim>\<open>attempts\<close> is between 0 and \<^verbatim>\<open>maxAttempts\<close>, and the value it takes inside a round,
  one more, does not exceed \<^verbatim>\<open>maxAttempts\<close> either. A round that ends with a success
  leaves the counter at zero, one that ends with a failure leaves it one higher. With
  the counter at \<^verbatim>\<open>maxAttempts\<close> the loop is left at once. In fact the counter never
  passes 1: a failed swing sets \<^verbatim>\<open>miningSuccess\<close> to \<^verbatim>\<open>False\<close>, which ends the loop, so
  that no run gives the location up because of the cap.
\<close>

theorem attempts_never_exceed_maximum:
  assumes "loop_head h s0 miningSuccess attempts s"
  shows "0 \<le> attempts \<and> attempts \<le> maxAttempts
       \<and> (miningSuccess \<and> attempts < maxAttempts \<longrightarrow> attempts + 1 \<le> maxAttempts)
       \<and> (\<forall>miningSuccess' attempts' s'.
             mine_round h attempts s = Returned (Continue miningSuccess' attempts') s' \<longrightarrow>
               (miningSuccess' \<longrightarrow> attempts' = 0) \<and> (\<not> miningSuccess' \<longrightarrow> attempts' = attempts + 1))
       \<and> mine_loop fuel h miningSuccess maxAttempts s = Some (Returned maxAttempts s)
       \<and> attempts \<le> 1
       \<and> (\<forall>a s'. mine_loop fuel h miningSuccess attempts s = Some (Returned a s') \<longrightarrow> a < maxAttempts)"
proof -
  from loop_head_attempts[OF assms] have small: "0 \<le> attempts" "attempts \<le> 1"
    by auto
  have ends: "a < maxAttempts" if "mine_loop fuel h miningSuccess attempts s = Some (Returned a s')" for a s'
  proof -
    from mine_loop_ends_at_loop_head[OF that assms] obtain m s'' where "loop_head h s0 m a s''"
      by blast
    from loop_head_attempts[OF this] show ?thesis by (auto simp: maxAttempts_def)
  qed
  show ?thesis
    using small mine_round_Continue[of h attempts s] mine_loop_at_cap[of fuel h miningSuccess s] ends
    by (auto simp: maxAttempts_def)
qed

text \<open>
  A run of the loop on the host that answers every swing with the line-of-sight text:
  three rounds go on with the counter at zero, the fourth swing fails and the loop ends
  with the counter at one.
\<close>

lemma mine_loop_step:
  assumes "miningSuccess \<and> attempts < maxAttempts"
      and "mine_round h attempts s = Returned (Continue miningSuccess' attempts') s'"
  shows "mine_loop (Suc fuel) h miningSuccess attempts s = mine_loop fuel h miningSuccess' attempts' s'"
  using assms by (subst mine_loop.simps) simp

lemma blocked_round:
  assumes g: "gm s = ex_game\<lparr>journal := j, LeftHand := Some ex_pickaxe\<rparr>"
      and s: "oreSpots s = [ex_near]" "smelter_hook s = False" "blockCount s < 3" "weightLimit s = 200"
  shows "\<exists>s'. mine_round ex_blocked_host 0 s = Returned (Continue True 0) s'
           \<and> (\<exists>j'. gm s' = ex_game\<lparr>journal := j', LeftHand := Some ex_pickaxe\<rparr>)
           \<and> oreSpots s' = [ex_near] \<and> smelter_hook s' = False
           \<and> blockCount s' = blockCount s + 1 \<and> weightLimit s' = 200"
proof -
  have tr: "smelter_trigger ex_blocked_host s = Returned () s"
    by (simp add: smelter_trigger_def s)
  have off: "offload ex_blocked_host 0 s = Returned True s"
    by (simp add: offload_def g s ex_game_def)
  from blocked_swing[OF g s(1-3)] obtain s1 j1 where s1:
    "MineOnce ex_blocked_host s = Returned True s1"
    "gm s1 = ex_game\<lparr>journal := j1, LeftHand := Some ex_pickaxe\<rparr>"
    "oreSpots s1 = [ex_near]" "smelter_hook s1 = False" "blockCount s1 = blockCount s + 1"
    "weightLimit s1 = weightLimit s"
    by auto
  have "mine_round ex_blocked_host 0 s = Returned (Continue True 0) (Misc_Pause ex_blocked_host miningPauseMS s1)"
    by (simp add: mine_round_def and_then_def tr off s1)
  moreover have "gm (Misc_Pause ex_blocked_host miningPauseMS s1) = gm s1"
    by (simp add: ex_blocked_host_def)
  ultimately show ?thesis
    using s1 s(4) by auto
qed

lemma blocked_round_fourth:
  assumes g: "gm s = ex_game\<lparr>journal := j, LeftHand := Some ex_pickaxe\<rparr>"
      and s: "oreSpots s = [ex_near]" "smelter_hook s = False" "blockCount s = 3" "weightLimit s = 200"
  shows "\<exists>s'. mine_round ex_blocked_host 0 s = Returned (Continue False 1) s'
           \<and> timers s' ''100,101'' = Some (now s + 200 + oreCooldown)"
proof -
  have tr: "smelter_trigger ex_blocked_host s = Returned () s"
    by (simp add: smelter_trigger_def s)
  have off: "offload ex_blocked_host 0 s = Returned True s"
    by (simp add: offload_def g s ex_game_def)
  from blocked_swing_fourth[OF g s(1-3)] obtain s1 where s1:
    "MineOnce ex_blocked_host s = Returned False s1"
    "timers s1 ''100,101'' = Some (now s + 200 + oreCooldown)"
    by auto
  show ?thesis
    by (simp add: mine_round_def and_then_def tr off s1)
qed

lemma blocked_run:
  "mine_loop 3 ex_blocked_host True 0 (prospect ex_blocked_host ex_miner) = None"
  "\<exists>s'. mine_loop 4 ex_blocked_host True 0 (prospect ex_blocked_host ex_miner) = Some (Returned 1 s')"
proof -
  let ?h = ex_blocked_host
  have go: "True \<and> (0::int) < maxAttempts" by (simp add: maxAttempts_def)
  have p0: "gm (prospect ?h ex_miner) = ex_game\<lparr>journal := [], LeftHand := Some ex_pickaxe\<rparr>"
    "oreSpots (prospect ?h ex_miner) = [ex_near]" "smelter_hook (prospect ?h ex_miner) = False"
    "blockCount (prospect ?h ex_miner) = 0" "weightLimit (prospect ?h ex_miner) = 200"
    by (simp_all add: prospect_def UseProspectorTool_def Let_def ex_blocked_host_def ex_host_def
        ex_miner_def ex_state_def ex_game_def)
  from blocked_round[OF p0(1-3) _ p0(5)] p0(4) obtain s1 j1 where 1:
    "mine_round ?h 0 (prospect ?h ex_miner) = Returned (Continue True 0) s1"
    "gm s1 = ex_game\<lparr>journal := j1, LeftHand := Some ex_pickaxe\<rparr>"
    "oreSpots s1 = [ex_near]" "smelter_hook s1 = False" "blockCount s1 = 1" "weightLimit s1 = 200"
    by auto
  from blocked_round[OF 1(2-4) _ 1(6)] 1(5) obtain s2 j2 where 2:
    "mine_round ?h 0 s1 = Returned (Continue True 0) s2"
    "gm s2 = ex_game\<lparr>journal := j2, LeftHand := Some ex_pickaxe\<rparr>"
    "oreSpots s2 = [ex_near]" "smelter_hook s2 = False" "blockCount s2 = 2" "weightLimit s2 = 200"
    by auto
  from blocked_round[OF 2(2-4) _ 2(6)] 2(5) obtain s3 j3 where 3:
    "mine_round ?h 0 s2 = Returned (Continue True 0) s3"
    "gm s3 = ex_game\<lparr>journal := j3, LeftHand := Some ex_pickaxe\<rparr>"
    "oreSpots s3 = [ex_near]" "smelter_hook s3 = False" "blockCount s3 = 3" "weightLimit s3 = 200"
    by auto
  from blocked_round_fourth[OF 3(2-6)] obtain s4 where 4:
    "mine_round ?h 0 s3 = Returned (Continue False 1) s4"
    by auto
  have three: "mine_loop (Suc (Suc (Suc n))) ?h True 0 (prospect ?h ex_miner) = mine_loop n ?h True 0 s3" for n
    by (simp add: mine_loop_step[OF go 1(1)] mine_loop_step[OF go 2(1)] mine_loop_step[OF go 3(1)])
  have "mine_loop 0 ?h True 0 s3 = None"
    by (subst mine_loop.simps) (simp add: maxAttempts_def)
  with three[of 0] show "mine_loop 3 ?h True 0 (prospect ?h ex_miner) = None"
    by (simp add: numeral_3_eq_3)
  have "mine_loop (Suc 0) ?h True 0 s3 = mine_loop 0 ?h False 1 s4"
    by (rule mine_loop_step[OF go 4(1)])
  also have "\<dots> = Some (Returned 1 s4)"
    by (subst mine_loop.simps) simp
  finally have "mine_loop (Suc (Suc (Suc (Suc 0)))) ?h True 0 (prospect ?h ex_miner) = Some (Returned 1 s4)"
    using three[of "Suc 0"] by simp
  then show "\<exists>s'. mine_loop 4 ?h True 0 (prospect ?h ex_miner) = Some (Returned 1 s')"
    by (auto simp: eval_nat_numeral)
qed

theorem attempts_never_exceed_maximum_witness:
  "loop_head ex_blocked_host ex_miner True 0 (prospect ex_blocked_host ex_miner)
   \<and> (\<exists>s'. mine_loop 4 ex_blocked_host True 0 (prospect ex_blocked_host ex_miner) = Some (Returned 1 s'))
   \<and> (1::int) < maxAttempts
   \<and> mine_loop 0 ex_blocked_host True maxAttempts (prospect ex_blocked_host ex_miner)
       = Some (Returned maxAttempts (prospect ex_blocked_host ex_miner))"
proof -
  note inst = attempts_never_exceed_maximum[OF loop_head.enter, of ex_blocked_host ex_miner]
  from blocked_run(2) obtain s' where run:
    "mine_loop 4 ex_blocked_host True 0 (prospect ex_blocked_host ex_miner) = Some (Returned 1 s')"
    by blast
  from inst[of 4] run have "(1::int) < maxAttempts" by blast
  with inst[of 0] run show ?thesis by (simp add: loop_head.enter)
qed

section \<open>The candidates are not touched during a visit\<close>

lemma Go_spots [simp]: "oreSpots (snd (Go h xy s)) = oreSpots s"
  by (simp add: Go_def split: prod.splits)

lemma Go_spots': "Go h xy s = (ok, s') \<Longrightarrow> oreSpots s' = oreSpots s"
  using Go_spots[of h xy s] by simp

lemma first_approach_spots: "first_approach h p s = (ok, s') \<Longrightarrow> oreSpots s' = oreSpots s"
  unfolding first_approach_def
  by (auto split: prod.splits if_splits dest!: Go_spots')

lemma retry_approach_spots [simp]: "oreSpots (retry_approach h p s) = oreSpots s"
  unfolding retry_approach_def
  by (auto split: prod.splits if_splits dest!: Go_spots')

lemma kept_spots: "kept s s' \<Longrightarrow> oreSpots s' = oreSpots s"
  by (simp add: kept_def)

lemma walk_spots: "walk h n s = Returned u s' \<Longrightarrow> oreSpots s' = oreSpots s"
proof (induction h n s rule: walk.induct)
  case (1 h pathlock s)
  from "1.prems" obtain p rest where spots: "oreSpots s = p # rest"
    by (subst (asm) walk.simps) (auto split: list.splits)
  show ?case
  proof (cases "RangeOreSpot (gm s) p")
    case True
    with "1.prems" spots show ?thesis
      by (subst (asm) walk.simps) auto
  next
    case False
    from "1.prems" spots False obtain u1 s1 u2 s2 where
      ce: "CheckEnemy h s = Returned u1 s1" and tr: "smelter_trigger h s1 = Returned u2 s2"
      by (subst (asm) walk.simps) (auto split: result.splits)
    have k: "oreSpots s2 = oreSpots s"
      using kept_CheckEnemy[OF disjI1, OF ce] smelter_trigger_kept[OF disjI1, OF tr] by (simp add: kept_def)
    show ?thesis
    proof (cases "pathlock + 1 > 350")
      case True
      with "1.prems" spots False ce tr have "s' = retry_approach h p (Misc_Pause h 100 s2)"
        by (subst (asm) walk.simps) auto
      then show ?thesis by (simp add: k)
    next
      case far: False
      with "1.prems" spots \<open>\<not> RangeOreSpot (gm s) p\<close> ce tr
      have "walk h (pathlock + 1) (Misc_Pause h 100 s2) = Returned u s'"
        by (subst (asm) walk.simps) auto
      from "1.IH"[OF spots \<open>\<not> RangeOreSpot (gm s) p\<close> ce tr far this] show ?thesis
        by (simp add: k)
    qed
  qed
qed

lemma MoveToOreSpot_spots: "MoveToOreSpot h s = Returned u s' \<Longrightarrow> oreSpots s' = oreSpots s"
  unfolding MoveToOreSpot_def Let_def
  by (auto split: list.splits prod.splits if_splits dest!: first_approach_spots walk_spots)

lemma beetle_by_serial_spots: "beetle_by_serial s = (r, s') \<Longrightarrow> oreSpots s' = oreSpots s"
  unfolding beetle_by_serial_def Let_def
  by (auto split: if_splits option.splits)

lemma GetBeetle_spots: "GetBeetle s = (r, s') \<Longrightarrow> oreSpots s' = oreSpots s"
  unfolding GetBeetle_def Let_def
  by (auto split: prod.splits option.splits if_splits dest!: beetle_by_serial_spots)

lemma move_item_spots: "oreSpots (snd (move_item h pack acc it)) = oreSpots (snd acc)"
  by (cases acc) (auto simp: move_item_def Let_def split: option.splits)

lemma foldl_move_item_spots: "oreSpots (snd (foldl (move_item h pack) acc its)) = oreSpots (snd acc)"
  by (induction its arbitrary: acc) (simp_all add: move_item_spots)

lemma Transfer_spots_snd [simp]: "oreSpots (snd (TransferItemsToBeetle h bm s)) = oreSpots s"
  by (simp add: TransferItemsToBeetle_def Let_def split_beta foldl_move_item_spots split: option.splits)

lemma Transfer_spots: "TransferItemsToBeetle h bm s = (r, s') \<Longrightarrow> oreSpots s' = oreSpots s"
  using Transfer_spots_snd[of h bm s] by simp

lemma wait_for_beetle_spots [simp]: "oreSpots (wait_for_beetle h bm n s) = oreSpots s"
proof (induction h bm n s rule: wait_for_beetle.induct)
  case (1 h bm wait_time s)
  show ?case
  proof (cases "wait_time < 5 \<and> \<not> Player_DistanceTo (gm s) bm \<le> 2")
    case True
    then have "wait_for_beetle h bm wait_time s =
        wait_for_beetle h bm (wait_time + 1)
          (SendMessage (''Waiting for beetle to come to us... '' @ fmt_i (int (wait_time + 1))
              @ ''/5 seconds (Distance: '' @ fmt_i (Player_DistanceTo (gm s) bm) @ '' tiles)'')
             (Misc_Pause h 1000 s))"
      by (subst wait_for_beetle.simps) (simp add: Let_def)
    with "1.IH"[of "Player_DistanceTo (gm s) bm"] True show ?thesis by simp
  next
    case False
    then show ?thesis by (subst wait_for_beetle.simps) (auto simp: Let_def)
  qed
qed

lemma try_offsets_spots [simp]: "oreSpots (snd (try_offsets h tx ty ds s)) = oreSpots s"
  by (induction ds arbitrary: s) (simp_all add: split_beta)

lemma issues_spots [simp]: "oreSpots (issues h cs s) = oreSpots s"
  using kept_issues[of s h cs] by (simp add: kept_def)

lemma approach_beetle_spots [simp]: "oreSpots (snd (approach_beetle h bm s)) = oreSpots s"
  by (simp add: approach_beetle_def Let_def split_beta del: try_offsets.simps split: bool.splits)

lemma GetBeetle_spots_snd [simp]: "oreSpots (snd (GetBeetle s)) = oreSpots s"
  using GetBeetle_spots[of s "fst (GetBeetle s)" "snd (GetBeetle s)"] by simp

lemma MoveToBeetle_spots_snd [simp]: "oreSpots (snd (MoveToBeetle h s)) = oreSpots s"
  by (simp add: MoveToBeetle_def Let_def split_beta split: option.splits)

lemma MoveToBeetle_spots: "MoveToBeetle h s = (r, s') \<Longrightarrow> oreSpots s' = oreSpots s"
  using MoveToBeetle_spots_snd[of h s] by simp

lemma prospect_spots [simp]: "oreSpots (prospect h s) = oreSpots s"
  by (simp add: prospect_def Let_def UseProspectorTool_def split: option.splits)

lemma drop_resource_spots [simp]: "oreSpots (drop_resource h s) = oreSpots s"
  by (simp add: drop_resource_def split: option.splits)

lemma MineOnce_outcome_spots: "MineOnce_outcome h s = Returned b s' \<Longrightarrow> oreSpots s' = oreSpots s"
  unfolding MineOnce_outcome_def Let_def mark_depleted_def
  by (auto split: if_splits prod.splits list.splits dest!: kept_EquipPickaxe simp: kept_def)

lemma MineOnce_spots: "MineOnce h s = Returned b s' \<Longrightarrow> oreSpots s' = oreSpots s"
  using MineOnce_Returned[of h s b s'] MineOnce_outcome_spots by fastforce

lemma return_to_spot_spots: "return_to_spot h s = Returned b s' \<Longrightarrow> oreSpots s' = oreSpots s"
  unfolding return_to_spot_def and_then_def
  by (auto split: if_splits result.splits dest!: MoveToOreSpot_spots smelter_trigger_kept[OF disjI1] simp: kept_def)

lemma offload_spots:
  assumes "offload h a s = Returned b s'"
  shows "oreSpots s' = oreSpots s"
proof (cases "Player_Weight (gm s) \<ge> weightLimit s - 40 \<or> (a > 0 \<and> a mod 8 = 0)")
  case False
  with assms show ?thesis by (simp add: offload_def)
next
  case True
  obtain moved s1 where mb: "MoveToBeetle h s = (moved, s1)" by (cases "MoveToBeetle h s")
  have s1: "oreSpots s1 = oreSpots s" by (rule MoveToBeetle_spots[OF mb])
  let ?s2 = "SendMessage ''--> Failed to transfer items to beetle, trying to continue mining'' s1"
  from assms True mb consider "return_to_spot h s1 = Returned b s'" | "return_to_spot h ?s2 = Returned b s'"
    | u where "smelter_trigger h (drop_resource h (SendMessage ''--> CRITICAL: Too heavy to move!'' ?s2)) = Returned u s'"
    by (cases moved) (auto simp: offload_def Let_def and_then_def split: if_splits result.splits)
  then show ?thesis
  proof cases
    case 1
    from return_to_spot_spots[OF 1] s1 show ?thesis by simp
  next
    case 2
    from return_to_spot_spots[OF 2] s1 show ?thesis by simp
  next
    case 3
    from smelter_trigger_kept[OF disjI1, OF 3] s1 show ?thesis by (simp add: kept_def)
  qed
qed

lemma mine_round_spots: "mine_round h a s = Returned r s' \<Longrightarrow> oreSpots s' = oreSpots s"
  unfolding mine_round_def and_then_def
  by (auto split: if_splits result.splits
      dest!: offload_spots MineOnce_spots smelter_trigger_kept[OF disjI1] simp: kept_def)

lemma mine_loop_spots:
  "mine_loop fuel h m a s = Some (Returned a' s') \<Longrightarrow> oreSpots s' = oreSpots s"
proof (induction fuel arbitrary: m a s)
  case 0
  then show ?case by (subst (asm) mine_loop.simps) (auto split: if_splits)
next
  case (Suc fuel)
  show ?case
  proof (cases "m \<and> a < maxAttempts")
    case False
    with Suc.prems show ?thesis by (subst (asm) mine_loop.simps) auto
  next
    case True
    with Suc.prems consider m1 a1 s1 where "mine_round h a s = Returned (Continue m1 a1) s1"
        "mine_loop fuel h m1 a1 s1 = Some (Returned a' s')"
      | "mine_round h a s = Returned Break s'"
      by (subst (asm) mine_loop.simps) (auto split: result.splits round.splits)
    then show ?thesis
    proof cases
      case 1
      from Suc.IH[OF 1(2)] mine_round_spots[OF 1(1)] show ?thesis by simp
    next
      case 2
      then show ?thesis by (rule mine_round_spots)
    qed
  qed
qed

lemma MineSpotUntilDepleted_spots:
  "MineSpotUntilDepleted fuel h s = Some (Returned u s') \<Longrightarrow> oreSpots s' = oreSpots s"
  unfolding MineSpotUntilDepleted_def
  by (auto split: option.splits result.splits if_splits dest!: mine_loop_spots)

section \<open>What can end a visit\<close>

lemma run_reply_Raised: "run_reply r s = Raised e s' \<Longrightarrow> \<exists>dt g. r = Throws e dt g"
  by (auto simp: run_reply_def split: reply.splits)

lemma smelter_trigger_Raised: "smelter_trigger h s = Raised e s' \<Longrightarrow> foreign_raise h e"
proof -
  assume "smelter_trigger h s = Raised e s'"
  then have "wrapped_smelter h s = Raised e s'"
    by (auto simp: smelter_trigger_def split: if_splits)
  from wrapped_smelter_raises_on_retry_only[OF this] obtain x where "smelter_run_call h x = Raised e s'"
    by blast
  then show ?thesis
    unfolding smelter_run_call_def foreign_raise_def by (blast dest: run_reply_Raised)
qed

lemma CheckEnemy_Raised: "CheckEnemy h s = Raised e s' \<Longrightarrow> foreign_raise h e"
  unfolding CheckEnemy_def foreign_raise_def
  by (auto split: option.splits dest!: run_reply_Raised)

lemma wait_outcome_foreign: "wait_outcome h s = Raised e s' \<Longrightarrow> foreign_raise h e"
  using wait_outcome_Raised smelter_trigger_Raised by blast

lemma MineOnce_outcome_Raised: "MineOnce_outcome h s = Raised e s' \<Longrightarrow> oreSpots s = []"
  unfolding MineOnce_outcome_def Let_def mark_depleted_def
  by (auto split: if_splits prod.splits list.splits)

lemma MineOnce_outcome_returns:
  assumes "oreSpots s \<noteq> []"
  shows "\<exists>b s'. MineOnce_outcome h s = Returned b s'"
proof (cases "MineOnce_outcome h s")
  case (Raised e s')
  from MineOnce_outcome_Raised[OF this] assms show ?thesis by simp
next
  case Diverged
  then show ?thesis
    unfolding MineOnce_outcome_def Let_def mark_depleted_def
    by (auto split: if_splits prod.splits list.splits)
qed blast

lemma MineOnce_swing_no_tool:
  assumes "truthy (fst (EquipPickaxe h (Journal_Clear h s))) = None"
  shows "MineOnce_swing h s = Raised (NameError ''name 'Stop' is not defined'')
           (SendMessage ''--> No mining tool available! Stopping script.'' (snd (EquipPickaxe h (Journal_Clear h s))))"
  using assms by (cases "EquipPickaxe h (Journal_Clear h s)") (simp add: MineOnce_swing_def Stop_def)

lemma MineOnce_swing_Raised:
  assumes "MineOnce_swing h s4 = Raised e s'" and "oreSpots s4 \<noteq> []"
  shows "no_tool_stop h e s' \<or> foreign_raise h e"
proof -
  obtain tool s5 where eq: "EquipPickaxe h (Journal_Clear h s4) = (tool, s5)"
    by (cases "EquipPickaxe h (Journal_Clear h s4)")
  have k5: "kept s4 s5"
    by (rule kept_trans[OF kept_Journal_Clear kept_EquipPickaxe[OF eq]])
  show ?thesis
  proof (cases "truthy tool")
    case None
    with assms(1) eq have "e = NameError ''name 'Stop' is not defined''"
      "s' = SendMessage ''--> No mining tool available! Stopping script.'' s5"
      by (simp_all add: MineOnce_swing_def Stop_def)
    with None eq have "no_tool_stop h e s'"
      unfolding no_tool_stop_def by (intro conjI exI[of _ "Journal_Clear h s4"]) simp_all
    then show ?thesis ..
  next
    case (Some pickaxe)
    define s6 where "s6 = issues h [TargetCancel, WaitForTarget 300, UseItem pickaxe, WaitForTarget 300] s5"
    have "oreSpots s6 \<noteq> []"
      using k5 assms(2) by (simp add: s6_def kept_def)
    then obtain p rest where spots: "oreSpots s6 = p # rest"
      by (meson list.exhaust)
    define s8 where "s8 = Timer_Create ''mineTimer'' 5000
        (Misc_Pause h 200 (issue h (TargetExecute (spot_x p) (spot_y p) (spot_z p) (spot_id p)) s6))"
    have g8: "oreSpots s8 = p # rest"
      using spots by (simp add: s8_def)
    from assms(1) eq Some spots
    have run: "and_then (wait_outcome h s8) (\<lambda>u s9. MineOnce_outcome h s9) = Raised e s'"
      by (simp add: MineOnce_swing_def Let_def s6_def s8_def)
    show ?thesis
    proof (cases "wait_outcome h s8")
      case (Returned u s9)
      with run have "MineOnce_outcome h s9 = Raised e s'" by (simp add: and_then_def)
      from MineOnce_outcome_Raised[OF this] wait_outcome_Returned[OF Returned] g8 show ?thesis
        by (simp add: kept_def)
    next
      case (Raised e1 s1)
      with run have "wait_outcome h s8 = Raised e s'" by (simp add: and_then_def)
      from wait_outcome_foreign[OF this] show ?thesis ..
    next
      case Diverged
      with run show ?thesis by (simp add: and_then_def)
    qed
  qed
qed

lemma MineOnce_Raised:
  assumes "MineOnce h s = Raised e s'" and "oreSpots s \<noteq> []"
  shows "no_tool_stop h e s' \<or> foreign_raise h e"
proof (cases "CheckEnemy h (MineOnce_prepare h s)")
  case (Returned u s3)
  have k3: "oreSpots s3 = oreSpots s"
    using kept_CheckEnemy[OF disjI1, OF Returned] kept_MineOnce_prepare[of s h] by (simp add: kept_def)
  show ?thesis
  proof (cases "smelter_trigger h s3")
    case tr: (Returned v s4)
    with Returned assms(1) have sw: "MineOnce_swing h s4 = Raised e s'"
      by (simp add: MineOnce_def and_then_def)
    have "oreSpots s4 \<noteq> []"
      using smelter_trigger_kept[OF disjI1, OF tr] k3 assms(2) by (simp add: kept_def)
    from MineOnce_swing_Raised[OF sw this] show ?thesis .
  next
    case (Raised e1 s1)
    with Returned assms(1) have "smelter_trigger h s3 = Raised e s'"
      by (simp add: MineOnce_def and_then_def)
    from smelter_trigger_Raised[OF this] show ?thesis ..
  next
    case Diverged
    with Returned assms(1) show ?thesis by (simp add: MineOnce_def and_then_def)
  qed
next
  case (Raised e1 s1)
  with assms(1) have "CheckEnemy h (MineOnce_prepare h s) = Raised e s'"
    by (simp add: MineOnce_def and_then_def)
  from CheckEnemy_Raised[OF this] show ?thesis ..
next
  case Diverged
  with assms(1) show ?thesis by (simp add: MineOnce_def and_then_def)
qed

lemma walk_Raised:
  assumes "walk h n s = Raised e s'" and "oreSpots s \<noteq> []"
  shows "foreign_raise h e"
  using assms
proof (induction h n s rule: walk.induct)
  case (1 h pathlock s)
  from "1.prems"(2) obtain p rest where spots: "oreSpots s = p # rest"
    by (meson list.exhaust)
  show ?case
  proof (cases "RangeOreSpot (gm s) p")
    case True
    with "1.prems" spots show ?thesis
      by (subst (asm) walk.simps) simp
  next
    case False
    show ?thesis
    proof (cases "CheckEnemy h s")
      case ce: (Returned u1 s1)
      show ?thesis
      proof (cases "smelter_trigger h s1")
        case tr: (Returned u2 s2)
        have k: "oreSpots s2 = oreSpots s"
          using kept_CheckEnemy[OF disjI1, OF ce] smelter_trigger_kept[OF disjI1, OF tr] by (simp add: kept_def)
        show ?thesis
        proof (cases "pathlock + 1 > 350")
          case True
          with "1.prems"(1) spots False ce tr show ?thesis
            by (subst (asm) walk.simps) simp
        next
          case far: False
          with "1.prems"(1) spots \<open>\<not> RangeOreSpot (gm s) p\<close> ce tr
          have run: "walk h (pathlock + 1) (Misc_Pause h 100 s2) = Raised e s'"
            by (subst (asm) walk.simps) simp
          have "oreSpots (Misc_Pause h 100 s2) \<noteq> []"
            using k spots by simp
          from "1.IH"[OF spots \<open>\<not> RangeOreSpot (gm s) p\<close> ce tr far run this] show ?thesis .
        qed
      next
        case (Raised e1 s1')
        with "1.prems"(1) spots False ce have "smelter_trigger h s1 = Raised e s'"
          by (subst (asm) walk.simps) simp
        then show ?thesis by (rule smelter_trigger_Raised)
      next
        case Diverged
        with "1.prems"(1) spots False ce show ?thesis
          by (subst (asm) walk.simps) simp
      qed
    next
      case (Raised e1 s1)
      with "1.prems"(1) spots False have "CheckEnemy h s = Raised e s'"
        by (subst (asm) walk.simps) simp
      then show ?thesis by (rule CheckEnemy_Raised)
    next
      case Diverged
      with "1.prems"(1) spots False show ?thesis
        by (subst (asm) walk.simps) simp
    qed
  qed
qed

lemma MoveToOreSpot_Raised:
  assumes "MoveToOreSpot h s = Raised e s'" and "oreSpots s \<noteq> []"
  shows "foreign_raise h e"
proof -
  from assms(2) obtain p rest where spots: "oreSpots s = p # rest"
    by (meson list.exhaust)
  define s1 where "s1 = issue h Resync
      (SendMessage (''--> Moving to Ore Spot: '' @ fmt_i (spot_x p) @ '', '' @ fmt_i (spot_y p)) s)"
  obtain ok s2 where fa: "first_approach h p s1 = (ok, s2)" by (cases "first_approach h p s1")
  from assms(1) spots fa have run: "walk h 0 (issue h Resync s2) = Raised e s'"
    by (auto simp: MoveToOreSpot_def Let_def s1_def split: if_splits)
  have "oreSpots (issue h Resync s2) \<noteq> []"
    using first_approach_spots[OF fa] spots by (simp add: s1_def)
  from walk_Raised[OF run this] show ?thesis .
qed

text \<open>When all four tries fail, \<^verbatim>\<open>MoveToOreSpot\<close> returns after the message of the last try.\<close>

lemma MoveToOreSpot_pathing_failure:
  assumes "oreSpots s = p # rest"
      and "first_approach h p (issue h Resync
             (SendMessage (''--> Moving to Ore Spot: '' @ fmt_i (spot_x p) @ '', '' @ fmt_i (spot_y p)) s)) = (False, s2)"
  shows "MoveToOreSpot h s = Returned () s2" and "''Final Try'' \<in> set (msgs s2)"
proof -
  show "MoveToOreSpot h s = Returned () s2"
    using assms by (simp add: MoveToOreSpot_def Let_def)
  have go: "Go h xy x = (ok, x') \<Longrightarrow> msgs x' = msgs x" for xy x ok x'
    by (auto simp: Go_def split: prod.splits)
  from assms(2) show "''Final Try'' \<in> set (msgs s2)"
    unfolding first_approach_def
    by (auto split: prod.splits if_splits dest!: go)
qed

lemma return_to_spot_Raised:
  assumes "return_to_spot h s = Raised e s'" and "oreSpots s \<noteq> []"
  shows "foreign_raise h e"
proof (cases "Player_Weight (gm s) < Player_MaxWeight (gm s) - 20")
  case True
  with assms(1) have "MoveToOreSpot h s = Raised e s'"
    by (auto simp: return_to_spot_def and_then_def split: result.splits)
  from MoveToOreSpot_Raised[OF this assms(2)] show ?thesis .
next
  case False
  with assms(1) have "smelter_trigger h (SendMessage ''--> Still too heavy to return to mining spot'' s) = Raised e s'"
    by (auto simp: return_to_spot_def and_then_def split: result.splits)
  then show ?thesis by (rule smelter_trigger_Raised)
qed

lemma offload_Raised:
  assumes "offload h a s = Raised e s'" and "oreSpots s \<noteq> []"
  shows "foreign_raise h e"
proof (cases "Player_Weight (gm s) \<ge> weightLimit s - 40 \<or> (a > 0 \<and> a mod 8 = 0)")
  case False
  with assms show ?thesis by (simp add: offload_def)
next
  case True
  obtain moved s1 where mb: "MoveToBeetle h s = (moved, s1)" by (cases "MoveToBeetle h s")
  have s1: "oreSpots s1 \<noteq> []" using MoveToBeetle_spots[OF mb] assms(2) by simp
  let ?s2 = "SendMessage ''--> Failed to transfer items to beetle, trying to continue mining'' s1"
  from assms(1) True mb consider "return_to_spot h s1 = Raised e s'" | "return_to_spot h ?s2 = Raised e s'"
    | "smelter_trigger h (drop_resource h (SendMessage ''--> CRITICAL: Too heavy to move!'' ?s2)) = Raised e s'"
    by (cases moved) (auto simp: offload_def Let_def and_then_def split: if_splits result.splits)
  then show ?thesis
  proof cases
    case 1
    from return_to_spot_Raised[OF 1 s1] show ?thesis .
  next
    case 2
    have "oreSpots ?s2 \<noteq> []" using s1 by simp
    from return_to_spot_Raised[OF 2 this] show ?thesis .
  next
    case 3
    then show ?thesis by (rule smelter_trigger_Raised)
  qed
qed

lemma mine_round_Raised:
  assumes "mine_round h a s = Raised e s'" and "oreSpots s \<noteq> []"
  shows "no_tool_stop h e s' \<or> foreign_raise h e"
proof (cases "smelter_trigger h s")
  case tr: (Returned u s1)
  define s1' where "s1' = (if a = 1 then Misc_Pause h 100 s1 else s1)"
  have ne1: "oreSpots s1' \<noteq> []"
    using smelter_trigger_kept[OF disjI1, OF tr] assms(2) by (simp add: s1'_def kept_def)
  show ?thesis
  proof (cases "offload h a s1'")
    case off: (Returned go s2)
    have ne2: "oreSpots s2 \<noteq> []" using offload_spots[OF off] ne1 by simp
    from assms(1) tr off have "MineOnce h s2 = Raised e s'"
      by (auto simp: mine_round_def and_then_def s1'_def split: if_splits result.splits)
    from MineOnce_Raised[OF this ne2] show ?thesis .
  next
    case (Raised e1 s2)
    with assms(1) tr have "offload h a s1' = Raised e s'"
      by (simp add: mine_round_def and_then_def s1'_def)
    from offload_Raised[OF this ne1] show ?thesis ..
  next
    case Diverged
    with assms(1) tr show ?thesis by (simp add: mine_round_def and_then_def s1'_def)
  qed
next
  case (Raised e1 s1)
  with assms(1) have "smelter_trigger h s = Raised e s'"
    by (simp add: mine_round_def and_then_def)
  from smelter_trigger_Raised[OF this] show ?thesis ..
next
  case Diverged
  with assms(1) show ?thesis by (simp add: mine_round_def and_then_def)
qed

lemma mine_loop_Raised:
  assumes "mine_loop fuel h m a s = Some (Raised e s')" and "oreSpots s \<noteq> []"
  shows "no_tool_stop h e s' \<or> foreign_raise h e"
  using assms
proof (induction fuel arbitrary: m a s)
  case 0
  then show ?case by (subst (asm) mine_loop.simps) (auto split: if_splits)
next
  case (Suc fuel)
  show ?case
  proof (cases "m \<and> a < maxAttempts")
    case False
    with Suc.prems show ?thesis by (subst (asm) mine_loop.simps) auto
  next
    case True
    with Suc.prems(1) consider m1 a1 s1 where "mine_round h a s = Returned (Continue m1 a1) s1"
        "mine_loop fuel h m1 a1 s1 = Some (Raised e s')"
      | "mine_round h a s = Raised e s'"
      by (subst (asm) mine_loop.simps) (auto split: result.splits round.splits)
    then show ?thesis
    proof cases
      case 1
      have "oreSpots s1 \<noteq> []" using mine_round_spots[OF 1(1)] Suc.prems(2) by simp
      from Suc.IH[OF 1(2) this] show ?thesis .
    next
      case 2
      from mine_round_Raised[OF 2 Suc.prems(2)] show ?thesis .
    qed
  qed
qed

lemma pop_resort_Raised: "pop_resort s = Raised e s' \<Longrightarrow> oreSpots s = []"
  by (auto simp: pop_resort_def split: list.splits)

lemma visit_Raised:
  assumes "visit fuel h s = Some (Raised e s')" and "oreSpots s \<noteq> []"
  shows "no_tool_stop h e s' \<or> foreign_raise h e"
proof (cases "smelter_trigger h s")
  case tr: (Returned u s1)
  have ne1: "oreSpots s1 \<noteq> []"
    using smelter_trigger_kept[OF disjI1, OF tr] assms(2) by (simp add: kept_def)
  show ?thesis
  proof (cases "MoveToOreSpot h s1")
    case mv: (Returned u2 s2)
    have ne2: "oreSpots (prospect h s2) \<noteq> []" using MoveToOreSpot_spots[OF mv] ne1 by simp
    from assms(1) tr mv consider "mine_loop fuel h True 0 (prospect h s2) = Some (Raised e s')"
      | a s3 where "mine_loop fuel h True 0 (prospect h s2) = Some (Returned a s3)"
          "and_then (smelter_trigger h (if a \<ge> maxAttempts
              then SendMessage ''--> Maximum mining attempts reached, moving to next spot'' s3 else s3))
             (\<lambda>u s4. pop_resort s4) = Raised e s'"
      by (auto simp: visit_def and_then_def MineSpotUntilDepleted_def split: option.splits result.splits)
    then show ?thesis
    proof cases
      case 1
      from mine_loop_Raised[OF 1 ne2] show ?thesis .
    next
      case 2
      define s3' where "s3' = (if a \<ge> maxAttempts
              then SendMessage ''--> Maximum mining attempts reached, moving to next spot'' s3 else s3)"
      have ne3: "oreSpots s3' \<noteq> []" using mine_loop_spots[OF 2(1)] ne2 by (simp add: s3'_def)
      from 2(2) consider "smelter_trigger h s3' = Raised e s'"
        | v s4 where "smelter_trigger h s3' = Returned v s4" "pop_resort s4 = Raised e s'"
        by (auto simp: and_then_def s3'_def split: result.splits)
      then show ?thesis
      proof cases
        case 1
        from smelter_trigger_Raised[OF this] show ?thesis ..
      next
        case 2
        from smelter_trigger_kept[OF disjI1, OF 2(1)] pop_resort_Raised[OF 2(2)] ne3 show ?thesis
          by (simp add: kept_def)
      qed
    qed
  next
    case (Raised e1 s2)
    with assms(1) tr have "MoveToOreSpot h s1 = Raised e s'"
      by (simp add: visit_def and_then_def)
    from MoveToOreSpot_Raised[OF this ne1] show ?thesis ..
  next
    case Diverged
    with assms(1) tr show ?thesis by (simp add: visit_def and_then_def)
  qed
next
  case (Raised e1 s1)
  with assms(1) have "smelter_trigger h s = Raised e s'"
    by (simp add: visit_def and_then_def)
  from smelter_trigger_Raised[OF this] show ?thesis ..
next
  case Diverged
  with assms(1) show ?thesis by (simp add: visit_def and_then_def)
qed

section \<open>Outcomes are absorbed, missing skill and tool are fatal\<close>

lemma FindPickaxe_msgs: "\<exists>ms. msgs (snd (FindPickaxe h s)) = msgs s @ ms"
  by (simp add: FindPickaxe_def split: option.splits)

lemma EquipPickaxe_msgs: "\<exists>ms. msgs (snd (EquipPickaxe h s)) = msgs s @ ms"
proof -
  obtain found s1 where f: "FindPickaxe h s = (found, s1)" by (cases "FindPickaxe h s")
  from FindPickaxe_msgs[of h s] f obtain ms where "msgs s1 = msgs s @ ms" by auto
  then show ?thesis
    by (auto simp: EquipPickaxe_def f Let_def split: option.splits)
qed

lemma outcome_reported:
  assumes "MineOnce_outcome h s = Returned b s'"
      and "observed s \<in> {MountBlocked, Depleted, ToolWorn, TimedOut} \<or> (observed s = Blocked \<and> 3 \<le> blockCount s)"
  shows "\<exists>m ms. msgs s' = msgs s @ m # ms"
proof -
  have md: "mark_depleted (SendMessage m x) = Returned b s' \<Longrightarrow> msgs s' = msgs x @ [m]" for m x
    by (auto simp: mark_depleted_def split: list.splits)
  have worn: "\<exists>ms. msgs (snd (EquipPickaxe h (SendMessage m s))) = msgs s @ m # ms" for m
    using EquipPickaxe_msgs[of h "SendMessage m s"] by simp
  from assms(2) consider "observed s = MountBlocked" | "observed s = Depleted" | "observed s = ToolWorn"
    | "observed s = TimedOut" | "observed s = Blocked" "3 \<le> blockCount s"
    by auto
  then show ?thesis
  proof cases
    case 1
    with assms(1) show ?thesis
      by (auto simp: observed_def MineOnce_outcome_def Let_def split: if_splits)
  next
    case 2
    with assms(1) have "mark_depleted (SendMessage ''--> Ore spot depleted'' s) = Returned b s'"
      by (auto simp: observed_def MineOnce_outcome_def Let_def split: if_splits)
    from md[OF this] show ?thesis by simp
  next
    case 3
    with assms(1) have "s' = snd (EquipPickaxe h (SendMessage ''--> Tool worn out, finding new pickaxe'' s))"
      by (auto simp: observed_def MineOnce_outcome_def Let_def split: if_splits prod.splits)
    with worn show ?thesis by blast
  next
    case 4
    with assms(1) have "mark_depleted (SendMessage ''--> Mining timed out, marking spot as depleted'' s) = Returned b s'"
      by (auto simp: observed_def MineOnce_outcome_def Let_def split: if_splits)
    from md[OF this] show ?thesis by simp
  next
    case 5
    with assms(1) have "mark_depleted (SendMessage ''--> Possible block detected, marking spot as depleted''
        (s\<lparr>blockCount := 0\<rparr>)) = Returned b s'"
      by (simp add: observed_Blocked_outcome)
    from md[OF this] show ?thesis by simp
  qed
qed

lemma offload_companion_unreachable:
  assumes "Player_Weight (gm s) \<ge> weightLimit s - 40 \<or> (a > 0 \<and> a mod 8 = 0)"
      and "MoveToBeetle h s = (False, s1)"
      and "\<not> Player_Weight (gm s1) \<ge> Player_MaxWeight (gm s1) - 10"
  shows "offload h a s = return_to_spot h
           (SendMessage ''--> Failed to transfer items to beetle, trying to continue mining'' s1)"
  using assms by (simp add: offload_def Let_def)

text \<open>
  Claim C8, as the code has it. The script stops itself in two places: at its start
  when the mining skill is below 40, and in \<^verbatim>\<open>MineOnce\<close> when no mining tool can be
  equipped. With a candidate to visit, an exception that ends \<^verbatim>\<open>MineOnce\<close> or a whole
  visit is that stop or was raised by code the script does not own. The chain over the
  outcomes of a swing always returns; depletion, a worn tool, a mounted player, a
  time-out and the block that reaches the threshold are each reported by a message,
  while a block below the threshold returns \<^verbatim>\<open>True\<close> without one. A walk whose four
  tries all fail returns after the message of the last try, and a failed offload is
  reported and the round goes on.
\<close>

theorem only_skill_and_tool_halt:
  "(Mining_Skill (gm s) < 40 \<longrightarrow>
      skill_check s = Raised (NameError ''name 'Stop' is not defined'') (SendMessage ''Mining skill too low, stopping'' s))
   \<and> (\<not> Mining_Skill (gm s) < 40 \<longrightarrow> skill_check s = Returned () s)
   \<and> (truthy (fst (EquipPickaxe h (Journal_Clear h s))) = None \<longrightarrow>
        MineOnce_swing h s = Raised (NameError ''name 'Stop' is not defined'')
          (SendMessage ''--> No mining tool available! Stopping script.'' (snd (EquipPickaxe h (Journal_Clear h s)))))
   \<and> (oreSpots s \<noteq> [] \<and> MineOnce h s = Raised e s' \<longrightarrow> no_tool_stop h e s' \<or> foreign_raise h e)
   \<and> (oreSpots s \<noteq> [] \<and> visit fuel h s = Some (Raised e s') \<longrightarrow> no_tool_stop h e s' \<or> foreign_raise h e)
   \<and> (oreSpots s \<noteq> [] \<longrightarrow> (\<exists>b s''. MineOnce_outcome h s = Returned b s''))
   \<and> (MineOnce_outcome h s = Returned b s'
        \<and> (observed s \<in> {MountBlocked, Depleted, ToolWorn, TimedOut} \<or> (observed s = Blocked \<and> 3 \<le> blockCount s))
        \<longrightarrow> (\<exists>m ms. msgs s' = msgs s @ m # ms))
   \<and> (observed s = Blocked \<and> blockCount s < 3 \<longrightarrow>
        MineOnce_outcome h s = Returned True (s\<lparr>blockCount := blockCount s + 1\<rparr>))
   \<and> (oreSpots s = p # rest
        \<and> first_approach h p (issue h Resync
             (SendMessage (''--> Moving to Ore Spot: '' @ fmt_i (spot_x p) @ '', '' @ fmt_i (spot_y p)) s)) = (False, s2)
        \<longrightarrow> MoveToOreSpot h s = Returned () s2 \<and> ''Final Try'' \<in> set (msgs s2))
   \<and> ((Player_Weight (gm s) \<ge> weightLimit s - 40 \<or> (a > 0 \<and> a mod 8 = 0))
        \<and> MoveToBeetle h s = (False, s1) \<and> \<not> Player_Weight (gm s1) \<ge> Player_MaxWeight (gm s1) - 10
        \<longrightarrow> offload h a s = return_to_spot h
              (SendMessage ''--> Failed to transfer items to beetle, trying to continue mining'' s1))"
proof (intro conjI impI)
  show "skill_check s = Raised (NameError ''name 'Stop' is not defined'') (SendMessage ''Mining skill too low, stopping'' s)"
    if "Mining_Skill (gm s) < 40"
    using that by (simp add: skill_check_def Stop_def)
  show "skill_check s = Returned () s" if "\<not> Mining_Skill (gm s) < 40"
    using that by (simp add: skill_check_def)
  show "MineOnce_swing h s = Raised (NameError ''name 'Stop' is not defined'')
          (SendMessage ''--> No mining tool available! Stopping script.'' (snd (EquipPickaxe h (Journal_Clear h s))))"
    if "truthy (fst (EquipPickaxe h (Journal_Clear h s))) = None"
    using that by (rule MineOnce_swing_no_tool)
  show "no_tool_stop h e s' \<or> foreign_raise h e" if "oreSpots s \<noteq> [] \<and> MineOnce h s = Raised e s'"
    using that MineOnce_Raised by blast
  show "no_tool_stop h e s' \<or> foreign_raise h e" if "oreSpots s \<noteq> [] \<and> visit fuel h s = Some (Raised e s')"
    using that visit_Raised by blast
  show "\<exists>b s''. MineOnce_outcome h s = Returned b s''" if "oreSpots s \<noteq> []"
    using that by (rule MineOnce_outcome_returns)
  show "\<exists>m ms. msgs s' = msgs s @ m # ms"
    if "MineOnce_outcome h s = Returned b s'
        \<and> (observed s \<in> {MountBlocked, Depleted, ToolWorn, TimedOut} \<or> (observed s = Blocked \<and> 3 \<le> blockCount s))"
    using that outcome_reported by blast
  show "MineOnce_outcome h s = Returned True (s\<lparr>blockCount := blockCount s + 1\<rparr>)"
    if "observed s = Blocked \<and> blockCount s < 3"
    using that by (simp add: observed_Blocked_outcome)
  assume path: "oreSpots s = p # rest
        \<and> first_approach h p (issue h Resync
             (SendMessage (''--> Moving to Ore Spot: '' @ fmt_i (spot_x p) @ '', '' @ fmt_i (spot_y p)) s)) = (False, s2)"
  from path MoveToOreSpot_pathing_failure[of s p rest h s2]
  show "MoveToOreSpot h s = Returned () s2" "''Final Try'' \<in> set (msgs s2)"
    by blast+
next
  assume far: "(Player_Weight (gm s) \<ge> weightLimit s - 40 \<or> (a > 0 \<and> a mod 8 = 0))
        \<and> MoveToBeetle h s = (False, s1) \<and> \<not> Player_Weight (gm s1) \<ge> Player_MaxWeight (gm s1) - 10"
  show "offload h a s = return_to_spot h
              (SendMessage ''--> Failed to transfer items to beetle, trying to continue mining'' s1)"
    by (rule offload_companion_unreachable) (use far in simp_all)
qed

theorem only_skill_and_tool_halt_witness:
  "skill_check ex_unskilled = Raised (NameError ''name 'Stop' is not defined'') (SendMessage ''Mining skill too low, stopping'' ex_unskilled)
   \<and> skill_check ex_state = Returned () ex_state
   \<and> (\<exists>s'. MineOnce_swing ex_host ex_no_tool = Raised (NameError ''name 'Stop' is not defined'') s'
            \<and> last (msgs s') = ''--> No mining tool available! Stopping script.'')
   \<and> (\<exists>b s'. MineOnce_outcome ex_host ex_depleted = Returned b s')"
proof -
  have low: "Mining_Skill (gm ex_unskilled) < 40" and ok: "\<not> Mining_Skill (gm ex_state) < 40"
    by (simp_all add: ex_unskilled_def ex_state_def ex_game_def)
  have none: "truthy (fst (EquipPickaxe ex_host (Journal_Clear ex_host ex_no_tool))) = None"
    by (simp add: EquipPickaxe_def FindPickaxe_def hand_tool_def Journal_Clear_def truthy_def
        ex_no_tool_def ex_state_def ex_game_def ex_host_def)
  have spots: "oreSpots ex_depleted \<noteq> []"
    by (simp add: ex_depleted_facts)
  from only_skill_and_tool_halt[of ex_unskilled ex_host] low
  have 1: "skill_check ex_unskilled = Raised (NameError ''name 'Stop' is not defined'') (SendMessage ''Mining skill too low, stopping'' ex_unskilled)"
    by blast
  from only_skill_and_tool_halt[of ex_state ex_host] ok
  have 2: "skill_check ex_state = Returned () ex_state"
    by blast
  from only_skill_and_tool_halt[of ex_no_tool ex_host] none
  have "MineOnce_swing ex_host ex_no_tool = Raised (NameError ''name 'Stop' is not defined'')
      (SendMessage ''--> No mining tool available! Stopping script.''
         (snd (EquipPickaxe ex_host (Journal_Clear ex_host ex_no_tool))))"
    by blast
  then have 3: "\<exists>s'. MineOnce_swing ex_host ex_no_tool = Raised (NameError ''name 'Stop' is not defined'') s'
            \<and> last (msgs s') = ''--> No mining tool available! Stopping script.''"
    by simp
  from only_skill_and_tool_halt[of ex_depleted ex_host] spots
  have 4: "\<exists>b s'. MineOnce_outcome ex_host ex_depleted = Returned b s'"
    by blast
  from 1 2 3 4 show ?thesis by blast
qed

text \<open>
  Claim C8 as the specification states it fails in one point: a blocked swing below the
  threshold is absorbed without a message. The chain returns \<^verbatim>\<open>True\<close> and leaves the
  messages as they were, and the whole swing sends one message only, the one that
  names the tool found.
\<close>

theorem blocked_swing_is_silent:
  "observed ex_blocked = Blocked \<and> blockCount ex_blocked < 3
   \<and> MineOnce_outcome ex_host ex_blocked = Returned True (ex_blocked\<lparr>blockCount := 1\<rparr>)
   \<and> msgs (ex_blocked\<lparr>blockCount := 1\<rparr>) = msgs ex_blocked
   \<and> (\<exists>s'. MineOnce ex_blocked_host ex_miner = Returned True s'
          \<and> msgs s' = [''--> Found equipped mining tool: pickaxe''])"
proof -
  have 1: "MineOnce_outcome ex_host ex_blocked = Returned True (ex_blocked\<lparr>blockCount := 1\<rparr>)"
    using observed_Blocked_outcome[OF ex_blocked_facts(1), of ex_host] by (simp add: ex_blocked_facts)
  have m0: "gm ex_miner = ex_game\<lparr>journal := [], LeftHand := Some ex_pickaxe\<rparr>"
    "oreSpots ex_miner = [ex_near]" "smelter_hook ex_miner = False" "blockCount ex_miner < 3"
    "msgs ex_miner = []"
    by (simp_all add: ex_miner_def ex_state_def ex_game_def)
  from blocked_swing[OF m0(1-4)] m0(5)
  have 2: "\<exists>s'. MineOnce ex_blocked_host ex_miner = Returned True s'
          \<and> msgs s' = [''--> Found equipped mining tool: pickaxe'']"
    by auto
  from 1 2 ex_blocked_facts show ?thesis by simp
qed

end
